theory Spec2Isabelle
  imports Complex_Main "HOL-Library.Log_Nat"
begin

section \<open>Strings and numbers of the chat endpoint\<close>

text \<open>
  The chat endpoint is the \<open>POST\<close> handler of \<open>/api/chat\<close> (the second document of
  \<open>src/app/api/menu-scan/route.ts\<close>). A JavaScript string is modelled as the list of its
  UTF-16 code units, each a natural number; \<open>str\<close> turns an ASCII literal into such a list.
\<close>

type_synonym jsstring = "nat list"

definition str :: "string \<Rightarrow> jsstring" where
  "str s = map of_char s"

subsection \<open>Letter case\<close>

text \<open>
  \<open>String.prototype.toLowerCase\<close> and \<open>toUpperCase\<close> convert the code points of the string
  by the Unicode default case conversion: the simple mappings of the character database,
  the unconditional special mappings (capital I with dot above becomes two code points in
  lower case; sharp s, the ligatures and some Greek and Armenian letters become several in
  upper case), and the one conditional mapping that does not depend on a language: capital
  sigma becomes final sigma at the end of a word. The tables are those of Unicode 14.0; a row
  \<open>(lo, hi, step, d)\<close> maps the code points \<open>lo, lo + step, \<dots>, hi\<close> to themselves plus \<open>d\<close>.
\<close>

definition lower_rows :: "(nat \<times> nat \<times> nat \<times> int) list" where
  "lower_rows =
     [(65, 90, 1, 32), (192, 214, 1, 32), (216, 222, 1, 32), (256, 302, 2, 1),
      (306, 310, 2, 1), (313, 327, 2, 1), (330, 374, 2, 1), (376, 376, 1, - 121),
      (377, 381, 2, 1), (385, 385, 1, 210), (386, 388, 2, 1), (390, 390, 1, 206),
      (391, 391, 1, 1), (393, 394, 1, 205), (395, 395, 1, 1), (398, 398, 1, 79),
      (399, 399, 1, 202), (400, 400, 1, 203), (401, 401, 1, 1), (403, 403, 1, 205),
      (404, 404, 1, 207), (406, 406, 1, 211), (407, 407, 1, 209), (408, 408, 1, 1),
      (412, 412, 1, 211), (413, 413, 1, 213), (415, 415, 1, 214), (416, 420, 2, 1),
      (422, 422, 1, 218), (423, 423, 1, 1), (425, 425, 1, 218), (428, 428, 1, 1),
      (430, 430, 1, 218), (431, 431, 1, 1), (433, 434, 1, 217), (435, 437, 2, 1),
      (439, 439, 1, 219), (440, 440, 1, 1), (444, 444, 1, 1), (452, 452, 1, 2),
      (453, 453, 1, 1), (455, 455, 1, 2), (456, 456, 1, 1), (458, 458, 1, 2),
      (459, 475, 2, 1), (478, 494, 2, 1), (497, 497, 1, 2), (498, 500, 2, 1),
      (502, 502, 1, - 97), (503, 503, 1, - 56), (504, 542, 2, 1), (544, 544, 1, - 130),
      (546, 562, 2, 1), (570, 570, 1, 10795), (571, 571, 1, 1), (573, 573, 1, - 163),
      (574, 574, 1, 10792), (577, 577, 1, 1), (579, 579, 1, - 195), (580, 580, 1, 69),
      (581, 581, 1, 71), (582, 590, 2, 1), (880, 882, 2, 1), (886, 886, 1, 1),
      (895, 895, 1, 116), (902, 902, 1, 38), (904, 906, 1, 37), (908, 908, 1, 64),
      (910, 911, 1, 63), (913, 929, 1, 32), (931, 939, 1, 32), (975, 975, 1, 8),
      (984, 1006, 2, 1), (1012, 1012, 1, - 60), (1015, 1015, 1, 1), (1017, 1017, 1, - 7),
      (1018, 1018, 1, 1), (1021, 1023, 1, - 130), (1024, 1039, 1, 80), (1040, 1071, 1, 32),
      (1120, 1152, 2, 1), (1162, 1214, 2, 1), (1216, 1216, 1, 15), (1217, 1229, 2, 1),
      (1232, 1326, 2, 1), (1329, 1366, 1, 48), (4256, 4293, 1, 7264), (4295, 4295, 1, 7264),
      (4301, 4301, 1, 7264), (5024, 5103, 1, 38864), (5104, 5109, 1, 8), (7312, 7354, 1, - 3008),
      (7357, 7359, 1, - 3008), (7680, 7828, 2, 1), (7838, 7838, 1, - 7615), (7840, 7934, 2, 1),
      (7944, 7951, 1, - 8), (7960, 7965, 1, - 8), (7976, 7983, 1, - 8), (7992, 7999, 1, - 8),
      (8008, 8013, 1, - 8), (8025, 8031, 2, - 8), (8040, 8047, 1, - 8), (8072, 8079, 1, - 8),
      (8088, 8095, 1, - 8), (8104, 8111, 1, - 8), (8120, 8121, 1, - 8), (8122, 8123, 1, - 74),
      (8124, 8124, 1, - 9), (8136, 8139, 1, - 86), (8140, 8140, 1, - 9), (8152, 8153, 1, - 8),
      (8154, 8155, 1, - 100), (8168, 8169, 1, - 8), (8170, 8171, 1, - 112), (8172, 8172, 1, - 7),
      (8184, 8185, 1, - 128), (8186, 8187, 1, - 126), (8188, 8188, 1, - 9), (8486, 8486, 1, - 7517),
      (8490, 8490, 1, - 8383), (8491, 8491, 1, - 8262), (8498, 8498, 1, 28), (8544, 8559, 1, 16),
      (8579, 8579, 1, 1), (9398, 9423, 1, 26), (11264, 11311, 1, 48), (11360, 11360, 1, 1),
      (11362, 11362, 1, - 10743), (11363, 11363, 1, - 3814), (11364, 11364, 1, - 10727), (11367, 11371, 2, 1),
      (11373, 11373, 1, - 10780), (11374, 11374, 1, - 10749), (11375, 11375, 1, - 10783), (11376, 11376, 1, - 10782),
      (11378, 11378, 1, 1), (11381, 11381, 1, 1), (11390, 11391, 1, - 10815), (11392, 11490, 2, 1),
      (11499, 11501, 2, 1), (11506, 11506, 1, 1), (42560, 42604, 2, 1), (42624, 42650, 2, 1),
      (42786, 42798, 2, 1), (42802, 42862, 2, 1), (42873, 42875, 2, 1), (42877, 42877, 1, - 35332),
      (42878, 42886, 2, 1), (42891, 42891, 1, 1), (42893, 42893, 1, - 42280), (42896, 42898, 2, 1),
      (42902, 42920, 2, 1), (42922, 42922, 1, - 42308), (42923, 42923, 1, - 42319), (42924, 42924, 1, - 42315),
      (42925, 42925, 1, - 42305), (42926, 42926, 1, - 42308), (42928, 42928, 1, - 42258), (42929, 42929, 1, - 42282),
      (42930, 42930, 1, - 42261), (42931, 42931, 1, 928), (42932, 42946, 2, 1), (42948, 42948, 1, - 48),
      (42949, 42949, 1, - 42307), (42950, 42950, 1, - 35384), (42951, 42953, 2, 1), (42960, 42960, 1, 1),
      (42966, 42968, 2, 1), (42997, 42997, 1, 1), (65313, 65338, 1, 32), (66560, 66599, 1, 40),
      (66736, 66771, 1, 40), (66928, 66938, 1, 39), (66940, 66954, 1, 39), (66956, 66962, 1, 39),
      (66964, 66965, 1, 39), (68736, 68786, 1, 64), (71840, 71871, 1, 32), (93760, 93791, 1, 32),
      (125184, 125217, 1, 34)]"

definition upper_rows :: "(nat \<times> nat \<times> nat \<times> int) list" where
  "upper_rows =
     [(97, 122, 1, - 32), (181, 181, 1, 743), (224, 246, 1, - 32), (248, 254, 1, - 32),
      (255, 255, 1, 121), (257, 303, 2, - 1), (305, 305, 1, - 232), (307, 311, 2, - 1),
      (314, 328, 2, - 1), (331, 375, 2, - 1), (378, 382, 2, - 1), (383, 383, 1, - 300),
      (384, 384, 1, 195), (387, 389, 2, - 1), (392, 392, 1, - 1), (396, 396, 1, - 1),
      (402, 402, 1, - 1), (405, 405, 1, 97), (409, 409, 1, - 1), (410, 410, 1, 163),
      (414, 414, 1, 130), (417, 421, 2, - 1), (424, 424, 1, - 1), (429, 429, 1, - 1),
      (432, 432, 1, - 1), (436, 438, 2, - 1), (441, 441, 1, - 1), (445, 445, 1, - 1),
      (447, 447, 1, 56), (453, 453, 1, - 1), (454, 454, 1, - 2), (456, 456, 1, - 1),
      (457, 457, 1, - 2), (459, 459, 1, - 1), (460, 460, 1, - 2), (462, 476, 2, - 1),
      (477, 477, 1, - 79), (479, 495, 2, - 1), (498, 498, 1, - 1), (499, 499, 1, - 2),
      (501, 501, 1, - 1), (505, 543, 2, - 1), (547, 563, 2, - 1), (572, 572, 1, - 1),
      (575, 576, 1, 10815), (578, 578, 1, - 1), (583, 591, 2, - 1), (592, 592, 1, 10783),
      (593, 593, 1, 10780), (594, 594, 1, 10782), (595, 595, 1, - 210), (596, 596, 1, - 206),
      (598, 599, 1, - 205), (601, 601, 1, - 202), (603, 603, 1, - 203), (604, 604, 1, 42319),
      (608, 608, 1, - 205), (609, 609, 1, 42315), (611, 611, 1, - 207), (613, 613, 1, 42280),
      (614, 614, 1, 42308), (616, 616, 1, - 209), (617, 617, 1, - 211), (618, 618, 1, 42308),
      (619, 619, 1, 10743), (620, 620, 1, 42305), (623, 623, 1, - 211), (625, 625, 1, 10749),
      (626, 626, 1, - 213), (629, 629, 1, - 214), (637, 637, 1, 10727), (640, 640, 1, - 218),
      (642, 642, 1, 42307), (643, 643, 1, - 218), (647, 647, 1, 42282), (648, 648, 1, - 218),
      (649, 649, 1, - 69), (650, 651, 1, - 217), (652, 652, 1, - 71), (658, 658, 1, - 219),
      (669, 669, 1, 42261), (670, 670, 1, 42258), (837, 837, 1, 84), (881, 883, 2, - 1),
      (887, 887, 1, - 1), (891, 893, 1, 130), (940, 940, 1, - 38), (941, 943, 1, - 37),
      (945, 961, 1, - 32), (962, 962, 1, - 31), (963, 971, 1, - 32), (972, 972, 1, - 64),
      (973, 974, 1, - 63), (976, 976, 1, - 62), (977, 977, 1, - 57), (981, 981, 1, - 47),
      (982, 982, 1, - 54), (983, 983, 1, - 8), (985, 1007, 2, - 1), (1008, 1008, 1, - 86),
      (1009, 1009, 1, - 80), (1010, 1010, 1, 7), (1011, 1011, 1, - 116), (1013, 1013, 1, - 96),
      (1016, 1016, 1, - 1), (1019, 1019, 1, - 1), (1072, 1103, 1, - 32), (1104, 1119, 1, - 80),
      (1121, 1153, 2, - 1), (1163, 1215, 2, - 1), (1218, 1230, 2, - 1), (1231, 1231, 1, - 15),
      (1233, 1327, 2, - 1), (1377, 1414, 1, - 48), (4304, 4346, 1, 3008), (4349, 4351, 1, 3008),
      (5112, 5117, 1, - 8), (7296, 7296, 1, - 6254), (7297, 7297, 1, - 6253), (7298, 7298, 1, - 6244),
      (7299, 7300, 1, - 6242), (7301, 7301, 1, - 6243), (7302, 7302, 1, - 6236), (7303, 7303, 1, - 6181),
      (7304, 7304, 1, 35266), (7545, 7545, 1, 35332), (7549, 7549, 1, 3814), (7566, 7566, 1, 35384),
      (7681, 7829, 2, - 1), (7835, 7835, 1, - 59), (7841, 7935, 2, - 1), (7936, 7943, 1, 8),
      (7952, 7957, 1, 8), (7968, 7975, 1, 8), (7984, 7991, 1, 8), (8000, 8005, 1, 8),
      (8017, 8023, 2, 8), (8032, 8039, 1, 8), (8048, 8049, 1, 74), (8050, 8053, 1, 86),
      (8054, 8055, 1, 100), (8056, 8057, 1, 128), (8058, 8059, 1, 112), (8060, 8061, 1, 126),
      (8112, 8113, 1, 8), (8126, 8126, 1, - 7205), (8144, 8145, 1, 8), (8160, 8161, 1, 8),
      (8165, 8165, 1, 7), (8526, 8526, 1, - 28), (8560, 8575, 1, - 16), (8580, 8580, 1, - 1),
      (9424, 9449, 1, - 26), (11312, 11359, 1, - 48), (11361, 11361, 1, - 1), (11365, 11365, 1, - 10795),
      (11366, 11366, 1, - 10792), (11368, 11372, 2, - 1), (11379, 11379, 1, - 1), (11382, 11382, 1, - 1),
      (11393, 11491, 2, - 1), (11500, 11502, 2, - 1), (11507, 11507, 1, - 1), (11520, 11557, 1, - 7264),
      (11559, 11559, 1, - 7264), (11565, 11565, 1, - 7264), (42561, 42605, 2, - 1), (42625, 42651, 2, - 1),
      (42787, 42799, 2, - 1), (42803, 42863, 2, - 1), (42874, 42876, 2, - 1), (42879, 42887, 2, - 1),
      (42892, 42892, 1, - 1), (42897, 42899, 2, - 1), (42900, 42900, 1, 48), (42903, 42921, 2, - 1),
      (42933, 42947, 2, - 1), (42952, 42954, 2, - 1), (42961, 42961, 1, - 1), (42967, 42969, 2, - 1),
      (42998, 42998, 1, - 1), (43859, 43859, 1, - 928), (43888, 43967, 1, - 38864), (65345, 65370, 1, - 32),
      (66600, 66639, 1, - 40), (66776, 66811, 1, - 40), (66967, 66977, 1, - 39), (66979, 66993, 1, - 39),
      (66995, 67001, 1, - 39), (67003, 67004, 1, - 39), (68800, 68850, 1, - 64), (71872, 71903, 1, - 32),
      (93792, 93823, 1, - 32), (125218, 125251, 1, - 34)]"

definition upper_special :: "(nat \<times> nat list) list" where
  "upper_special =
     [(223, [83, 83]), (329, [700, 78]), (496, [74, 780]), (912, [921, 776, 769]),
      (944, [933, 776, 769]), (1415, [1333, 1362]), (7830, [72, 817]), (7831, [84, 776]),
      (7832, [87, 778]), (7833, [89, 778]), (7834, [65, 702]), (8016, [933, 787]),
      (8018, [933, 787, 768]), (8020, [933, 787, 769]), (8022, [933, 787, 834]), (8064, [7944, 921]),
      (8065, [7945, 921]), (8066, [7946, 921]), (8067, [7947, 921]), (8068, [7948, 921]),
      (8069, [7949, 921]), (8070, [7950, 921]), (8071, [7951, 921]), (8072, [7944, 921]),
      (8073, [7945, 921]), (8074, [7946, 921]), (8075, [7947, 921]), (8076, [7948, 921]),
      (8077, [7949, 921]), (8078, [7950, 921]), (8079, [7951, 921]), (8080, [7976, 921]),
      (8081, [7977, 921]), (8082, [7978, 921]), (8083, [7979, 921]), (8084, [7980, 921]),
      (8085, [7981, 921]), (8086, [7982, 921]), (8087, [7983, 921]), (8088, [7976, 921]),
      (8089, [7977, 921]), (8090, [7978, 921]), (8091, [7979, 921]), (8092, [7980, 921]),
      (8093, [7981, 921]), (8094, [7982, 921]), (8095, [7983, 921]), (8096, [8040, 921]),
      (8097, [8041, 921]), (8098, [8042, 921]), (8099, [8043, 921]), (8100, [8044, 921]),
      (8101, [8045, 921]), (8102, [8046, 921]), (8103, [8047, 921]), (8104, [8040, 921]),
      (8105, [8041, 921]), (8106, [8042, 921]), (8107, [8043, 921]), (8108, [8044, 921]),
      (8109, [8045, 921]), (8110, [8046, 921]), (8111, [8047, 921]), (8114, [8122, 921]),
      (8115, [913, 921]), (8116, [902, 921]), (8118, [913, 834]), (8119, [913, 834, 921]),
      (8124, [913, 921]), (8130, [8138, 921]), (8131, [919, 921]), (8132, [905, 921]),
      (8134, [919, 834]), (8135, [919, 834, 921]), (8140, [919, 921]), (8146, [921, 776, 768]),
      (8147, [921, 776, 769]), (8150, [921, 834]), (8151, [921, 776, 834]), (8162, [933, 776, 768]),
      (8163, [933, 776, 769]), (8164, [929, 787]), (8166, [933, 834]), (8167, [933, 776, 834]),
      (8178, [8186, 921]), (8179, [937, 921]), (8180, [911, 921]), (8182, [937, 834]),
      (8183, [937, 834, 921]), (8188, [937, 921]), (64256, [70, 70]), (64257, [70, 73]),
      (64258, [70, 76]), (64259, [70, 70, 73]), (64260, [70, 70, 76]), (64261, [83, 84]),
      (64262, [83, 84]), (64275, [1348, 1350]), (64276, [1348, 1333]), (64277, [1348, 1339]),
      (64278, [1358, 1350]), (64279, [1348, 1341])]"

definition case_ignorable_ranges :: "(nat \<times> nat) list" where
  "case_ignorable_ranges =
     [(39, 39), (46, 46), (58, 58), (94, 94), (96, 96), (168, 168),
      (173, 173), (175, 175), (180, 180), (183, 184), (688, 879), (884, 885),
      (890, 890), (900, 901), (903, 903), (1155, 1161), (1369, 1369), (1375, 1375),
      (1425, 1469), (1471, 1471), (1473, 1474), (1476, 1477), (1479, 1479), (1524, 1524),
      (1536, 1541), (1552, 1562), (1564, 1564), (1600, 1600), (1611, 1631), (1648, 1648),
      (1750, 1757), (1759, 1768), (1770, 1773), (1807, 1807), (1809, 1809), (1840, 1866),
      (1958, 1968), (2027, 2037), (2042, 2042), (2045, 2045), (2070, 2093), (2137, 2139),
      (2184, 2184), (2192, 2193), (2200, 2207), (2249, 2306), (2362, 2362), (2364, 2364),
      (2369, 2376), (2381, 2381), (2385, 2391), (2402, 2403), (2417, 2417), (2433, 2433),
      (2492, 2492), (2497, 2500), (2509, 2509), (2530, 2531), (2558, 2558), (2561, 2562),
      (2620, 2620), (2625, 2626), (2631, 2632), (2635, 2637), (2641, 2641), (2672, 2673),
      (2677, 2677), (2689, 2690), (2748, 2748), (2753, 2757), (2759, 2760), (2765, 2765),
      (2786, 2787), (2810, 2815), (2817, 2817), (2876, 2876), (2879, 2879), (2881, 2884),
      (2893, 2893), (2901, 2902), (2914, 2915), (2946, 2946), (3008, 3008), (3021, 3021),
      (3072, 3072), (3076, 3076), (3132, 3132), (3134, 3136), (3142, 3144), (3146, 3149),
      (3157, 3158), (3170, 3171), (3201, 3201), (3260, 3260), (3263, 3263), (3270, 3270),
      (3276, 3277), (3298, 3299), (3328, 3329), (3387, 3388), (3393, 3396), (3405, 3405),
      (3426, 3427), (3457, 3457), (3530, 3530), (3538, 3540), (3542, 3542), (3633, 3633),
      (3636, 3642), (3654, 3662), (3761, 3761), (3764, 3772), (3782, 3782), (3784, 3789),
      (3864, 3865), (3893, 3893), (3895, 3895), (3897, 3897), (3953, 3966), (3968, 3972),
      (3974, 3975), (3981, 3991), (3993, 4028), (4038, 4038), (4141, 4144), (4146, 4151),
      (4153, 4154), (4157, 4158), (4184, 4185), (4190, 4192), (4209, 4212), (4226, 4226),
      (4229, 4230), (4237, 4237), (4253, 4253), (4348, 4348), (4957, 4959), (5906, 5908),
      (5938, 5939), (5970, 5971), (6002, 6003), (6068, 6069), (6071, 6077), (6086, 6086),
      (6089, 6099), (6103, 6103), (6109, 6109), (6155, 6159), (6211, 6211), (6277, 6278),
      (6313, 6313), (6432, 6434), (6439, 6440), (6450, 6450), (6457, 6459), (6679, 6680),
      (6683, 6683), (6742, 6742), (6744, 6750), (6752, 6752), (6754, 6754), (6757, 6764),
      (6771, 6780), (6783, 6783), (6823, 6823), (6832, 6862), (6912, 6915), (6964, 6964),
      (6966, 6970), (6972, 6972), (6978, 6978), (7019, 7027), (7040, 7041), (7074, 7077),
      (7080, 7081), (7083, 7085), (7142, 7142), (7144, 7145), (7149, 7149), (7151, 7153),
      (7212, 7219), (7222, 7223), (7288, 7293), (7376, 7378), (7380, 7392), (7394, 7400),
      (7405, 7405), (7412, 7412), (7416, 7417), (7468, 7530), (7544, 7544), (7579, 7679),
      (8125, 8125), (8127, 8129), (8141, 8143), (8157, 8159), (8173, 8175), (8189, 8190),
      (8203, 8207), (8216, 8217), (8228, 8228), (8231, 8231), (8234, 8238), (8288, 8292),
      (8294, 8303), (8305, 8305), (8319, 8319), (8336, 8348), (8400, 8432), (11388, 11389),
      (11503, 11505), (11631, 11631), (11647, 11647), (11744, 11775), (11823, 11823), (12293, 12293),
      (12330, 12333), (12337, 12341), (12347, 12347), (12441, 12446), (12540, 12542), (40981, 40981),
      (42232, 42237), (42508, 42508), (42607, 42610), (42612, 42621), (42623, 42623), (42652, 42655),
      (42736, 42737), (42752, 42785), (42864, 42864), (42888, 42890), (42994, 42996), (43000, 43001),
      (43010, 43010), (43014, 43014), (43019, 43019), (43045, 43046), (43052, 43052), (43204, 43205),
      (43232, 43249), (43263, 43263), (43302, 43309), (43335, 43345), (43392, 43394), (43443, 43443),
      (43446, 43449), (43452, 43453), (43471, 43471), (43493, 43494), (43561, 43566), (43569, 43570),
      (43573, 43574), (43587, 43587), (43596, 43596), (43632, 43632), (43644, 43644), (43696, 43696),
      (43698, 43700), (43703, 43704), (43710, 43711), (43713, 43713), (43741, 43741), (43756, 43757),
      (43763, 43764), (43766, 43766), (43867, 43871), (43881, 43883), (44005, 44005), (44008, 44008),
      (44013, 44013), (64286, 64286), (64434, 64450), (65024, 65039), (65043, 65043), (65056, 65071),
      (65106, 65106), (65109, 65109), (65279, 65279), (65287, 65287), (65294, 65294), (65306, 65306),
      (65342, 65342), (65344, 65344), (65392, 65392), (65438, 65439), (65507, 65507), (65529, 65531),
      (66045, 66045), (66272, 66272), (66422, 66426), (67456, 67461), (67463, 67504), (67506, 67514),
      (68097, 68099), (68101, 68102), (68108, 68111), (68152, 68154), (68159, 68159), (68325, 68326),
      (68900, 68903), (69291, 69292), (69446, 69456), (69506, 69509), (69633, 69633), (69688, 69702),
      (69744, 69744), (69747, 69748), (69759, 69761), (69811, 69814), (69817, 69818), (69821, 69821),
      (69826, 69826), (69837, 69837), (69888, 69890), (69927, 69931), (69933, 69940), (70003, 70003),
      (70016, 70017), (70070, 70078), (70089, 70092), (70095, 70095), (70191, 70193), (70196, 70196),
      (70198, 70199), (70206, 70206), (70367, 70367), (70371, 70378), (70400, 70401), (70459, 70460),
      (70464, 70464), (70502, 70508), (70512, 70516), (70712, 70719), (70722, 70724), (70726, 70726),
      (70750, 70750), (70835, 70840), (70842, 70842), (70847, 70848), (70850, 70851), (71090, 71093),
      (71100, 71101), (71103, 71104), (71132, 71133), (71219, 71226), (71229, 71229), (71231, 71232),
      (71339, 71339), (71341, 71341), (71344, 71349), (71351, 71351), (71453, 71455), (71458, 71461),
      (71463, 71467), (71727, 71735), (71737, 71738), (71995, 71996), (71998, 71998), (72003, 72003),
      (72148, 72151), (72154, 72155), (72160, 72160), (72193, 72202), (72243, 72248), (72251, 72254),
      (72263, 72263), (72273, 72278), (72281, 72283), (72330, 72342), (72344, 72345), (72752, 72758),
      (72760, 72765), (72767, 72767), (72850, 72871), (72874, 72880), (72882, 72883), (72885, 72886),
      (73009, 73014), (73018, 73018), (73020, 73021), (73023, 73029), (73031, 73031), (73104, 73105),
      (73109, 73109), (73111, 73111), (73459, 73460), (78896, 78904), (92912, 92916), (92976, 92982),
      (92992, 92995), (94031, 94031), (94095, 94111), (94176, 94177), (94179, 94180), (110576, 110579),
      (110581, 110587), (110589, 110590), (113821, 113822), (113824, 113827), (118528, 118573), (118576, 118598),
      (119143, 119145), (119155, 119170), (119173, 119179), (119210, 119213), (119362, 119364), (121344, 121398),
      (121403, 121452), (121461, 121461), (121476, 121476), (121499, 121503), (121505, 121519), (122880, 122886),
      (122888, 122904), (122907, 122913), (122915, 122916), (122918, 122922), (123184, 123197), (123566, 123566),
      (123628, 123631), (125136, 125142), (125252, 125259), (127995, 127999), (917505, 917505), (917536, 917631),
      (917760, 917999)]"

definition cased_ranges :: "(nat \<times> nat) list" where
  "cased_ranges =
     [(65, 90), (97, 122), (170, 170), (181, 181), (186, 186), (192, 214),
      (216, 246), (248, 442), (444, 447), (452, 659), (661, 687), (880, 883),
      (886, 887), (891, 893), (895, 895), (902, 902), (904, 906), (908, 908),
      (910, 929), (931, 1013), (1015, 1153), (1162, 1327), (1329, 1366), (1376, 1416),
      (4256, 4293), (4295, 4295), (4301, 4301), (4304, 4346), (4349, 4351), (5024, 5109),
      (5112, 5117), (7296, 7304), (7312, 7354), (7357, 7359), (7424, 7467), (7531, 7543),
      (7545, 7578), (7680, 7957), (7960, 7965), (7968, 8005), (8008, 8013), (8016, 8023),
      (8025, 8025), (8027, 8027), (8029, 8029), (8031, 8061), (8064, 8116), (8118, 8124),
      (8126, 8126), (8130, 8132), (8134, 8140), (8144, 8147), (8150, 8155), (8160, 8172),
      (8178, 8180), (8182, 8188), (8450, 8450), (8455, 8455), (8458, 8467), (8469, 8469),
      (8473, 8477), (8484, 8484), (8486, 8486), (8488, 8488), (8490, 8493), (8495, 8500),
      (8505, 8505), (8508, 8511), (8517, 8521), (8526, 8526), (8544, 8575), (8579, 8580),
      (9398, 9449), (11264, 11387), (11390, 11492), (11499, 11502), (11506, 11507), (11520, 11557),
      (11559, 11559), (11565, 11565), (42560, 42605), (42624, 42651), (42786, 42863), (42865, 42887),
      (42891, 42894), (42896, 42954), (42960, 42961), (42963, 42963), (42965, 42969), (42997, 42998),
      (43002, 43002), (43824, 43866), (43872, 43880), (43888, 43967), (64256, 64262), (64275, 64279),
      (65313, 65338), (65345, 65370), (66560, 66639), (66736, 66771), (66776, 66811), (66928, 66938),
      (66940, 66954), (66956, 66962), (66964, 66965), (66967, 66977), (66979, 66993), (66995, 67001),
      (67003, 67004), (68736, 68786), (68800, 68850), (71840, 71903), (93760, 93823), (119808, 119892),
      (119894, 119964), (119966, 119967), (119970, 119970), (119973, 119974), (119977, 119980), (119982, 119993),
      (119995, 119995), (119997, 120003), (120005, 120069), (120071, 120074), (120077, 120084), (120086, 120092),
      (120094, 120121), (120123, 120126), (120128, 120132), (120134, 120134), (120138, 120144), (120146, 120485),
      (120488, 120512), (120514, 120538), (120540, 120570), (120572, 120596), (120598, 120628), (120630, 120654),
      (120656, 120686), (120688, 120712), (120714, 120744), (120746, 120770), (120772, 120779), (122624, 122633),
      (122635, 122654), (125184, 125251), (127280, 127305), (127312, 127337), (127344, 127369)]"

text \<open>\<open>StringToCodePoints\<close>: a surrogate pair is one code point, a lone surrogate is itself.\<close>

fun code_points :: "jsstring \<Rightarrow> nat list" where
  "code_points [] = []"
| "code_points [u] = [u]"
| "code_points (u # v # us) =
     (if 55296 \<le> u \<and> u \<le> 56319 \<and> 56320 \<le> v \<and> v \<le> 57343
      then (65536 + (u - 55296) * 1024 + (v - 56320)) # code_points us
      else u # code_points (v # us))"

definition code_units :: "nat \<Rightarrow> jsstring" where
  "code_units c =
     (if c < 65536 then [c]
      else [55296 + (c - 65536) div 1024, 56320 + (c - 65536) mod 1024])"

fun shift :: "(nat \<times> nat \<times> nat \<times> int) list \<Rightarrow> nat \<Rightarrow> nat" where
  "shift [] c = c"
| "shift ((lo, hi, step, d) # rows) c =
     (if lo \<le> c \<and> c \<le> hi \<and> (c - lo) mod step = 0 then nat (int c + d) else shift rows c)"

definition in_ranges :: "(nat \<times> nat) list \<Rightarrow> nat \<Rightarrow> bool" where
  "in_ranges rs c = list_ex (\<lambda>r. fst r \<le> c \<and> c \<le> snd r) rs"

definition case_ignorable :: "nat \<Rightarrow> bool" where
  "case_ignorable c = in_ranges case_ignorable_ranges c"

definition cased :: "nat \<Rightarrow> bool" where
  "cased c = in_ranges cased_ranges c"

text \<open>
  The condition \<open>Final_Sigma\<close>, as the case conversion evaluates it: going back from the
  sigma over the case-ignorable code points there is a cased letter, and going forward over
  the case-ignorable code points there is none. \<open>before\<close> is the text before the sigma, last
  code point first. (\<open>cased_ranges\<close> holds the cased code points that are not case-ignorable:
  only those are looked at.)
\<close>

definition final_sigma :: "nat list \<Rightarrow> nat list \<Rightarrow> bool" where
  "final_sigma before after =
     ((case dropWhile case_ignorable before of [] \<Rightarrow> False | c # _ \<Rightarrow> cased c)
      \<and> (case dropWhile case_ignorable after of [] \<Rightarrow> True | c # _ \<Rightarrow> \<not> cased c))"

fun lower_points :: "nat list \<Rightarrow> nat list \<Rightarrow> nat list" where
  "lower_points before [] = []"
| "lower_points before (c # cs) =
     (if c = 931 then [if final_sigma before cs then 962 else 963]
      else if c = 304 then [105, 775]
      else [shift lower_rows c])
     @ lower_points (c # before) cs"

definition toLowerCase :: "jsstring \<Rightarrow> jsstring" where
  "toLowerCase s = concat (map code_units (lower_points [] (code_points s)))"

definition upper_point :: "nat \<Rightarrow> nat list" where
  "upper_point c =
     (case map_of upper_special c of Some us \<Rightarrow> us | None \<Rightarrow> [shift upper_rows c])"

definition toUpperCase :: "jsstring \<Rightarrow> jsstring" where
  "toUpperCase s = concat (map code_units (concat (map upper_point (code_points s))))"

text \<open>
  The \<open>i\<close> flag of a regular expression without the \<open>u\<close> flag: an ASCII letter of the pattern
  matches that letter in either case and no other code unit. The patterns are in lower case,
  so the text is compared after its ASCII capitals are made small.
\<close>

definition lower_unit :: "nat \<Rightarrow> nat" where
  "lower_unit c = (if 65 \<le> c \<and> c \<le> 90 then c + 32 else c)"

definition ignore_case :: "jsstring \<Rightarrow> jsstring" where
  "ignore_case s = map lower_unit s"

subsection \<open>Numbers\<close>

text \<open>
  A JavaScript number is an IEEE 754 double: a finite value (a rational), \<open>NaN\<close>, or one of
  the two infinities. The model has one zero (the sign of a zero shows only in a division by
  it, and the endpoint divides by the constant 100 alone). Every arithmetic operation
  computes the exact result and rounds it to the nearest double, ties to the even
  significand, which is what \<open>to_double\<close> does. A quantity is an integer: the endpoint adds
  and multiplies quantities as numbers, and they are whole and far below \<open>2\<^sup>5\<^sup>3\<close>, where that
  arithmetic is exact.
\<close>

datatype number = Num rat | NaN | PosInfinity | NegInfinity

text \<open>
  \<open>\<lfloor>log\<^sub>2 x\<rfloor>\<close> of a positive rational, from the bit lengths of its numerator and its
  denominator.
\<close>

definition ilog2 :: "rat \<Rightarrow> int" where
  "ilog2 x =
     (let k = bitlen (fst (quotient_of x)) - bitlen (snd (quotient_of x))
      in if 2 powi k \<le> x then k else k - 1)"

definition round_ties_even :: "rat \<Rightarrow> int" where
  "round_ties_even y =
     (let f = \<lfloor>y\<rfloor> in
      if y - of_int f < 1 / 2 then f
      else if 1 / 2 < y - of_int f then f + 1
      else if even f then f else f + 1)"

text \<open>
  The distance between neighbouring doubles at \<open>x\<close>: 52 binary places below the leading bit,
  and never less than \<open>2 powi (- 1074)\<close>, the distance in the subnormal range.
\<close>

definition quantum :: "rat \<Rightarrow> rat" where
  "quantum x = 2 powi (max (ilog2 \<bar>x\<bar>) (- 1022) - 52)"

text \<open>The magnitude of the double nearest to \<open>x\<close>, before the check for overflow.\<close>

definition nearest :: "rat \<Rightarrow> rat" where
  "nearest x = of_int (round_ties_even (\<bar>x\<bar> / quantum x)) * quantum x"

definition double_limit :: rat where
  "double_limit = 2 powi 1024"

definition to_double :: "rat \<Rightarrow> number" where
  "to_double x =
     (if x = 0 then Num 0
      else if double_limit \<le> nearest x then (if 0 < x then PosInfinity else NegInfinity)
      else Num (if 0 < x then nearest x else - nearest x))"

text \<open>\<open>a + b\<close>, \<open>a * b\<close> and \<open>a / b\<close> on numbers.\<close>

fun jadd :: "number \<Rightarrow> number \<Rightarrow> number" where
  "jadd (Num a) (Num b) = to_double (a + b)"
| "jadd NaN b = NaN"
| "jadd a NaN = NaN"
| "jadd PosInfinity NegInfinity = NaN"
| "jadd NegInfinity PosInfinity = NaN"
| "jadd PosInfinity b = PosInfinity"
| "jadd a PosInfinity = PosInfinity"
| "jadd NegInfinity b = NegInfinity"
| "jadd a NegInfinity = NegInfinity"

fun jmul :: "number \<Rightarrow> number \<Rightarrow> number" where
  "jmul (Num a) (Num b) = to_double (a * b)"
| "jmul NaN b = NaN"
| "jmul a NaN = NaN"
| "jmul (Num a) PosInfinity = (if a = 0 then NaN else if 0 < a then PosInfinity else NegInfinity)"
| "jmul (Num a) NegInfinity = (if a = 0 then NaN else if 0 < a then NegInfinity else PosInfinity)"
| "jmul PosInfinity (Num b) = (if b = 0 then NaN else if 0 < b then PosInfinity else NegInfinity)"
| "jmul NegInfinity (Num b) = (if b = 0 then NaN else if 0 < b then NegInfinity else PosInfinity)"
| "jmul PosInfinity PosInfinity = PosInfinity"
| "jmul PosInfinity NegInfinity = NegInfinity"
| "jmul NegInfinity PosInfinity = NegInfinity"
| "jmul NegInfinity NegInfinity = PosInfinity"

fun jdiv :: "number \<Rightarrow> number \<Rightarrow> number" where
  "jdiv (Num a) (Num b) =
     (if b = 0 then (if a = 0 then NaN else if 0 < a then PosInfinity else NegInfinity)
      else to_double (a / b))"
| "jdiv NaN b = NaN"
| "jdiv a NaN = NaN"
| "jdiv (Num a) b = Num 0"
| "jdiv PosInfinity (Num b) = (if 0 \<le> b then PosInfinity else NegInfinity)"
| "jdiv NegInfinity (Num b) = (if 0 \<le> b then NegInfinity else PosInfinity)"
| "jdiv a b = NaN"

text \<open>
  \<open>Math.round\<close>: the nearest integer, the larger one of two that are equally near; \<open>NaN\<close>
  and the infinities are returned as they are.
\<close>

fun Math_round :: "number \<Rightarrow> number" where
  "Math_round (Num x) = Num (of_int \<lfloor>x + 1 / 2\<rfloor>)"
| "Math_round x = x"


section \<open>Menu, cart and actions\<close>

record menu_item =
  mi_id :: jsstring
  mi_name :: jsstring
  mi_price :: number
  mi_isAvailable :: bool

text \<open>A cart line as the handler writes it: \<open>{id, name, price, qty, total}\<close>.\<close>

record cart_line =
  cl_id :: jsstring
  cl_name :: jsstring
  cl_price :: number
  cl_qty :: int
  cl_total :: number

datatype action_name =
  ADD_ITEM | REMOVE_ITEM | PLACE_ORDER | UPDATE_ORDER | CONFIRM_PAYMENT | CANCEL_ORDER

text \<open>
  A normalised action: \<open>name\<close>, \<open>tableId\<close> and \<open>qty\<close> are optional properties of the
  JavaScript object, \<open>None\<close> when the property is absent.
\<close>

record action =
  a_action :: action_name
  a_name :: "jsstring option"
  a_tableId :: "jsstring option"
  a_qty :: "int option"

text \<open>\<open>action.qty || 1\<close>: an absent or zero quantity counts as one.\<close>

definition qty_or_1 :: "action \<Rightarrow> int" where
  "qty_or_1 a = (case a_qty a of None \<Rightarrow> 1 | Some q \<Rightarrow> if q = 0 then 1 else q)"

text \<open>
  \<open>items.find((i) => i.name.toLowerCase() === action.name?.toLowerCase())\<close>: an absent name
  compares unequal to every item name.
\<close>

definition find_menu_item :: "menu_item list \<Rightarrow> jsstring option \<Rightarrow> menu_item option" where
  "find_menu_item items nm =
     (case nm of
        None \<Rightarrow> None
      | Some n \<Rightarrow> List.find (\<lambda>i. toLowerCase (mi_name i) = toLowerCase n) items)"

text \<open>
  \<open>existing.qty += q; existing.total = existing.qty * price\<close> on the first cart line whose id
  is \<open>mid\<close> (the line \<open>updatedCart.find\<close> returns, mutated in place).
\<close>

fun bump_existing :: "jsstring \<Rightarrow> int \<Rightarrow> number \<Rightarrow> cart_line list \<Rightarrow> cart_line list" where
  "bump_existing mid q p [] = []"
| "bump_existing mid q p (c # cs) =
     (if cl_id c = mid
      then c\<lparr>cl_qty := cl_qty c + q, cl_total := jmul (Num (of_int (cl_qty c + q))) p\<rparr> # cs
      else c # bump_existing mid q p cs)"

definition add_item :: "menu_item list \<Rightarrow> action \<Rightarrow> cart_line list \<Rightarrow> cart_line list" where
  "add_item items a cart =
     (case find_menu_item items (a_name a) of
        None \<Rightarrow> cart
      | Some m \<Rightarrow>
          (case List.find (\<lambda>c. cl_id c = mi_id m) cart of
             Some existing \<Rightarrow> bump_existing (mi_id m) (qty_or_1 a) (mi_price m) cart
           | None \<Rightarrow>
               cart @ [\<lparr>cl_id = mi_id m, cl_name = mi_name m, cl_price = mi_price m,
                        cl_qty = qty_or_1 a, cl_total = jmul (Num (of_int (qty_or_1 a))) (mi_price m)\<rparr>]))"

text \<open>
  \<open>updatedCart.filter((c) => c.name.toLowerCase() !== action.name?.toLowerCase())\<close>: with
  no name on the action every line is kept.
\<close>

definition remove_item :: "action \<Rightarrow> cart_line list \<Rightarrow> cart_line list" where
  "remove_item a cart =
     (case a_name a of
        None \<Rightarrow> cart
      | Some n \<Rightarrow> filter (\<lambda>c. toLowerCase (cl_name c) \<noteq> toLowerCase n) cart)"

text \<open>
  The cart part of one pass of the action loop: the \<open>ADD_ITEM\<close> and \<open>REMOVE_ITEM\<close>
  branches; the other actions leave the cart to the order branches.
\<close>

definition cart_step :: "menu_item list \<Rightarrow> cart_line list \<Rightarrow> action \<Rightarrow> cart_line list" where
  "cart_step items cart a =
     (if a_action a = ADD_ITEM then add_item items a cart
      else if a_action a = REMOVE_ITEM then remove_item a cart
      else cart)"

definition cart_reducer :: "menu_item list \<Rightarrow> cart_line list \<Rightarrow> action list \<Rightarrow> cart_line list" where
  "cart_reducer items cart acts = foldl (cart_step items) cart acts"

definition add_action :: "jsstring \<Rightarrow> int \<Rightarrow> action" where
  "add_action n q = \<lparr>a_action = ADD_ITEM, a_name = Some n, a_tableId = None, a_qty = Some q\<rparr>"

text \<open>
  The cart invariant of the data model: on every line the total is the unit price times the
  quantity and the quantity is positive, and no two lines share a menu item id.
\<close>

definition line_ok :: "cart_line \<Rightarrow> bool" where
  "line_ok c = (cl_total c = jmul (cl_price c) (Num (of_int (cl_qty c))) \<and> 0 < cl_qty c)"

definition cart_invariant :: "cart_line list \<Rightarrow> bool" where
  "cart_invariant cart = (distinct (map cl_id cart) \<and> list_all line_ok cart)"

text \<open>The unit price stored on each cart line is the price the menu has now for that id.\<close>

definition prices_current :: "menu_item list \<Rightarrow> cart_line list \<Rightarrow> bool" where
  "prices_current items cart =
     (\<forall>c \<in> set cart. \<forall>m \<in> set items. mi_id m = cl_id c \<longrightarrow> mi_price m = cl_price c)"

definition qty_valid :: "action \<Rightarrow> bool" where
  "qty_valid a = (case a_qty a of None \<Rightarrow> True | Some q \<Rightarrow> 0 \<le> q)"


section \<open>The transactional store\<close>

text \<open>
  The rows the chat endpoint reads and writes through Prisma. The order table is kept in
  creation order, oldest first, so that \<open>orderBy: {createdAt: "desc"}\<close> with \<open>findFirst\<close>
  is the last matching row; a \<open>findFirst\<close> without ordering is the first matching row. The
  items of an order are nested in the order row, in creation order. The time stamps
  (\<open>completedAt\<close>, \<open>updatedAt\<close>) and the real-time push (\<open>triggerPusher\<close>) are left out.
  Rows that an \<open>update\<close> addresses by id exist (they were read in the same request, or are
  referenced by a foreign key), so \<open>update\<close> is modelled as a map over the table.
\<close>

datatype order_status = CONFIRMED | PREPARING | READY | OUT_FOR_DELIVERY | PAID | CANCELLED

datatype table_status = AVAILABLE | OCCUPIED

datatype session_state = BROWSING | ORDERING | CONFIRMING | COMPLETED

record order_item =
  oi_menuItemId :: jsstring
  oi_itemName :: jsstring
  oi_unitPrice :: number
  oi_quantity :: int
  oi_total :: number

record order =
  o_id :: jsstring
  o_tenantId :: jsstring
  o_orderNumber :: jsstring
  o_tableId :: "jsstring option"
  o_type :: jsstring
  o_status :: order_status
  o_paymentStatus :: jsstring
  o_items :: "order_item list"
  o_subtotal :: number
  o_serviceCharge :: number
  o_tax :: number
  o_total :: number
  o_notes :: "jsstring option"

record table_row =
  tb_id :: jsstring
  tb_tenantId :: jsstring
  tb_label :: jsstring
  tb_status :: table_status

text \<open>
  The cart column holds the JSON text of the cart; the model keeps the decoded list (a text
  that does not decode to an array reads as the empty cart, which is the empty list here).
\<close>

record chat_session =
  cs_id :: jsstring
  cs_tenantId :: jsstring
  cs_state :: session_state
  cs_cart :: "cart_line list"

record order_details =
  od_orderNumber :: jsstring
  od_total :: number
  od_subtotal :: number
  od_tax :: number
  od_serviceCharge :: number

text \<open>The texts the bot answers with. Only their identity matters to the handler.\<close>

datatype locale_tag = En | Ne | Hi

datatype fallback_type = Safe | Abuse | Clarify

datatype reply =
    TroubleThinking
  | OracleReply jsstring
  | LocalizedFallback locale_tag fallback_type
  | StatusNarration "(jsstring \<times> order_status) option" locale_tag
  | MenuWizardOpened locale_tag "jsstring list"
  | OrderSuggestion locale_tag "jsstring list"
  | PaymentConfirmed jsstring
  | OrderCancelled jsstring
  | NoActiveOrderFor jsstring
  | NoActiveOrder
  | AddedToCart
  | OrderPlaced jsstring

text \<open>
  A tenant row with what the handler reads of it: the two percentages are the numbers
  \<open>Number(tenantSettings.serviceChargePercent || 0)\<close> and \<open>Number(tenantSettings.taxPercent || 0)\<close>
  of the settings column: zero when the column does not decode or lacks the key, \<open>NaN\<close>
  when the setting is a text that is not a numeral.
\<close>

record menu_category =
  mc_name :: jsstring
  mc_isActive :: bool
  mc_items :: "menu_item list"

record tenant =
  tn_id :: jsstring
  tn_slug :: jsstring
  tn_serviceChargePercent :: number
  tn_taxPercent :: number
  tn_menuCategories :: "menu_category list"

datatype sender = USER | BOT

datatype content = UserText jsstring | BotText reply

datatype guardrail = PROMPT_INJECTION | ABUSE | FAULTY_INPUT

datatype metadata =
    NoMetadata
  | GuardrailTag guardrail
  | TurnInfo "action list" bool "order_details option" bool

record chat_message =
  m_sessionId :: jsstring
  m_sender :: sender
  m_content :: content
  m_metadata :: metadata

record store =
  st_tenants :: "tenant list"
  st_tables :: "table_row list"
  st_orders :: "order list"
  st_sessions :: "chat_session list"
  st_messages :: "chat_message list"

text \<open>\<open>status: {notIn: ["PAID", "CANCELLED"]}\<close>\<close>

definition non_terminal :: "order \<Rightarrow> bool" where
  "non_terminal x = (o_status x \<noteq> PAID \<and> o_status x \<noteq> CANCELLED)"

definition find_last :: "('a \<Rightarrow> bool) \<Rightarrow> 'a list \<Rightarrow> 'a option" where
  "find_last P xs = List.find P (rev xs)"

text \<open>JavaScript truthiness of an optional string: absent and empty are both false.\<close>

definition truthy :: "jsstring option \<Rightarrow> bool" where
  "truthy x = (case x of None \<Rightarrow> False | Some v \<Rightarrow> v \<noteq> [])"

text \<open>The string of an optional string that is known to be there.\<close>

definition string_of :: "jsstring option \<Rightarrow> jsstring" where
  "string_of x = (case x of None \<Rightarrow> [] | Some v \<Rightarrow> v)"

fun starts_with :: "jsstring \<Rightarrow> jsstring \<Rightarrow> bool" where
  "starts_with s [] = True"
| "starts_with [] (p # ps) = False"
| "starts_with (c # cs) (p # ps) = (c = p \<and> starts_with cs ps)"

text \<open>\<open>s.includes(p)\<close>\<close>

fun js_includes :: "jsstring \<Rightarrow> jsstring \<Rightarrow> bool" where
  "js_includes [] p = (p = [])"
| "js_includes (c # cs) p = (starts_with (c # cs) p \<or> js_includes cs p)"

subsection \<open>What the source does not contain\<close>

text \<open>
  Two helpers the handler imports are not among the source files, and neither is the Prisma
  schema. They are parameters of the model:
  \<^item> \<open>extractPrimaryTableLabel\<close> (from \<open>lib/tableGroups\<close>) maps a text to a table label or to
    nothing;
  \<^item> \<open>nextOrderNumberForTenant\<close> (from \<open>lib/orders\<close>) reads the store inside the transaction
    and returns the next order number of a tenant;
  \<^item> \<open>new_id\<close> is the identifier the schema's default gives a created row;
  \<^item> \<open>default_status\<close> and \<open>default_paymentStatus\<close> are the schema defaults of a created order.

  The requests of the dashboard and of other chat sessions commit between the transactions
  of this request: \<open>others k\<close> is what they have done to the store when attempt \<open>k\<close> of the
  order transaction starts (the identity when the turn runs alone).
\<close>

record env =
  extractPrimaryTableLabel :: "jsstring \<Rightarrow> jsstring option"
  nextOrderNumberForTenant :: "store \<Rightarrow> jsstring \<Rightarrow> jsstring"
  new_id :: "store \<Rightarrow> jsstring"
  default_status :: order_status
  default_paymentStatus :: jsstring
  others :: "nat \<Rightarrow> store \<Rightarrow> store"

text \<open>
  Modelled from the spec: the Prisma schema is missing; the spec's data model says the
  order number is unique within its tenant. Creating an order whose number an order of the
  same tenant already has violates the constraint (Prisma error code \<open>P2002\<close>).
\<close>

definition order_number_taken :: "store \<Rightarrow> jsstring \<Rightarrow> jsstring \<Rightarrow> bool" where
  "order_number_taken s tid n =
     list_ex (\<lambda>x. o_tenantId x = tid \<and> o_orderNumber x = n) (st_orders s)"

datatype thrown = P2002 | ORDER_CREATE_FAILED

section \<open>One turn of the chat endpoint: the action loop\<close>

text \<open>What the action loop reads of the request, the tenant and the session.\<close>

record ctx =
  c_env :: env
  c_tenantId :: jsstring
  c_items :: "menu_item list"
  c_serviceChargePercent :: number
  c_taxPercent :: number
  c_sessionId :: jsstring
  c_tableLabel :: "jsstring option"

text \<open>The variables of the action loop.\<close>

record turn =
  updatedCart :: "cart_line list"
  orderPlaced :: bool
  orderDetails :: "order_details option"
  forceSessionCompleted :: bool
  forceBotResponse :: "reply option"
  botResponse :: reply

text \<open>\<open>String(action.tableId || data.tableLabel || "")\<close>\<close>

definition table_ref :: "ctx \<Rightarrow> action \<Rightarrow> jsstring" where
  "table_ref c a =
     (if truthy (a_tableId a) then string_of (a_tableId a)
      else if truthy (c_tableLabel c) then string_of (c_tableLabel c)
      else [])"

text \<open>
  \<open>requestedTableLabel\<close>, read for its truthiness everywhere: \<open>None\<close> when the helper
  returns nothing or the empty string.
\<close>

definition requestedTableLabel :: "ctx \<Rightarrow> action \<Rightarrow> jsstring option" where
  "requestedTableLabel c a =
     (let l = extractPrimaryTableLabel (c_env c) (table_ref c a)
      in if truthy l then l else None)"

subsection \<open>\<open>CANCEL_ORDER\<close> and \<open>CONFIRM_PAYMENT\<close>\<close>

text \<open>
  The relation filter \<open>table: {label: l}\<close>: the order has a table and that table's label
  is \<open>l\<close>.
\<close>

definition order_table_has_label :: "store \<Rightarrow> jsstring \<Rightarrow> order \<Rightarrow> bool" where
  "order_table_has_label s l x =
     (case o_tableId x of
        None \<Rightarrow> False
      | Some t \<Rightarrow> list_ex (\<lambda>r. tb_id r = t \<and> tb_label r = l) (st_tables s))"

definition targetOrder :: "ctx \<Rightarrow> action \<Rightarrow> store \<Rightarrow> order option" where
  "targetOrder c a s =
     find_last
       (\<lambda>x. o_tenantId x = c_tenantId c
            \<and> (case requestedTableLabel c a of
                  Some l \<Rightarrow> order_table_has_label s l x
                | None \<Rightarrow> True)
            \<and> non_terminal x)
       (st_orders s)"

definition update_order :: "jsstring \<Rightarrow> (order \<Rightarrow> order) \<Rightarrow> store \<Rightarrow> store" where
  "update_order oid f s = s\<lparr>st_orders := map (\<lambda>x. if o_id x = oid then f x else x) (st_orders s)\<rparr>"

definition set_table_status :: "jsstring \<Rightarrow> table_status \<Rightarrow> store \<Rightarrow> store" where
  "set_table_status t v s =
     s\<lparr>st_tables := map (\<lambda>r. if tb_id r = t then r\<lparr>tb_status := v\<rparr> else r) (st_tables s)\<rparr>"

definition update_session :: "jsstring \<Rightarrow> session_state \<Rightarrow> cart_line list \<Rightarrow> store \<Rightarrow> store" where
  "update_session sid st cart s =
     s\<lparr>st_sessions :=
         map (\<lambda>x. if cs_id x = sid then x\<lparr>cs_state := st, cs_cart := cart\<rparr> else x) (st_sessions s)\<rparr>"

text \<open>
  \<open>prisma.order.count({where: {tableId, status: {notIn: [...]}, id: {not: oid}}})\<close>
\<close>

definition otherActive :: "store \<Rightarrow> jsstring \<Rightarrow> jsstring \<Rightarrow> nat" where
  "otherActive s t oid =
     length (filter (\<lambda>x. o_tableId x = Some t \<and> non_terminal x \<and> o_id x \<noteq> oid) (st_orders s))"

definition free_table :: "order \<Rightarrow> store \<Rightarrow> store" where
  "free_table tgt s =
     (if truthy (o_tableId tgt)
      then (if otherActive s (string_of (o_tableId tgt)) (o_id tgt) = 0
            then set_table_status (string_of (o_tableId tgt)) AVAILABLE s
            else s)
      else s)"

definition close_order :: "action_name \<Rightarrow> order \<Rightarrow> order" where
  "close_order act x =
     (if act = CANCEL_ORDER then x\<lparr>o_status := CANCELLED\<rparr>
      else x\<lparr>o_status := PAID, o_paymentStatus := str ''PAID''\<rparr>)"

definition cancel_or_pay :: "ctx \<Rightarrow> action \<Rightarrow> turn \<times> store \<Rightarrow> turn \<times> store" where
  "cancel_or_pay c a ts =
     (let t = fst ts; s = snd ts in
      case targetOrder c a s of
        Some tgt \<Rightarrow>
          (let s1 = update_order (o_id tgt) (close_order (a_action a)) s;
               s2 = free_table tgt s1;
               msg = (if a_action a = CANCEL_ORDER then OrderCancelled (o_orderNumber tgt)
                      else PaymentConfirmed (o_orderNumber tgt));
               s3 = update_session (c_sessionId c) COMPLETED [] s2
           in (t\<lparr>updatedCart := [], orderPlaced := False, orderDetails := None,
                 forceSessionCompleted := True, forceBotResponse := Some msg,
                 botResponse := msg\<rparr>, s3))
      | None \<Rightarrow>
          (let msg = (case requestedTableLabel c a of
                        Some l \<Rightarrow> NoActiveOrderFor l
                      | None \<Rightarrow> NoActiveOrder)
           in (t\<lparr>forceBotResponse := Some msg, botResponse := msg\<rparr>, s)))"

subsection \<open>\<open>PLACE_ORDER\<close> and \<open>UPDATE_ORDER\<close>\<close>

text \<open>
  \<open>tableId\<close>: with a requested label, the id of the first table of the tenant with that
  label, if there is one.
\<close>

definition resolve_tableId :: "ctx \<Rightarrow> action \<Rightarrow> store \<Rightarrow> jsstring option" where
  "resolve_tableId c a s =
     (case requestedTableLabel c a of
        None \<Rightarrow> None
      | Some l \<Rightarrow>
          map_option tb_id
            (List.find (\<lambda>r. tb_tenantId r = c_tenantId c \<and> tb_label r = l) (st_tables s)))"

definition cartSubtotal :: "cart_line list \<Rightarrow> number" where
  "cartSubtotal cart = foldl (\<lambda>sum c. jadd sum (cl_total c)) (Num 0) cart"

text \<open>The open order of a table that the transaction looks for (only with a table id).\<close>

definition open_order :: "ctx \<Rightarrow> jsstring option \<Rightarrow> store \<Rightarrow> order option" where
  "open_order c tableId s =
     (if truthy tableId
      then find_last
             (\<lambda>x. o_tenantId x = c_tenantId c \<and> o_tableId x = tableId \<and> non_terminal x)
             (st_orders s)
      else None)"

fun first_index :: "('a \<Rightarrow> bool) \<Rightarrow> 'a list \<Rightarrow> nat option" where
  "first_index P [] = None"
| "first_index P (x # xs) = (if P x then Some 0 else map_option Suc (first_index P xs))"

definition line_item :: "cart_line \<Rightarrow> order_item" where
  "line_item c =
     \<lparr>oi_menuItemId = cl_id c, oi_itemName = cl_name c, oi_unitPrice = cl_price c,
      oi_quantity = cl_qty c, oi_total = cl_total c\<rparr>"

text \<open>
  One pass of \<open>for (const cartItem of updatedCart)\<close> in the merge. \<open>snap\<close> is \<open>order.items\<close>
  as the transaction read it, \<open>rows\<close> the item rows as they are now. The item found in the
  snapshot is updated in its row (the rows of the snapshot keep their positions, new rows
  go to the end), with the quantity and the unit price of the snapshot.
\<close>

definition merge_line :: "order_item list \<Rightarrow> order_item list \<Rightarrow> cart_line \<Rightarrow> order_item list" where
  "merge_line snap rows cartItem =
     (case first_index (\<lambda>i. oi_menuItemId i = cl_id cartItem) snap of
        Some k \<Rightarrow>
          (let existingItem = snap ! k; nextQty = oi_quantity existingItem + cl_qty cartItem
           in rows[k := (rows ! k)\<lparr>oi_quantity := nextQty,
                                    oi_total := jmul (Num (of_int nextQty))
                                                  (oi_unitPrice existingItem)\<rparr>])
      | None \<Rightarrow> rows @ [line_item cartItem])"

definition merge_items :: "order_item list \<Rightarrow> cart_line list \<Rightarrow> order_item list" where
  "merge_items snap cart = foldl (merge_line snap) snap cart"

definition session_tag :: "jsstring \<Rightarrow> jsstring" where
  "session_tag sid = str ''CHAT_SESSION:'' @ sid"

text \<open>The \<open>notes\<close> of a merged order: the session tag is added unless it is there already.\<close>

definition merged_notes :: "jsstring option \<Rightarrow> jsstring \<Rightarrow> jsstring" where
  "merged_notes notes sid =
     (case notes of
        None \<Rightarrow> session_tag sid
      | Some n \<Rightarrow>
          if js_includes n (session_tag sid) then n
          else (if n \<noteq> [] then n @ str '' '' else []) @ session_tag sid)"

definition occupy :: "jsstring option \<Rightarrow> store \<Rightarrow> store" where
  "occupy tableId s = (if truthy tableId then set_table_status (string_of tableId) OCCUPIED s else s)"

definition merge_into :: "ctx \<Rightarrow> cart_line list \<Rightarrow> order \<Rightarrow> order" where
  "merge_into c cart ord =
     (let nextSubtotal = jadd (o_subtotal ord) (cartSubtotal cart);
          nextService = Math_round (jmul nextSubtotal (jdiv (c_serviceChargePercent c) (Num 100)));
          nextTax = Math_round (jmul nextSubtotal (jdiv (c_taxPercent c) (Num 100)));
          nextTotal = jadd (jadd nextSubtotal nextService) nextTax
      in ord\<lparr>o_items := merge_items (o_items ord) cart,
              o_subtotal := nextSubtotal, o_serviceCharge := nextService, o_tax := nextTax,
              o_total := nextTotal, o_status := CONFIRMED,
              o_notes := Some (merged_notes (o_notes ord) (c_sessionId c))\<rparr>)"

definition new_order :: "ctx \<Rightarrow> jsstring option \<Rightarrow> cart_line list \<Rightarrow> store \<Rightarrow> order" where
  "new_order c tableId cart s =
     (let subtotal = cartSubtotal cart;
          serviceCharge = Math_round (jmul subtotal (jdiv (c_serviceChargePercent c) (Num 100)));
          tax = Math_round (jmul subtotal (jdiv (c_taxPercent c) (Num 100)));
          total = jadd (jadd subtotal serviceCharge) tax
      in \<lparr>o_id = new_id (c_env c) s,
          o_tenantId = c_tenantId c,
          o_orderNumber = nextOrderNumberForTenant (c_env c) s (c_tenantId c),
          o_tableId = (if truthy tableId then tableId else None),
          o_type = (if truthy tableId then str ''DINE_IN'' else str ''TAKEAWAY''),
          o_status = default_status (c_env c),
          o_paymentStatus = default_paymentStatus (c_env c),
          o_items = map line_item cart,
          o_subtotal = subtotal, o_serviceCharge = serviceCharge, o_tax = tax, o_total = total,
          o_notes = Some (session_tag (c_sessionId c))\<rparr>)"

text \<open>
  The body of \<open>prisma.$transaction\<close>: merge into the open order of the table, or create an
  order. A transaction that throws leaves the store as it found it.
\<close>

definition order_tx :: "ctx \<Rightarrow> jsstring option \<Rightarrow> cart_line list \<Rightarrow> store \<Rightarrow> thrown + order \<times> store" where
  "order_tx c tableId cart s =
     (case open_order c tableId s of
        Some ord \<Rightarrow>
          Inr (merge_into c cart ord,
               occupy tableId (update_order (o_id ord) (\<lambda>_. merge_into c cart ord) s))
      | None \<Rightarrow>
          if order_number_taken s (c_tenantId c) (nextOrderNumberForTenant (c_env c) s (c_tenantId c))
          then Inl P2002
          else Inr (new_order c tableId cart s,
                    occupy tableId (s\<lparr>st_orders := st_orders s @ [new_order c tableId cart s]\<rparr>)))"

text \<open>
  \<open>for (let attempt = 0; attempt < 3; attempt++)\<close>: a \<open>P2002\<close> before the last attempt
  starts the transaction again, any other outcome ends the loop. After the loop a missing
  order throws \<open>ORDER_CREATE_FAILED\<close>. The second component is the store the loop leaves.
\<close>

function order_attempts ::
  "ctx \<Rightarrow> jsstring option \<Rightarrow> cart_line list \<Rightarrow> nat \<Rightarrow> store \<Rightarrow> (thrown + order) \<times> store" where
  "order_attempts c tableId cart attempt s =
     (if attempt < 3
      then (let s' = others (c_env c) attempt s in
            case order_tx c tableId cart s' of
              Inr (ord, s'') \<Rightarrow> (Inr ord, s'')
            | Inl e \<Rightarrow>
                if e = P2002 \<and> attempt < 2
                then order_attempts c tableId cart (attempt + 1) s'
                else (Inl e, s'))
      else (Inl ORDER_CREATE_FAILED, s))"
  by pat_completeness auto
termination
  by (relation "measure (\<lambda>(c, tableId, cart, attempt, s). 3 - attempt)") auto

definition details_of :: "order \<Rightarrow> order_details" where
  "details_of resultingOrder =
     \<lparr>od_orderNumber = o_orderNumber resultingOrder,
      od_total = o_total resultingOrder,
      od_subtotal = o_subtotal resultingOrder,
      od_tax = o_tax resultingOrder,
      od_serviceCharge = o_serviceCharge resultingOrder\<rparr>"

definition place_order :: "ctx \<Rightarrow> action \<Rightarrow> turn \<times> store \<Rightarrow> (thrown + turn) \<times> store" where
  "place_order c a ts =
     (let t = fst ts; s = snd ts;
          tableId = resolve_tableId c a s
      in case order_attempts c tableId (updatedCart t) 0 s of
           (Inl e, s') \<Rightarrow> (Inl e, s')
         | (Inr resultingOrder, s') \<Rightarrow>
             (Inr (t\<lparr>orderPlaced := True,
                      orderDetails := Some (details_of resultingOrder),
                      updatedCart := []\<rparr>), s'))"

text \<open>
  One pass of \<open>for (const action of actions)\<close>: the four \<open>if\<close> statements in their order.
  An exception ends the request; the store keeps what was written before it.
\<close>

definition process_action :: "ctx \<Rightarrow> action \<Rightarrow> turn \<times> store \<Rightarrow> (thrown + turn) \<times> store" where
  "process_action c a ts =
     (let t1 = (fst ts)\<lparr>updatedCart := cart_step (c_items c) (updatedCart (fst ts)) a\<rparr>;
          ts2 = (if (a_action a = CANCEL_ORDER \<or> a_action a = CONFIRM_PAYMENT) \<and> \<not> orderPlaced t1
                 then cancel_or_pay c a (t1, snd ts)
                 else (t1, snd ts))
      in if (a_action a = PLACE_ORDER \<or> a_action a = UPDATE_ORDER) \<and> updatedCart (fst ts2) \<noteq> []
         then place_order c a ts2
         else (Inr (fst ts2), snd ts2))"

fun process_actions :: "ctx \<Rightarrow> action list \<Rightarrow> turn \<times> store \<Rightarrow> (thrown + turn) \<times> store" where
  "process_actions c [] ts = (Inr (fst ts), snd ts)"
| "process_actions c (a # as) ts =
     (case process_action c a ts of
        (Inl e, s') \<Rightarrow> (Inl e, s')
      | (Inr t', s') \<Rightarrow> process_actions c as (t', s'))"

section \<open>Reading the message\<close>

text \<open>
  The regular expressions of the handler are alternations of literal texts, matched without
  regard to ASCII letter case (the \<open>i\<close> flag never relates a letter of another script to an
  ASCII letter). A text matches such an expression when, its ASCII capitals made small, it
  includes one of the alternatives.
\<close>

definition matches_any :: "jsstring list \<Rightarrow> jsstring \<Rightarrow> bool" where
  "matches_any alternatives text = list_ex (js_includes (ignore_case text)) alternatives"

text \<open>The line terminators, which \<open>.\<close> does not match.\<close>

definition is_line_terminator :: "nat \<Rightarrow> bool" where
  "is_line_terminator c = (c = 10 \<or> c = 13 \<or> c = 8232 \<or> c = 8233)"

text \<open>\<open>a.*b\<close>: somewhere the text has \<open>a\<close>, and later on the same line \<open>b\<close>.\<close>

fun includes_then :: "jsstring \<Rightarrow> jsstring \<Rightarrow> jsstring \<Rightarrow> bool" where
  "includes_then [] a b = False"
| "includes_then (c # cs) a b =
     ((starts_with (c # cs) a
        \<and> js_includes (takeWhile (\<lambda>u. \<not> is_line_terminator u) (drop (length a) (c # cs))) b)
      \<or> includes_then cs a b)"

text \<open>White space as \<open>trim\<close> and the class \<open>\s\<close> have it.\<close>

definition is_space :: "nat \<Rightarrow> bool" where
  "is_space c =
     ((9 \<le> c \<and> c \<le> 13) \<or> c = 32 \<or> c = 160 \<or> c = 5760 \<or> (8192 \<le> c \<and> c \<le> 8202)
      \<or> c = 8232 \<or> c = 8233 \<or> c = 8239 \<or> c = 8287 \<or> c = 12288 \<or> c = 65279)"

definition trim :: "jsstring \<Rightarrow> jsstring" where
  "trim s = rev (dropWhile is_space (rev (dropWhile is_space s)))"

text \<open>The word characters of \<open>\b\<close>: \<open>[A-Za-z0-9_]\<close>.\<close>

definition is_word_unit :: "nat \<Rightarrow> bool" where
  "is_word_unit c =
     ((48 \<le> c \<and> c \<le> 57) \<or> (65 \<le> c \<and> c \<le> 90) \<or> c = 95 \<or> (97 \<le> c \<and> c \<le> 122))"

text \<open>
  \<open>\bw\b\<close> in a text whose preceding code unit is \<open>prev\<close>, for an alternative \<open>w\<close> that
  begins and ends with a word character: \<open>w\<close> stands at a place where the code unit before it
  and the code unit after it are not word characters (or do not exist).
\<close>

fun includes_word :: "nat option \<Rightarrow> jsstring \<Rightarrow> jsstring \<Rightarrow> bool" where
  "includes_word prev [] w = False"
| "includes_word prev (c # cs) w =
     (((case prev of None \<Rightarrow> True | Some p \<Rightarrow> \<not> is_word_unit p)
        \<and> starts_with (c # cs) w
        \<and> (case drop (length w) (c # cs) of [] \<Rightarrow> True | n # _ \<Rightarrow> \<not> is_word_unit n))
      \<or> includes_word (Some c) cs w)"

definition is_devanagari :: "nat \<Rightarrow> bool" where
  "is_devanagari c = (2304 \<le> c \<and> c \<le> 2431)"

text \<open>
  The Nepali words of \<open>detectLocale\<close>, as code units: \<open>kripaya\<close>, \<open>dhanyavad\<close>, \<open>chha\<close>,
  \<open>hos\<close>, \<open>yahan\<close>, \<open>order\<close>, \<open>tapain\<close>.
\<close>

definition nepali_words :: "jsstring list" where
  "nepali_words =
     [[2325, 2371, 2346, 2351, 2366],
      [2343, 2344, 2381, 2351, 2357, 2366, 2342],
      [2331],
      [2361, 2379, 2360, 2381],
      [2351, 2361, 2366, 2305],
      [2309, 2352, 2381, 2337, 2352],
      [2340, 2346, 2366, 2312, 2306]]"

definition detectLocale :: "jsstring \<Rightarrow> locale_tag" where
  "detectLocale t =
     (if list_ex is_devanagari t
      then (if list_ex (js_includes t) nepali_words then Ne else Hi)
      else En)"

text \<open>The texts of \<open>localizedFallback\<close> are one constructor of \<open>reply\<close>.\<close>

definition localizedFallback :: "locale_tag \<Rightarrow> fallback_type \<Rightarrow> reply" where
  "localizedFallback locale type = LocalizedFallback locale type"

definition isPromptInjection :: "jsstring \<Rightarrow> bool" where
  "isPromptInjection text =
     matches_any
       [str ''ignore all instructions'', str ''ignore previous instructions'',
        str ''ignore prior instructions'', str ''reveal system'', str ''reveal prompt'',
        str ''reveal secret'', str ''developer message'', str ''api key'', str ''token'',
        str ''password'', str ''drop table'', str ''bypass'', str ''jailbreak'', str ''sudo'',
        str ''root access'', str ''export env'']
       text"

definition isAbusive :: "jsstring \<Rightarrow> bool" where
  "isAbusive text =
     list_ex (includes_word None (ignore_case text))
       [str ''idiot'', str ''stupid'', str ''dumb'', str ''fool'', str ''hate you'',
        str ''shut up'', str ''moron'', str ''bitch'', str ''fuck you'']"

definition isFaultyMessage :: "jsstring \<Rightarrow> bool" where
  "isFaultyMessage text =
     (let trimmed = trim text in
      if trimmed = [] then True
      else if length trimmed < 2 then True
      else if 6 \<le> length trimmed
              \<and> list_all (\<lambda>c. \<not> (is_word_unit c \<and> c \<noteq> 95) \<and> \<not> is_devanagari c \<and> \<not> is_space c)
                   trimmed
           then True
      else False)"

text \<open>
  The Devanagari alternatives of \<open>isMenuIntent\<close> are the three spellings of \<open>menu\<close> and three
  phrases that begin with one of them.
\<close>

definition isMenuIntent :: "jsstring \<Rightarrow> bool" where
  "isMenuIntent text =
     (matches_any
        [str ''menu'', str ''show menu'', str ''see menu'', str ''special'', str ''recommend'',
         str ''catalog'', str ''list items'',
         [2350, 2375, 2344, 2369],
         [2350, 2375, 2344, 2381, 2351, 2370],
         [2350, 2375, 2344, 2370],
         [2350, 2375, 2344, 2369, 32, 2342, 2375, 2326],
         [2350, 2375, 2344, 2381, 2351, 2370, 32, 2342, 2367, 2326],
         [2350, 2375, 2344, 2381, 2351, 2370, 32, 2342, 2375, 2326],
         str ''menu please'', str ''items'']
        text
      \<or> includes_then (ignore_case text) (str ''what'') (str ''available'')
      \<or> includes_then (ignore_case text) (str ''what'') (str ''have''))"

subsection \<open>\<open>normalizeAction\<close>\<close>

text \<open>
  An action marker of the oracle's answer after \<open>JSON.parse\<close>, with the coercions of
  \<open>normalizeAction\<close> applied to its properties: \<open>ra_action\<close> is \<open>String(action.action || "")\<close>,
  \<open>ra_name\<close> and \<open>ra_tableId\<close> are \<open>String\<close> of the property when it is truthy, \<open>ra_qty\<close> is
  \<open>Number(action.qty || 1)\<close> when that is finite.
\<close>

record raw_action =
  ra_action :: jsstring
  ra_name :: "jsstring option"
  ra_tableId :: "jsstring option"
  ra_qty :: "rat option"

definition ALLOWED_ACTIONS :: "(jsstring \<times> action_name) list" where
  "ALLOWED_ACTIONS =
     [(str ''ADD_ITEM'', ADD_ITEM), (str ''REMOVE_ITEM'', REMOVE_ITEM),
      (str ''PLACE_ORDER'', PLACE_ORDER), (str ''UPDATE_ORDER'', UPDATE_ORDER),
      (str ''CONFIRM_PAYMENT'', CONFIRM_PAYMENT), (str ''CANCEL_ORDER'', CANCEL_ORDER)]"

definition normalizeAction :: "raw_action \<Rightarrow> action option" where
  "normalizeAction ra =
     (case map_of ALLOWED_ACTIONS (toUpperCase (trim (ra_action ra))) of
        None \<Rightarrow> None
      | Some name \<Rightarrow>
          Some \<lparr>a_action = name,
                a_name = map_option trim (ra_name ra),
                a_tableId = map_option trim (ra_tableId ra),
                a_qty = (if name = ADD_ITEM
                         then Some (case ra_qty ra of
                                      Some qtyRaw \<Rightarrow> min 20 (max 1 \<lfloor>qtyRaw\<rfloor>)
                                    | None \<Rightarrow> 1)
                         else None)\<rparr>)"

section \<open>The chat endpoint\<close>

record request =
  message :: jsstring
  sessionId :: "jsstring option"
  tenantSlug :: jsstring
  tableLabel :: "jsstring option"

text \<open>
  The oracle is outside the model. Its call either fails, or gives an answer: the text shown
  to the customer (\<open>None\<close> when the answer has no text, so that the default reply stays) and,
  for each action marker found in the answer, the parsed marker (\<open>None\<close> for a marker that is
  not JSON).
\<close>

datatype oracle_result =
    OracleFailed
  | OracleAnswered "jsstring option" "raw_action option list"

datatype api_error =
    Restaurant_not_found_404
  | Validation_failed_400
  | Internal_server_error_500

record response =
  r_sessionId :: jsstring
  r_message :: reply
  r_cart :: "cart_line list"
  r_orderPlaced :: bool
  r_orderDetails :: "order_details option"
  r_openMenuWizard :: bool

text \<open>
  \<open>tenant.menuCategories\<close> as the query loads it: the active categories, each with its
  available items.
\<close>

definition menuCategories :: "tenant \<Rightarrow> menu_category list" where
  "menuCategories tn =
     map (\<lambda>cat. cat\<lparr>mc_items := filter mi_isAvailable (mc_items cat)\<rparr>)
       (filter mc_isActive (tn_menuCategories tn))"

definition allItems :: "tenant \<Rightarrow> menu_item list" where
  "allItems tn = concat (map mc_items (menuCategories tn))"

definition create_message :: "chat_message \<Rightarrow> store \<Rightarrow> store" where
  "create_message m s = s\<lparr>st_messages := st_messages s @ [m]\<rparr>"

text \<open>
  A guardrail branch: the user message and the canned reply are saved and the request ends.
\<close>

definition guardrail_reply ::
  "jsstring \<Rightarrow> jsstring \<Rightarrow> reply \<Rightarrow> guardrail \<Rightarrow> store \<Rightarrow> (api_error + response) \<times> store" where
  "guardrail_reply sid msg canned kind s =
     (Inr \<lparr>r_sessionId = sid, r_message = canned, r_cart = [], r_orderPlaced = False,
           r_orderDetails = None, r_openMenuWizard = False\<rparr>,
      create_message
        \<lparr>m_sessionId = sid, m_sender = BOT, m_content = BotText canned,
         m_metadata = GuardrailTag kind\<rparr>
        (create_message
           \<lparr>m_sessionId = sid, m_sender = USER, m_content = UserText msg,
            m_metadata = NoMetadata\<rparr> s))"

text \<open>The answer of the oracle: \<open>botResponse\<close> and the normalised actions.\<close>

definition oracle_actions :: "oracle_result \<Rightarrow> reply \<times> action list" where
  "oracle_actions r =
     (case r of
        OracleFailed \<Rightarrow> (TroubleThinking, [])
      | OracleAnswered txt markers \<Rightarrow>
          ((case txt of None \<Rightarrow> TroubleThinking | Some t \<Rightarrow> OracleReply t),
           List.map_filter (\<lambda>m. case m of None \<Rightarrow> None | Some ra \<Rightarrow> normalizeAction ra) markers))"

definition statusNarration :: "order option \<Rightarrow> locale_tag \<Rightarrow> reply" where
  "statusNarration ord locale =
     StatusNarration (map_option (\<lambda>x. (o_orderNumber x, o_status x)) ord) locale"

definition fallback_action :: "action_name \<Rightarrow> jsstring option \<Rightarrow> action" where
  "fallback_action name label =
     \<lparr>a_action = name, a_name = None,
      a_tableId = (if truthy label then label else None), a_qty = None\<rparr>"

text \<open>
  The fallback intent parser, entered when the oracle gave no action. It returns the
  actions, \<open>botResponse\<close> and \<open>openMenuWizard\<close>.
\<close>

definition fallback_parser ::
  "request \<Rightarrow> tenant \<Rightarrow> cart_line list \<Rightarrow> order option \<Rightarrow> locale_tag \<Rightarrow> reply \<Rightarrow> bool
     \<Rightarrow> action list \<times> reply \<times> bool" where
  "fallback_parser data tn cart linkedOrder locale bot0 wizard0 =
     (let text = toLowerCase (message data);
          mentionedItems = filter (\<lambda>item. js_includes text (toLowerCase (mi_name item))) (allItems tn);
          openMenuWizard = (wizard0 \<or> isMenuIntent (message data));
          adds = map (\<lambda>item. \<lparr>a_action = ADD_ITEM, a_name = Some (mi_name item),
                                a_tableId = None, a_qty = Some 1\<rparr>) mentionedItems;
          bot1 = (if matches_any [str ''status'', str ''kaha'',
                                  [2360, 2381, 2341, 2367, 2340, 2367],
                                  [2360, 2381, 2335, 2375, 2335, 2360]] text
                     \<or> includes_then (ignore_case text) (str ''where'') (str ''order'')
                     \<or> includes_then (ignore_case text) (str ''update'') (str ''order'')
                     \<or> includes_then (ignore_case text) (str ''order'') (str ''update'')
                  then statusNarration linkedOrder locale else bot0);
          place = (if matches_any [str ''place'', str ''confirm'', str ''checkout'',
                                   str ''order now'', str ''done'', str ''submit''] text
                      \<and> (cart \<noteq> [] \<or> mentionedItems \<noteq> [])
                   then [fallback_action PLACE_ORDER (tableLabel data)] else []);
          cancel = (if matches_any [str ''cancel'', str ''abort'', str ''stop order''] text
                    then [fallback_action CANCEL_ORDER (tableLabel data)] else []);
          paid = (if matches_any [str ''paid'', str ''payment done'', str ''payment complete'',
                                  str ''i paid''] text
                  then [fallback_action CONFIRM_PAYMENT (tableLabel data)] else []);
          actions = adds @ place @ cancel @ paid;
          bot2 = (if actions = [] \<and> bot1 = TroubleThinking
                  then (if openMenuWizard
                        then MenuWizardOpened locale (map mc_name (take 4 (menuCategories tn)))
                        else OrderSuggestion locale (map mi_name (take 6 (allItems tn))))
                  else bot1)
      in (actions, bot2, openMenuWizard))"

text \<open>\<open>botResponse\<close> after the action loop.\<close>

definition final_reply :: "action list \<Rightarrow> turn \<Rightarrow> reply" where
  "final_reply actions t =
     (let b1 = (if botResponse t = TroubleThinking \<and> actions \<noteq> []
                then (if orderPlaced t \<and> orderDetails t \<noteq> None
                      then (case orderDetails t of
                              Some d \<Rightarrow> OrderPlaced (od_orderNumber d)
                            | None \<Rightarrow> botResponse t)
                      else if updatedCart t \<noteq> [] then AddedToCart
                      else botResponse t)
                else botResponse t);
          b2 = (if orderPlaced t
                then (case orderDetails t of
                        Some d \<Rightarrow> OrderPlaced (od_orderNumber d)
                      | None \<Rightarrow> b1)
                else b1)
      in case forceBotResponse t of Some f \<Rightarrow> f | None \<Rightarrow> b2)"

definition final_state :: "turn \<Rightarrow> session_state" where
  "final_state t =
     (if forceSessionCompleted t then COMPLETED
      else if orderPlaced t then CONFIRMING
      else if updatedCart t \<noteq> [] then ORDERING
      else BROWSING)"

text \<open>
  The end of a turn: an exception of the action loop is answered with status 500 and the
  store keeps what was written before it; otherwise the session row gets the cart and the
  state, the reply is saved and returned.
\<close>

definition finish_turn ::
  "jsstring \<Rightarrow> action list \<Rightarrow> bool \<Rightarrow> (thrown + turn) \<times> store \<Rightarrow> (api_error + response) \<times> store" where
  "finish_turn sid actions openMenuWizard r =
     (case fst r of
        Inl e \<Rightarrow> (Inl Internal_server_error_500, snd r)
      | Inr t \<Rightarrow>
          (Inr \<lparr>r_sessionId = sid, r_message = final_reply actions t, r_cart = updatedCart t,
                r_orderPlaced = orderPlaced t, r_orderDetails = orderDetails t,
                r_openMenuWizard = openMenuWizard\<rparr>,
           create_message
             \<lparr>m_sessionId = sid, m_sender = BOT, m_content = BotText (final_reply actions t),
              m_metadata = TurnInfo actions (orderPlaced t) (orderDetails t) openMenuWizard\<rparr>
             (update_session sid (final_state t) (updatedCart t) (snd r))))"

text \<open>
  The session of the request: the row with the given id when the request has one and the
  row exists, otherwise a new row in state \<open>BROWSING\<close> with an empty cart.
\<close>

definition get_or_create_session :: "env \<Rightarrow> request \<Rightarrow> tenant \<Rightarrow> store \<Rightarrow> chat_session \<times> store" where
  "get_or_create_session e data tn s =
     (case (if truthy (sessionId data)
            then List.find (\<lambda>x. cs_id x = string_of (sessionId data)) (st_sessions s)
            else None) of
        Some session \<Rightarrow> (session, s)
      | None \<Rightarrow>
          (let session = \<lparr>cs_id = new_id e s, cs_tenantId = tn_id tn,
                          cs_state = BROWSING, cs_cart = []\<rparr>
           in (session, s\<lparr>st_sessions := st_sessions s @ [session]\<rparr>)))"

definition linkedOrder :: "tenant \<Rightarrow> chat_session \<Rightarrow> store \<Rightarrow> order option" where
  "linkedOrder tn session s =
     find_last
       (\<lambda>x. o_tenantId x = tn_id tn
            \<and> (case o_notes x of None \<Rightarrow> False | Some n \<Rightarrow> js_includes n (session_tag (cs_id session))))
       (st_orders s)"

text \<open>
  The actions of the turn, \<open>botResponse\<close> and \<open>openMenuWizard\<close>: from the oracle when it
  gave at least one valid action, otherwise from the fallback parser.
\<close>

definition extract_actions ::
  "oracle_result \<Rightarrow> request \<Rightarrow> tenant \<Rightarrow> chat_session \<Rightarrow> store \<Rightarrow> action list \<times> reply \<times> bool" where
  "extract_actions oracle data tn session s =
     (let fromOracle = oracle_actions oracle
      in if snd fromOracle = []
         then fallback_parser data tn (cs_cart session) (linkedOrder tn session s)
                (detectLocale (message data)) (fst fromOracle) (isMenuIntent (message data))
         else (snd fromOracle, fst fromOracle, isMenuIntent (message data)))"

text \<open>
  The clean path of the handler, after the guardrails: the user message is saved, the
  actions come from the oracle or else from the fallback parser, the action loop runs, the
  turn ends.
\<close>

definition clean_turn ::
  "env \<Rightarrow> oracle_result \<Rightarrow> request \<Rightarrow> tenant \<Rightarrow> chat_session \<Rightarrow> store \<Rightarrow> (api_error + response) \<times> store" where
  "clean_turn e oracle data tn session s =
     (let s1 = create_message
                 \<lparr>m_sessionId = cs_id session, m_sender = USER,
                  m_content = UserText (message data), m_metadata = NoMetadata\<rparr> s;
          cart = cs_cart session;
          parsed = extract_actions oracle data tn session s;
          actions = fst parsed;
          c = \<lparr>c_env = e, c_tenantId = tn_id tn, c_items = allItems tn,
               c_serviceChargePercent = tn_serviceChargePercent tn,
               c_taxPercent = tn_taxPercent tn,
               c_sessionId = cs_id session, c_tableLabel = tableLabel data\<rparr>;
          t0 = \<lparr>updatedCart = cart, orderPlaced = False, orderDetails = None,
                forceSessionCompleted = False, forceBotResponse = None,
                botResponse = fst (snd parsed)\<rparr>
      in finish_turn (cs_id session) actions (snd (snd parsed))
           (process_actions c actions (t0, s1)))"

text \<open>
  \<open>POST /api/chat\<close>. \<open>body\<close> is the request body after \<open>chatMessageSchema.parse\<close>, \<open>None\<close>
  when the schema rejects it.
\<close>

definition POST :: "env \<Rightarrow> oracle_result \<Rightarrow> request option \<Rightarrow> store \<Rightarrow> (api_error + response) \<times> store" where
  "POST e oracle body s =
     (case body of
        None \<Rightarrow> (Inl Validation_failed_400, s)
      | Some data \<Rightarrow>
          (case List.find (\<lambda>tn. tn_slug tn = tenantSlug data) (st_tenants s) of
             None \<Rightarrow> (Inl Restaurant_not_found_404, s)
           | Some tn \<Rightarrow>
               (let found = get_or_create_session e data tn s;
                    session = fst found; s1 = snd found;
                    locale = detectLocale (message data)
                in if isPromptInjection (message data)
                   then guardrail_reply (cs_id session) (message data)
                          (localizedFallback locale Safe) PROMPT_INJECTION s1
                   else if isAbusive (message data)
                   then guardrail_reply (cs_id session) (message data)
                          (localizedFallback locale Abuse) ABUSE s1
                   else if isFaultyMessage (message data)
                   then guardrail_reply (cs_id session) (message data)
                          (localizedFallback locale Clarify) FAULTY_INPUT s1
                   else clean_turn e oracle data tn session s1)))"

text \<open>
  The chat widget (\<open>handleSend\<close> of \<open>ChatWidget.tsx\<close>) sends the input unless it is blank, a
  message is on its way, or the session state it holds is \<open>COMPLETED\<close>.
\<close>

definition handleSend_sends :: "jsstring \<Rightarrow> bool \<Rightarrow> session_state \<Rightarrow> bool" where
  "handleSend_sends input isPending sessionState =
     (\<not> (trim input = [] \<or> isPending \<or> sessionState = COMPLETED))"

section \<open>Notions used to state the properties\<close>

text \<open>
  The store that attempt \<open>k\<close> of the order loop sees: what the other requests have made of
  the store the turn started the loop with.
\<close>

fun attempt_store :: "env \<Rightarrow> nat \<Rightarrow> store \<Rightarrow> store" where
  "attempt_store e 0 s = others e 0 s"
| "attempt_store e (Suc k) s = others e (Suc k) (attempt_store e k s)"

text \<open>
  The spec's words for a merge, "same-item lines add quantities; new items are appended":
  a cart line whose menu item the order has adds its quantity to that order line (the first
  one with that menu item) and the line total follows; the other order lines stay as
  they are; the cart lines whose menu item the order lacks become new order lines at the
  end, in the order of the cart, each with the menu item, the name, the unit price, the
  quantity and the total of its cart line.
\<close>

definition added_to :: "order_item \<Rightarrow> cart_line \<Rightarrow> order_item" where
  "added_to i c =
     i\<lparr>oi_quantity := oi_quantity i + cl_qty c,
       oi_total := jmul (Num (of_int (oi_quantity i + cl_qty c))) (oi_unitPrice i)\<rparr>"

definition first_line_with :: "order_item list \<Rightarrow> jsstring \<Rightarrow> nat \<Rightarrow> bool" where
  "first_line_with old mid k =
     (k < length old \<and> oi_menuItemId (old ! k) = mid
      \<and> (\<forall>j < k. oi_menuItemId (old ! j) \<noteq> mid))"

definition order_line_of :: "cart_line \<Rightarrow> order_item" where
  "order_line_of c =
     \<lparr>oi_menuItemId = cl_id c, oi_itemName = cl_name c, oi_unitPrice = cl_price c,
      oi_quantity = cl_qty c, oi_total = cl_total c\<rparr>"

definition merged_lines :: "order_item list \<Rightarrow> cart_line list \<Rightarrow> order_item list \<Rightarrow> bool" where
  "merged_lines old cart new =
     ((\<forall>c \<in> set cart. \<forall>k < length old.
          first_line_with old (cl_id c) k \<longrightarrow> new ! k = added_to (old ! k) c)
      \<and> (\<forall>k < length old.
            (\<forall>c \<in> set cart. \<not> first_line_with old (cl_id c) k) \<longrightarrow> new ! k = old ! k)
      \<and> length new = length old
            + length (filter (\<lambda>c. cl_id c \<notin> set (map oi_menuItemId old)) cart)
      \<and> drop (length old) new
            = map order_line_of (filter (\<lambda>c. cl_id c \<notin> set (map oi_menuItemId old)) cart))"

text \<open>
  The spec's words for the decision, "a non-terminal (status not PAID/CANCELLED) order
  already exists for the resolved table": a table was resolved, and an order of the tenant
  on that table has a status other than \<open>PAID\<close> and \<open>CANCELLED\<close>. Neither reads the session
  or the notes of an order. \<open>most_recent_open\<close> says that row \<open>i\<close> of the order table (which
  is in creation order) is the most recent such order.
\<close>

definition open_for :: "jsstring \<Rightarrow> jsstring option \<Rightarrow> order \<Rightarrow> bool" where
  "open_for tid tableId x =
     (o_tenantId x = tid \<and> o_tableId x = tableId \<and> o_status x \<noteq> PAID \<and> o_status x \<noteq> CANCELLED)"

definition open_order_exists :: "store \<Rightarrow> jsstring \<Rightarrow> jsstring option \<Rightarrow> bool" where
  "open_order_exists s tid tableId =
     (case tableId of
        None \<Rightarrow> False
      | Some tb \<Rightarrow> tb \<noteq> [] \<and> list_ex (open_for tid tableId) (st_orders s))"

definition most_recent_open :: "store \<Rightarrow> jsstring \<Rightarrow> jsstring option \<Rightarrow> nat \<Rightarrow> bool" where
  "most_recent_open s tid tableId i =
     (i < length (st_orders s) \<and> open_for tid tableId (st_orders s ! i)
      \<and> list_all (\<lambda>x. \<not> open_for tid tableId x) (drop (Suc i) (st_orders s)))"

text \<open>
  The outcome of a merge into the open order \<open>old\<close>, from the store \<open>sk\<close> to the store
  \<open>s'\<close>: no order row is added, the rows other than \<open>old\<close> are as they were, and the row of
  \<open>old\<close> holds the merged lines.
\<close>

definition merged_outcome :: "cart_line list \<Rightarrow> order \<Rightarrow> store \<Rightarrow> store \<Rightarrow> bool" where
  "merged_outcome cart old sk s' =
     (length (st_orders s') = length (st_orders sk)
      \<and> (\<forall>k < length (st_orders sk).
            if o_id (st_orders sk ! k) = o_id old
            then o_id (st_orders s' ! k) = o_id old
                 \<and> merged_lines (o_items old) cart (o_items (st_orders s' ! k))
            else st_orders s' ! k = st_orders sk ! k))"

text \<open>
  The outcome of a creation: one order row is added at the end, for the tenant and the
  resolved table, with the number the allocator returned in that transaction, which no order
  of the tenant had, and with one order line for each line of the cart.
\<close>

definition created_outcome ::
  "ctx \<Rightarrow> jsstring option \<Rightarrow> cart_line list \<Rightarrow> store \<Rightarrow> store \<Rightarrow> bool" where
  "created_outcome c tableId cart sk s' =
     (st_orders s' \<noteq> [] \<and> butlast (st_orders s') = st_orders sk
      \<and> (let ord = last (st_orders s')
         in o_tenantId ord = c_tenantId c
            \<and> o_tableId ord = (if truthy tableId then tableId else None)
            \<and> o_orderNumber ord = nextOrderNumberForTenant (c_env c) sk (c_tenantId c)
            \<and> \<not> order_number_taken sk (c_tenantId c) (o_orderNumber ord)
            \<and> o_items ord = map order_line_of cart))"

text \<open>The turn variables after an order was placed.\<close>

definition placed :: "turn \<Rightarrow> order \<Rightarrow> turn" where
  "placed t ord = t\<lparr>orderPlaced := True, orderDetails := Some (details_of ord), updatedCart := []\<rparr>"

text \<open>Another order that is not terminal references table \<open>tbl\<close>.\<close>

definition other_open_order :: "store \<Rightarrow> jsstring \<Rightarrow> jsstring \<Rightarrow> bool" where
  "other_open_order s tbl oid =
     list_ex (\<lambda>x. o_tableId x = Some tbl \<and> non_terminal x \<and> o_id x \<noteq> oid) (st_orders s)"

text \<open>
  The store after the order \<open>tgt\<close> was cancelled or paid by the session \<open>sid\<close>: the order
  rows with the id of \<open>tgt\<close> have the closing status, the table of \<open>tgt\<close> is \<open>AVAILABLE\<close>
  when no other open order references it, the session row is \<open>COMPLETED\<close> with an empty cart;
  every other row is as it was.
\<close>

definition closed_store :: "action_name \<Rightarrow> order \<Rightarrow> jsstring \<Rightarrow> store \<Rightarrow> store" where
  "closed_store act tgt sid s =
     s\<lparr>st_orders :=
         map (\<lambda>x. if o_id x = o_id tgt
                  then (if act = CANCEL_ORDER then x\<lparr>o_status := CANCELLED\<rparr>
                        else x\<lparr>o_status := PAID, o_paymentStatus := str ''PAID''\<rparr>)
                  else x) (st_orders s),
       st_tables :=
         (if truthy (o_tableId tgt)
             \<and> \<not> other_open_order s (string_of (o_tableId tgt)) (o_id tgt)
          then map (\<lambda>r. if tb_id r = string_of (o_tableId tgt)
                        then r\<lparr>tb_status := AVAILABLE\<rparr> else r) (st_tables s)
          else st_tables s),
       st_sessions :=
         map (\<lambda>x. if cs_id x = sid then x\<lparr>cs_state := COMPLETED, cs_cart := []\<rparr> else x)
           (st_sessions s)\<rparr>"

text \<open>
  The most recent order of the tenant that is not terminal and, when a label is given, whose
  table has that label.
\<close>

definition latest_open_order :: "store \<Rightarrow> jsstring \<Rightarrow> jsstring option \<Rightarrow> order \<Rightarrow> bool" where
  "latest_open_order s tid label tgt =
     (case find_last
             (\<lambda>x. o_tenantId x = tid \<and> non_terminal x
                  \<and> (case label of Some l \<Rightarrow> order_table_has_label s l x | None \<Rightarrow> True))
             (st_orders s) of
        Some x \<Rightarrow> x = tgt
      | None \<Rightarrow> False)"

text \<open>The response of a request, and a session row after it.\<close>

definition response_of :: "(api_error + response) \<times> store \<Rightarrow> response option" where
  "response_of r = (case fst r of Inr x \<Rightarrow> Some x | Inl e \<Rightarrow> None)"

definition session_after :: "jsstring \<Rightarrow> (api_error + response) \<times> store \<Rightarrow> chat_session option" where
  "session_after sid r = List.find (\<lambda>x. cs_id x = sid) (st_sessions (snd r))"

definition guardrail_of :: "jsstring \<Rightarrow> guardrail" where
  "guardrail_of msg =
     (if isPromptInjection msg then PROMPT_INJECTION
      else if isAbusive msg then ABUSE
      else FAULTY_INPUT)"

definition canned_reply :: "jsstring \<Rightarrow> reply" where
  "canned_reply msg =
     LocalizedFallback (detectLocale msg)
       (if isPromptInjection msg then Safe else if isAbusive msg then Abuse else Clarify)"





section \<open>A small restaurant, for the worked cases\<close>

text \<open>
  One tenant with the menu item Momo at Rs.150, a service charge of 10 percent and a tax
  of 13 percent, one table \<open>T-01\<close> and one chat session.
\<close>

definition ex_momo :: menu_item where
  "ex_momo = \<lparr>mi_id = str ''m1'', mi_name = str ''Momo'', mi_price = Num 150, mi_isAvailable = True\<rparr>"

definition ex_tenant :: tenant where
  "ex_tenant =
     \<lparr>tn_id = str ''t1'', tn_slug = str ''cafe'', tn_serviceChargePercent = Num 10,
      tn_taxPercent = Num 13,
      tn_menuCategories = [\<lparr>mc_name = str ''Snacks'', mc_isActive = True, mc_items = [ex_momo]\<rparr>]\<rparr>"

definition ex_table :: "table_status \<Rightarrow> table_row" where
  "ex_table st =
     \<lparr>tb_id = str ''tb1'', tb_tenantId = str ''t1'', tb_label = str ''T-01'', tb_status = st\<rparr>"

definition ex_line :: "int \<Rightarrow> cart_line" where
  "ex_line q =
     \<lparr>cl_id = str ''m1'', cl_name = str ''Momo'', cl_price = Num 150, cl_qty = q,
      cl_total = Num (of_int q * 150)\<rparr>"

definition ex_session :: "session_state \<Rightarrow> cart_line list \<Rightarrow> chat_session" where
  "ex_session st cart =
     \<lparr>cs_id = str ''s1'', cs_tenantId = str ''t1'', cs_state = st, cs_cart = cart\<rparr>"

text \<open>An order of one Momo on table \<open>T-01\<close>, placed by another session \<open>s0\<close>.\<close>

definition ex_order :: "order_status \<Rightarrow> order" where
  "ex_order st =
     \<lparr>o_id = str ''o1'', o_tenantId = str ''t1'', o_orderNumber = str ''QS-1'',
      o_tableId = Some (str ''tb1''), o_type = str ''DINE_IN'', o_status = st,
      o_paymentStatus = str ''PENDING'',
      o_items = [\<lparr>oi_menuItemId = str ''m1'', oi_itemName = str ''Momo'', oi_unitPrice = Num 150,
                  oi_quantity = 1, oi_total = Num 150\<rparr>],
      o_subtotal = Num 150, o_serviceCharge = Num 15, o_tax = Num 20, o_total = Num 185,
      o_notes = Some (str ''CHAT_SESSION:s0'')\<rparr>"

text \<open>The table is occupied when the store has an order.\<close>

definition ex_store :: "order list \<Rightarrow> chat_session \<Rightarrow> store" where
  "ex_store orders session =
     \<lparr>st_tenants = [ex_tenant],
      st_tables = [ex_table (if orders = [] then AVAILABLE else OCCUPIED)],
      st_orders = orders,
      st_sessions = [session], st_messages = []\<rparr>"

text \<open>
  An environment: the label helper returns the text it is given, if there is any; the
  allocator numbers the first order \<open>QS-1\<close> and any later one \<open>QS-2\<close>; the turn runs alone.
  In the second environment the allocator always returns \<open>QS-1\<close>.
\<close>

definition ex_env :: env where
  "ex_env =
     \<lparr>extractPrimaryTableLabel = (\<lambda>t. if t = [] then None else Some t),
      nextOrderNumberForTenant = (\<lambda>s tid. if st_orders s = [] then str ''QS-1'' else str ''QS-2''),
      new_id = (\<lambda>s. if st_orders s = [] then str ''o1'' else str ''o2''),
      default_status = CONFIRMED,
      default_paymentStatus = str ''PENDING'',
      others = (\<lambda>k s. s)\<rparr>"

definition ex_env_stuck :: env where
  "ex_env_stuck = ex_env\<lparr>nextOrderNumberForTenant := (\<lambda>s tid. str ''QS-1'')\<rparr>"

definition ex_ctx :: "env \<Rightarrow> ctx" where
  "ex_ctx e =
     \<lparr>c_env = e, c_tenantId = str ''t1'', c_items = [ex_momo], c_serviceChargePercent = Num 10,
      c_taxPercent = Num 13, c_sessionId = str ''s1'', c_tableLabel = Some (str ''T-01'')\<rparr>"

definition ex_turn :: "cart_line list \<Rightarrow> turn" where
  "ex_turn cart =
     \<lparr>updatedCart = cart, orderPlaced = False, orderDetails = None,
      forceSessionCompleted = False, forceBotResponse = None, botResponse = TroubleThinking\<rparr>"

definition ex_action :: "action_name \<Rightarrow> jsstring option \<Rightarrow> action" where
  "ex_action name tbl = \<lparr>a_action = name, a_name = None, a_tableId = tbl, a_qty = None\<rparr>"

definition ex_request :: "string \<Rightarrow> request" where
  "ex_request msg =
     \<lparr>message = str msg, sessionId = Some (str ''s1''), tenantSlug = str ''cafe'',
      tableLabel = None\<rparr>"

text \<open>The same request sent from the page of table \<open>T-01\<close>.\<close>

definition ex_request_at_table :: "string \<Rightarrow> request" where
  "ex_request_at_table msg = (ex_request msg)\<lparr>tableLabel := Some (str ''T-01'')\<rparr>"

text \<open>A second menu item, Chai at Rs.50, one cart line of it, and a menu with both items.\<close>

definition ex_chai :: menu_item where
  "ex_chai = \<lparr>mi_id = str ''m2'', mi_name = str ''Chai'', mi_price = Num 50, mi_isAvailable = True\<rparr>"

definition ex_chai_line :: cart_line where
  "ex_chai_line =
     \<lparr>cl_id = str ''m2'', cl_name = str ''Chai'', cl_price = Num 50, cl_qty = 1,
      cl_total = Num 50\<rparr>"

text \<open>The same restaurant with no service charge and a tax of 29 percent.\<close>

definition ex_ctx_29 :: ctx where
  "ex_ctx_29 = (ex_ctx ex_env)\<lparr>c_serviceChargePercent := Num 0, c_taxPercent := Num 29\<rparr>"

text \<open>The context of a request sent without a table label.\<close>

definition ex_ctx_no_table :: ctx where
  "ex_ctx_no_table = (ex_ctx ex_env)\<lparr>c_tableLabel := None\<rparr>"


section \<open>Letter case of ASCII texts\<close>

lemma shift_below: "list_all (\<lambda>r. c < fst r) rows \<Longrightarrow> shift rows c = c"
  by (induction rows) auto

lemma lower_rows_tail: "list_all (\<lambda>r. 128 \<le> fst r) (tl lower_rows)"
  by (simp add: lower_rows_def)

lemma shift_lower_ascii: 
  assumes "c < 128"
  shows "shift lower_rows c = lower_unit c"
proof -
  have "list_all (\<lambda>r. c < fst r) (tl lower_rows)"
    using lower_rows_tail assms by (auto simp: list_all_iff)
  then have "shift (tl lower_rows) c = c" by (rule shift_below)
  moreover have "lower_rows = (65, 90, 1, 32) # tl lower_rows"
    by (simp add: lower_rows_def)
  ultimately have "shift lower_rows c = (if 65 \<le> c \<and> c \<le> 90 then c + 32 else c)"
    by (metis shift.simps(2) mod_by_1 nat_int of_nat_add of_nat_numeral)
  then show ?thesis by (simp add: lower_unit_def)
qed

lemma code_points_ascii: "list_all (\<lambda>u. u < 128) s \<Longrightarrow> code_points s = s"
  by (induction s rule: code_points.induct) auto

lemma lower_points_ascii:
  "list_all (\<lambda>u. u < 128) s \<Longrightarrow> lower_points before s = map lower_unit s"
  by (induction s arbitrary: before) (auto simp: shift_lower_ascii)

lemma lower_unit_ascii: "c < 128 \<Longrightarrow> lower_unit c < 128"
  by (auto simp: lower_unit_def)

lemma concat_code_units: "list_all (\<lambda>u. u < 65536) s \<Longrightarrow> concat (map code_units s) = s"
  by (induction s) (auto simp: code_units_def)

lemma toLowerCase_ascii:
  assumes "list_all (\<lambda>u. u < 128) s"
  shows "toLowerCase s = map lower_unit s"
proof -
  have "list_all (\<lambda>u. u < 65536) (map lower_unit s)"
    using assms lower_unit_ascii by (fastforce simp: list_all_iff)
  then have "concat (map code_units (map lower_unit s)) = map lower_unit s"
    by (rule concat_code_units)
  with assms show ?thesis
    by (simp only: toLowerCase_def code_points_ascii lower_points_ascii)
qed

lemma toLowerCase_example_ascii: "toLowerCase (str ''2 Momo Please'') = str ''2 momo please''"
  by (simp add: toLowerCase_ascii str_def lower_unit_def)


section \<open>Rounding to a double\<close>

lemma pow2_add: "(2::rat) powi (m + n) = 2 powi m * 2 powi n"
  by (rule power_int_add) simp

lemma pow2_diff: "(2::rat) powi (m - n) = 2 powi m / 2 powi n"
  by (rule power_int_diff) simp

lemma pow2_less_iff: "(2::rat) powi m < 2 powi n \<longleftrightarrow> m < n"
proof
  assume "(2::rat) powi m < 2 powi n"
  show "m < n"
  proof (rule ccontr)
    assume "\<not> m < n"
    then have "(2::rat) powi n \<le> 2 powi m" by (intro power_int_increasing) simp_all
    with \<open>(2::rat) powi m < 2 powi n\<close> show False by simp
  qed
next
  assume "m < n"
  then show "(2::rat) powi m < 2 powi n" by (intro power_int_strict_increasing) simp_all
qed

lemma pow2_le_iff: "(2::rat) powi m \<le> 2 powi n \<longleftrightarrow> m \<le> n"
  using pow2_less_iff [of n m] by (simp add: not_less [symmetric])

lemma ilog2_bounds:
  assumes "0 < x"
  shows "2 powi ilog2 x \<le> x" and "x < 2 powi (ilog2 x + 1)"
proof -
  obtain a b where q: "quotient_of x = (a, b)" by force
  then have b: "0 < b" and x: "x = of_int a / of_int b"
    by (simp_all add: quotient_of_denom_pos quotient_of_div)
  with assms have a: "0 < a" by (simp add: zero_less_divide_iff)
  let ?k = "bitlen a - bitlen b"
  have la: "1 \<le> bitlen a" and lb: "1 \<le> bitlen b"
    using a b by (simp_all add: bitlen_alt_def)
  have ba: "(2::rat) ^ nat (bitlen a - 1) \<le> of_int a" "of_int a < (2::rat) ^ nat (bitlen a)"
    using bitlen_bounds [OF a]
    by (metis of_int_le_iff of_int_numeral of_int_power, metis of_int_less_iff of_int_numeral of_int_power)
  have bb: "(2::rat) ^ nat (bitlen b - 1) \<le> of_int b" "of_int b < (2::rat) ^ nat (bitlen b)"
    using bitlen_bounds [OF b]
    by (metis of_int_le_iff of_int_numeral of_int_power, metis of_int_less_iff of_int_numeral of_int_power)
  have pa: "(2::rat) ^ nat (bitlen a) = 2 powi bitlen a" "(2::rat) ^ nat (bitlen a - 1) = 2 powi (bitlen a - 1)"
    using la by (simp_all add: power_int_def)
  have pb: "(2::rat) ^ nat (bitlen b) = 2 powi bitlen b" "(2::rat) ^ nat (bitlen b - 1) = 2 powi (bitlen b - 1)"
    using lb by (simp_all add: power_int_def)
  have up: "x < 2 powi (?k + 1)"
  proof -
    have "x < 2 powi bitlen a / 2 powi (bitlen b - 1)"
      unfolding x using ba(2) bb(1) b a pa pb
      by (intro frac_less) simp_all
    also have "\<dots> = 2 powi (bitlen a - (bitlen b - 1))"
      by (simp only: pow2_diff)
    also have "bitlen a - (bitlen b - 1) = ?k + 1" by simp
    finally show ?thesis .
  qed
  have low: "2 powi (?k - 1) \<le> x"
  proof -
    have "2 powi (bitlen a - 1) / 2 powi bitlen b \<le> x"
      unfolding x using ba(1) bb(2) b a pa pb
      by (intro frac_le) simp_all
    moreover have "2 powi (bitlen a - 1) / 2 powi bitlen b = (2::rat) powi (bitlen a - 1 - bitlen b)"
      by (simp only: pow2_diff)
    moreover have "bitlen a - 1 - bitlen b = ?k - 1" by simp
    ultimately show ?thesis by simp
  qed
  show "2 powi ilog2 x \<le> x"
    using low by (simp add: ilog2_def q Let_def)
  show "x < 2 powi (ilog2 x + 1)"
    using up by (auto simp: ilog2_def q Let_def not_le)
qed

lemma ilog2_unique:
  assumes "0 < x" and "2 powi k \<le> x" and "x < 2 powi (k + 1)"
  shows "ilog2 x = k"
proof -
  have "2 powi ilog2 x < (2::rat) powi (k + 1)"
    using ilog2_bounds(1) [OF assms(1)] assms(3) by simp
  then have "ilog2 x < k + 1" by (simp only: pow2_less_iff)
  moreover have "2 powi k < (2::rat) powi (ilog2 x + 1)"
    using ilog2_bounds(2) [OF assms(1)] assms(2) by simp
  then have "k < ilog2 x + 1" by (simp only: pow2_less_iff)
  ultimately show ?thesis by simp
qed

lemma round_ties_even_error: "\<bar>of_int (round_ties_even y) - y\<bar> \<le> 1 / 2"
proof -
  have "of_int \<lfloor>y\<rfloor> \<le> y" "y < of_int \<lfloor>y\<rfloor> + 1" by linarith+
  then show ?thesis by (auto simp: round_ties_even_def Let_def)
qed

lemma round_ties_even_near:
  assumes "\<bar>y - of_int m\<bar> < 1 / 2"
  shows "round_ties_even y = m"
proof -
  have "\<bar>of_int (round_ties_even y) - (of_int m :: rat)\<bar> < 1"
    using round_ties_even_error [of y] assms by linarith
  then have "\<bar>(of_int (round_ties_even y - m) :: rat)\<bar> < 1" by simp
  then have "\<bar>round_ties_even y - m\<bar> < 1"
    by (metis of_int_abs of_int_less_1_iff)
  then show ?thesis by simp
qed

lemma round_ties_even_int [simp]: "round_ties_even (of_int k) = k"
  by (rule round_ties_even_near) simp

lemma rounded_le:
  assumes "y < 2 ^ 53"
  shows "(of_int (round_ties_even y) :: rat) \<le> 2 ^ 53"
proof -
  have "(of_int (round_ties_even y) :: rat) < 2 ^ 53 + 1"
    using round_ties_even_error [of y] assms by linarith
  then have "(of_int (round_ties_even y) :: rat) < of_int (2 ^ 53 + 1)" by simp
  then have "round_ties_even y < 2 ^ 53 + 1" by (simp only: of_int_less_iff)
  then have "round_ties_even y \<le> 2 ^ 53" by simp
  then have "(of_int (round_ties_even y) :: rat) \<le> of_int (2 ^ 53)" by (simp only: of_int_le_iff)
  then show ?thesis by simp
qed

lemma quantum_pos [simp]: "0 < quantum x"
  by (simp add: quantum_def)

lemma quantum_nonzero [simp]: "quantum x \<noteq> 0"
  by (simp add: quantum_def)

lemma quantum_minus [simp]: "quantum (- x) = quantum x"
  by (simp add: quantum_def)

lemma nearest_minus [simp]: "nearest (- x) = nearest x"
  by (simp add: nearest_def)

lemma quantum_eq:
  assumes "0 < x" and "2 powi e \<le> x" and "x < 2 powi (e + 1)" and "- 1022 \<le> e"
  shows "quantum x = 2 powi (e - 52)"
  using ilog2_unique [OF assms(1-3)] assms(1,4) by (simp add: quantum_def max_def)


text \<open>Below the exponent bound the nearest double is finite.\<close>

lemma nearest_le:
  assumes "\<bar>x\<bar> < 2 powi (e + 1)" and "quantum x = 2 powi (e - 52)"
  shows "nearest x \<le> 2 powi (e + 1)"
proof -
  have "\<bar>x\<bar> / quantum x < 2 powi (e + 1) / quantum x"
    using assms(1) by (intro divide_strict_right_mono) simp_all
  also have "2 powi (e + 1) / quantum x = (2::rat) powi (e + 1 - (e - 52))"
    unfolding assms(2) by (simp only: pow2_diff)
  also have "\<dots> = 2 ^ 53" by simp
  finally have "(of_int (round_ties_even (\<bar>x\<bar> / quantum x)) :: rat) \<le> 2 ^ 53"
    by (rule rounded_le)
  then have "nearest x \<le> 2 ^ 53 * quantum x"
    unfolding nearest_def using quantum_pos [of x]
    by (intro mult_right_mono) (simp, simp only: less_imp_le)
  also have "2 ^ 53 * quantum x = 2 powi 53 * 2 powi (e - 52)"
    unfolding assms(2) by simp
  also have "\<dots> = 2 powi (53 + (e - 52))" by (simp only: pow2_add)
  also have "53 + (e - 52) = e + 1" by simp
  finally show ?thesis .
qed

lemma nearest_finite:
  assumes "\<bar>x\<bar> < 2 powi (e + 1)" and "quantum x = 2 powi (e - 52)" and "e \<le> 1022"
  shows "nearest x < double_limit"
proof -
  have "nearest x \<le> 2 powi (e + 1)" using assms(1,2) by (rule nearest_le)
  also have "\<dots> < 2 powi 1024" using assms(3) by (simp only: pow2_less_iff)
  finally show ?thesis by (simp only: double_limit_def)
qed

lemma to_double_finite:
  assumes "x \<noteq> 0" and "nearest x < double_limit"
  shows "to_double x = Num (if 0 < x then nearest x else - nearest x)"
  using assms by (simp add: to_double_def)

lemma to_double_cert:
  assumes "0 < x" and "2 powi e \<le> x" and "x < 2 powi (e + 1)" and "- 1022 \<le> e" and "e \<le> 1022"
    and "\<bar>x / 2 powi (e - 52) - of_int m\<bar> < 1 / 2"
  shows "to_double x = Num (of_int m * 2 powi (e - 52))"
proof -
  have q: "quantum x = 2 powi (e - 52)" using assms(1-4) by (rule quantum_eq)
  have "round_ties_even (\<bar>x\<bar> / quantum x) = m"
    unfolding q using assms(1,6) by (intro round_ties_even_near) simp
  then have n: "nearest x = of_int m * 2 powi (e - 52)"
    by (simp add: nearest_def q)
  have "nearest x < double_limit"
    using assms(1,3,5) q by (intro nearest_finite [where e = e]) simp_all
  with assms(1) n show ?thesis by (simp add: to_double_finite)
qed

lemma to_double_exact:
  assumes "0 < x" and "2 powi e \<le> x" and "x < 2 powi (e + 1)" and "- 1022 \<le> e" and "e \<le> 1022"
    and "x = of_int m * 2 powi (e - 52)"
  shows "to_double x = Num x"
proof -
  have "x / 2 powi (e - 52) = of_int m" using assms(6) by simp
  then have "\<bar>x / 2 powi (e - 52) - of_int m\<bar> < 1 / 2" by simp
  with assms(1-5) have "to_double x = Num (of_int m * 2 powi (e - 52))" by (rule to_double_cert)
  with assms(6) show ?thesis by simp
qed

lemma to_double_minus:
  "to_double (- x) = (case to_double x of Num r \<Rightarrow> Num (- r) | NaN \<Rightarrow> NaN
                      | PosInfinity \<Rightarrow> NegInfinity | NegInfinity \<Rightarrow> PosInfinity)"
  by (simp add: to_double_def)

lemma ilog2_nat:
  assumes "1 \<le> x" and "x \<le> 2 ^ n"
  shows "0 \<le> ilog2 x" and "ilog2 x \<le> int n"
proof -
  from assms(1) have pos: "0 < x" by simp
  have "(2::rat) powi 0 \<le> x" using assms(1) by simp
  also have "x < 2 powi (ilog2 x + 1)" using pos by (rule ilog2_bounds(2))
  finally have "0 < ilog2 x + 1" by (simp only: pow2_less_iff)
  then show "0 \<le> ilog2 x" by simp
  have "2 powi ilog2 x \<le> x" using pos by (rule ilog2_bounds(1))
  also have "x \<le> 2 powi int n" using assms(2) by simp
  finally show "ilog2 x \<le> int n" by (simp only: pow2_le_iff)
qed

lemma to_double_int:
  assumes "x \<in> \<int>" and "\<bar>x\<bar> \<le> 2 ^ 53"
  shows "to_double x = Num x"
proof -
  have pos: "to_double y = Num y" if "y \<in> \<int>" "0 < y" "y \<le> 2 ^ 53" for y
  proof -
    from that obtain n where n: "y = of_int n" "0 < n" by (auto elim: Ints_cases)
    then have "1 \<le> y" by simp
    note e = ilog2_nat [OF this that(3)]
    let ?e = "ilog2 y"
    have b: "2 powi ?e \<le> y" "y < 2 powi (?e + 1)"
      using that(2) by (rule ilog2_bounds)+
    show ?thesis
    proof (cases "?e \<le> 52")
      case True
      have "y = of_int (n * 2 ^ nat (52 - ?e)) * 2 powi (?e - 52)"
      proof -
        have "(2::rat) powi (52 - ?e) * 2 powi (?e - 52) = 2 powi (52 - ?e + (?e - 52))"
          by (simp only: pow2_add)
        then have "(2::rat) powi (52 - ?e) * 2 powi (?e - 52) = 1" by simp
        moreover have "(2::rat) powi (52 - ?e) = 2 ^ nat (52 - ?e)"
          using True by (simp add: power_int_def)
        ultimately show ?thesis by (simp add: n mult.assoc)
      qed
      moreover have "- 1022 \<le> ?e" "?e \<le> 1022" using e True by simp_all
      ultimately show ?thesis
        using that(2) b by (intro to_double_exact [where e = ?e and m = "n * 2 ^ nat (52 - ?e)"])
    next
      case False
      with e have e53: "?e = 53" by simp
      with b(1) that(3) have y: "y = 2 ^ 53" by simp
      have "y = of_int (2 ^ 52) * 2 powi (?e - 52)"
        unfolding e53 by (simp add: y)
      moreover have "- 1022 \<le> ?e" "?e \<le> 1022" using e53 by simp_all
      ultimately show ?thesis
        using that(2) b by (intro to_double_exact [where e = ?e and m = "2 ^ 52"])
    qed
  qed
  show ?thesis
  proof (cases "0 < x")
    case True
    with assms show ?thesis by (intro pos) simp_all
  next
    case False
    show ?thesis
    proof (cases "x = 0")
      case True
      then show ?thesis by (simp add: to_double_def)
    next
      case nz: False
      with False assms have "to_double (- x) = Num (- x)" by (intro pos) simp_all
      then show ?thesis by (simp add: to_double_minus split: number.splits)
    qed
  qed
qed



lemma to_double_not_NaN [simp]: "to_double x \<noteq> NaN"
  by (simp add: to_double_def)

lemma to_double_overflow:
  assumes "to_double x = PosInfinity \<or> to_double x = NegInfinity"
  shows "2 powi 1023 \<le> \<bar>x\<bar>"
proof (rule ccontr)
  assume "\<not> 2 powi 1023 \<le> \<bar>x\<bar>"
  then have small: "\<bar>x\<bar> < 2 powi 1023" by (simp only: not_le)
  from assms have nz: "x \<noteq> 0" by (auto simp: to_double_def)
  let ?e = "max (ilog2 \<bar>x\<bar>) (- 1022)"
  have q: "quantum x = 2 powi (?e - 52)" by (simp add: quantum_def)
  have "2 powi ilog2 \<bar>x\<bar> \<le> \<bar>x\<bar>"
    using ilog2_bounds(1) [of "\<bar>x\<bar>"] nz by simp
  from this small have "2 powi ilog2 \<bar>x\<bar> < (2::rat) powi 1023" by (rule le_less_trans)
  then have "ilog2 \<bar>x\<bar> < 1023" by (simp only: pow2_less_iff)
  then have e: "?e \<le> 1022" by simp
  have "\<bar>x\<bar> < 2 powi (ilog2 \<bar>x\<bar> + 1)"
    using ilog2_bounds(2) [of "\<bar>x\<bar>"] nz by simp
  also have "\<dots> \<le> 2 powi (?e + 1)"
    by (simp only: pow2_le_iff)
  finally have "nearest x < double_limit"
    using q e by (rule nearest_finite)
  with nz assms show False by (simp add: to_double_def)
qed


lemma jmul_commute: "jmul a b = jmul b a"
  by (cases a; cases b) (simp_all add: mult.commute)


lemma to_double_numeral [simp]:
  "numeral n \<le> (2::rat) ^ 53 \<Longrightarrow> to_double (numeral n) = Num (numeral n)"
  by (rule to_double_int) simp_all

lemma to_double_0 [simp]: "to_double 0 = Num 0"
  by (simp add: to_double_def)

lemma to_double_1 [simp]: "to_double 1 = Num 1"
  by (rule to_double_int) simp_all


lemma Math_round_finite:
  "Math_round x = Num k \<longleftrightarrow> (\<exists>v. x = Num v \<and> k = of_int \<lfloor>v + 1 / 2\<rfloor>)"
  by (cases x) auto






section \<open>Properties of the cart reducer\<close>

lemma find_menu_item_name:
  "find_menu_item items (Some n) = Some m \<Longrightarrow>
     m \<in> set items \<and> toLowerCase (mi_name m) = toLowerCase n"
  by (auto simp: find_menu_item_def find_Some_iff)

lemma find_menu_item_member:
  "x \<in> set items \<Longrightarrow> \<exists>m. find_menu_item items (Some (mi_name x)) = Some m"
  by (cases "find_menu_item items (Some (mi_name x))")
     (auto simp: find_menu_item_def find_None_iff)

text \<open>
  C9. Adding \<open>ADD_ITEM(x, 2)\<close> twice to an empty cart, for an item \<open>x\<close> of the menu, gives
  a cart of exactly one line with quantity 4: the line of the menu item the name resolves to
  (the first item of the menu with that name, compared case-insensitively), which is \<open>x\<close>
  itself when no earlier item shares its name.
\<close>

theorem add_item_twice_one_line:
  assumes "x \<in> set items"
  shows "\<exists>m. find_menu_item items (Some (mi_name x)) = Some m
           \<and> toLowerCase (mi_name m) = toLowerCase (mi_name x)
           \<and> cart_reducer items [] [add_action (mi_name x) 2, add_action (mi_name x) 2]
               = [\<lparr>cl_id = mi_id m, cl_name = mi_name m, cl_price = mi_price m,
                   cl_qty = 4, cl_total = jmul (Num 4) (mi_price m)\<rparr>]"
proof -
  from assms obtain m where m: "find_menu_item items (Some (mi_name x)) = Some m"
    using find_menu_item_member by blast
  have nm: "toLowerCase (mi_name m) = toLowerCase (mi_name x)"
    using find_menu_item_name [OF m] by simp
  have "cart_reducer items [] [add_action (mi_name x) 2, add_action (mi_name x) 2]
          = [\<lparr>cl_id = mi_id m, cl_name = mi_name m, cl_price = mi_price m,
              cl_qty = 4, cl_total = jmul (Num 4) (mi_price m)\<rparr>]"
    using m by (simp add: cart_reducer_def cart_step_def add_item_def add_action_def qty_or_1_def)
  with m nm show ?thesis by blast
qed

theorem add_item_twice_one_line_witness:
  "cart_reducer [\<lparr>mi_id = str ''m1'', mi_name = str ''Momo'', mi_price = Num 150, mi_isAvailable = True\<rparr>] []
     [add_action (str ''Momo'') 2, add_action (str ''Momo'') 2]
   = [\<lparr>cl_id = str ''m1'', cl_name = str ''Momo'', cl_price = Num 150, cl_qty = 4,
       cl_total = Num 600\<rparr>]"
  using add_item_twice_one_line
    [of "\<lparr>mi_id = str ''m1'', mi_name = str ''Momo'', mi_price = Num 150, mi_isAvailable = True\<rparr>"
        "[\<lparr>mi_id = str ''m1'', mi_name = str ''Momo'', mi_price = Num 150, mi_isAvailable = True\<rparr>]"]
  by (simp add: find_menu_item_def)

lemma bump_existing_ids: "map cl_id (bump_existing mid q p cs) = map cl_id cs"
  by (induction cs) auto

lemma bump_existing_prices:
  "prices_current items cs \<Longrightarrow> prices_current items (bump_existing mid q p cs)"
  by (induction cs) (auto simp: prices_current_def)

lemma bump_existing_ok:
  assumes "list_all line_ok cs" and "0 < q"
    and "\<forall>c \<in> set cs. cl_id c = mid \<longrightarrow> cl_price c = p"
  shows "list_all line_ok (bump_existing mid q p cs)"
  using assms by (induction cs) (auto simp: line_ok_def jmul_commute)

lemma qty_or_1_pos: "qty_valid a \<Longrightarrow> 0 < qty_or_1 a"
  by (auto simp: qty_valid_def qty_or_1_def split: option.splits)

lemma add_item_distinct:
  "distinct (map cl_id cart) \<Longrightarrow> distinct (map cl_id (add_item items a cart))"
  by (auto simp: add_item_def bump_existing_ids find_None_iff split: option.splits)

lemma add_item_prices:
  assumes "distinct (map mi_id items)" and "prices_current items cart"
  shows "prices_current items (add_item items a cart)"
proof (cases "find_menu_item items (a_name a)")
  case None
  then show ?thesis using assms by (simp add: add_item_def)
next
  case (Some m)
  then have "m \<in> set items"
    by (auto simp: find_menu_item_def find_Some_iff split: option.splits)
  with assms(1) have same: "\<forall>m' \<in> set items. mi_id m' = mi_id m \<longrightarrow> mi_price m' = mi_price m"
    by (auto simp: distinct_map inj_on_def)
  show ?thesis
  proof (cases "List.find (\<lambda>c. cl_id c = mi_id m) cart")
    case None
    with Some assms(2) same show ?thesis
      by (auto simp: add_item_def prices_current_def)
  next
    case (Some existing)
    with \<open>find_menu_item items (a_name a) = Some m\<close> assms(2) show ?thesis
      by (simp add: add_item_def bump_existing_prices)
  qed
qed

lemma add_item_ok:
  assumes "list_all line_ok cart" and "prices_current items cart" and "qty_valid a"
  shows "list_all line_ok (add_item items a cart)"
proof (cases "find_menu_item items (a_name a)")
  case None
  then show ?thesis using assms by (simp add: add_item_def)
next
  case (Some m)
  then have m: "m \<in> set items"
    by (auto simp: find_menu_item_def find_Some_iff split: option.splits)
  have q: "0 < qty_or_1 a" using assms(3) by (rule qty_or_1_pos)
  show ?thesis
  proof (cases "List.find (\<lambda>c. cl_id c = mi_id m) cart")
    case None
    with Some assms(1) q show ?thesis
      by (simp add: add_item_def line_ok_def jmul_commute)
  next
    case (Some existing)
    have "\<forall>c \<in> set cart. cl_id c = mi_id m \<longrightarrow> cl_price c = mi_price m"
      using assms(2) m by (auto simp: prices_current_def)
    with assms(1) q have "list_all line_ok (bump_existing (mi_id m) (qty_or_1 a) (mi_price m) cart)"
      by (intro bump_existing_ok) auto
    with Some \<open>find_menu_item items (a_name a) = Some m\<close> show ?thesis
      by (simp add: add_item_def)
  qed
qed

lemma remove_item_keeps:
  "cart_invariant cart \<Longrightarrow> prices_current items cart \<Longrightarrow>
     cart_invariant (remove_item a cart) \<and> prices_current items (remove_item a cart)"
  by (auto simp: remove_item_def cart_invariant_def prices_current_def distinct_map_filter
        list_all_iff split: option.splits)

lemma cart_step_keeps:
  assumes "distinct (map mi_id items)" and "qty_valid a"
    and "cart_invariant cart" and "prices_current items cart"
  shows "cart_invariant (cart_step items cart a) \<and> prices_current items (cart_step items cart a)"
  using assms remove_item_keeps [of cart items a]
  by (simp add: cart_step_def cart_invariant_def add_item_distinct add_item_prices add_item_ok)

text \<open>
  The reducer keeps the cart invariant when the unit prices stored in the starting cart are
  the menu's current prices (menu ids being unique and the quantities of the actions not
  negative, as normalisation and the fallback parser make them).
\<close>

lemma cart_reducer_keeps_invariant:
  assumes "distinct (map mi_id items)" and "list_all qty_valid acts"
    and "cart_invariant cart" and "prices_current items cart"
  shows "cart_invariant (cart_reducer items cart acts)
           \<and> prices_current items (cart_reducer items cart acts)"
  using assms(2-) unfolding cart_reducer_def
proof (induction acts arbitrary: cart)
  case Nil
  then show ?case by simp
next
  case (Cons a acts)
  from Cons.prems have "cart_invariant (cart_step items cart a)
      \<and> prices_current items (cart_step items cart a)"
    using cart_step_keeps [OF assms(1), of a cart] by simp
  with Cons.IH Cons.prems(1) show ?case by simp
qed

text \<open>
  C5. The reducer does not keep \<open>lineTotal = unitPrice * qty\<close> on every cart: a line that
  was added at Rs.100 and is added to again after the menu price became Rs.150 keeps its unit
  price 100 and gets the total 2 * 150. The starting cart satisfies the invariant, the
  resulting cart does not.
\<close>

theorem cart_reducer_stale_price:
  "cart_invariant
     [\<lparr>cl_id = str ''m1'', cl_name = str ''Momo'', cl_price = Num 100, cl_qty = 1,
       cl_total = Num 100\<rparr>]
   \<and> cart_reducer [\<lparr>mi_id = str ''m1'', mi_name = str ''Momo'', mi_price = Num 150, mi_isAvailable = True\<rparr>]
       [\<lparr>cl_id = str ''m1'', cl_name = str ''Momo'', cl_price = Num 100, cl_qty = 1,
         cl_total = Num 100\<rparr>]
       [add_action (str ''Momo'') 1]
     = [\<lparr>cl_id = str ''m1'', cl_name = str ''Momo'', cl_price = Num 100, cl_qty = 2,
         cl_total = Num 300\<rparr>]
   \<and> \<not> cart_invariant
       (cart_reducer [\<lparr>mi_id = str ''m1'', mi_name = str ''Momo'', mi_price = Num 150, mi_isAvailable = True\<rparr>]
          [\<lparr>cl_id = str ''m1'', cl_name = str ''Momo'', cl_price = Num 100, cl_qty = 1,
            cl_total = Num 100\<rparr>]
          [add_action (str ''Momo'') 1])"
  by (simp add: cart_invariant_def line_ok_def cart_reducer_def cart_step_def add_item_def
        add_action_def qty_or_1_def find_menu_item_def)

section \<open>Properties of the order transaction\<close>

declare order_attempts.simps [simp del]

lemma find_last_Some: "find_last P xs = Some x \<Longrightarrow> P x \<and> x \<in> set xs"
proof -
  assume "find_last P xs = Some x"
  then obtain i where "i < length (rev xs)" "rev xs ! i = x" "P x"
    by (auto simp: find_last_def find_Some_iff)
  then show ?thesis using nth_mem [of i "rev xs"] by auto
qed

lemma find_last_latest:
  "find_last P xs = Some x \<Longrightarrow> \<exists>ys zs. xs = ys @ x # zs \<and> (\<forall>z \<in> set zs. \<not> P z)"
proof -
  assume "find_last P xs = Some x"
  then obtain i where i: "i < length (rev xs)" "rev xs ! i = x" "\<forall>j<i. \<not> P (rev xs ! j)"
    by (auto simp: find_last_def find_Some_iff)
  have "rev xs = take i (rev xs) @ x # drop (Suc i) (rev xs)"
    using i id_take_nth_drop [of i "rev xs"] by simp
  then have "xs = rev (drop (Suc i) (rev xs)) @ x # rev (take i (rev xs))"
    by (metis rev_append rev.simps(2) rev_rev_ident append.assoc append_Cons append_Nil)
  moreover have "\<forall>z \<in> set (rev (take i (rev xs))). \<not> P z"
    using i by (auto simp: in_set_conv_nth)
  ultimately show ?thesis by blast
qed

lemma order_tx_throws: "order_tx c tableId cart s = Inl e \<Longrightarrow> e = P2002"
  by (auto simp: order_tx_def split: option.splits if_splits)

lemma order_tx_conflict_iff:
  "order_tx c tableId cart s = Inl P2002 \<longleftrightarrow>
     open_order c tableId s = None
     \<and> order_number_taken s (c_tenantId c) (nextOrderNumberForTenant (c_env c) s (c_tenantId c))"
  by (auto simp: order_tx_def split: option.splits)

lemma order_attempts_last:
  "order_attempts c tableId cart (Suc (Suc 0)) s =
     (case order_tx c tableId cart (others (c_env c) (Suc (Suc 0)) s) of
        Inr (ord, s'') \<Rightarrow> (Inr ord, s'')
      | Inl e \<Rightarrow> (Inl e, others (c_env c) (Suc (Suc 0)) s))"
  by (subst order_attempts.simps) (simp add: Let_def split: sum.splits)

lemma order_attempts_second:
  "order_attempts c tableId cart (Suc 0) s =
     (case order_tx c tableId cart (others (c_env c) (Suc 0) s) of
        Inr (ord, s'') \<Rightarrow> (Inr ord, s'')
      | Inl e \<Rightarrow> order_attempts c tableId cart (Suc (Suc 0)) (others (c_env c) (Suc 0) s))"
  using order_tx_throws [of c tableId cart "others (c_env c) (Suc 0) s"]
  by (subst order_attempts.simps) (auto simp: Let_def split: sum.splits)

lemma order_attempts_first:
  "order_attempts c tableId cart 0 s =
     (case order_tx c tableId cart (others (c_env c) 0 s) of
        Inr (ord, s'') \<Rightarrow> (Inr ord, s'')
      | Inl e \<Rightarrow> order_attempts c tableId cart (Suc 0) (others (c_env c) 0 s))"
  using order_tx_throws [of c tableId cart "others (c_env c) 0 s"]
  by (subst order_attempts.simps) (auto simp: Let_def split: sum.splits)


lemma set_table_status_orders [simp]: "st_orders (set_table_status t v s) = st_orders s"
  by (simp add: set_table_status_def)

lemma occupy_orders [simp]: "st_orders (occupy tableId s) = st_orders s"
  by (simp add: occupy_def)

lemma update_order_orders [simp]:
  "st_orders (update_order oid f s) = map (\<lambda>x. if o_id x = oid then f x else x) (st_orders s)"
  by (simp add: update_order_def)




section \<open>The merge of cart lines into order lines\<close>

lemma first_index_Some:
  "first_index P xs = Some k \<Longrightarrow> k < length xs \<and> P (xs ! k)"
  by (induction xs arbitrary: k) (auto split: if_splits)

lemma first_index_None: "first_index P xs = None \<longleftrightarrow> (\<forall>x \<in> set xs. \<not> P x)"
  by (induction xs) auto

lemma first_index_first:
  "first_index P xs = Some k \<longleftrightarrow> k < length xs \<and> P (xs ! k) \<and> (\<forall>j < k. \<not> P (xs ! j))"
proof (induction xs arbitrary: k)
  case Nil
  then show ?case by simp
next
  case (Cons x xs)
  show ?case
  proof (cases "P x")
    case True
    then show ?thesis by (cases k) auto
  next
    case False
    show ?thesis
    proof (cases k)
      case 0
      with False show ?thesis by auto
    next
      case (Suc k')
      have "(\<forall>j < Suc k'. \<not> P ((x # xs) ! j)) \<longleftrightarrow> (\<forall>j < k'. \<not> P (xs ! j))"
        using False by (auto simp: less_Suc_eq_0_disj)
      with False Suc Cons.IH [of k'] show ?thesis by auto
    qed
  qed
qed

lemma first_line_with_iff:
  "first_line_with old mid k \<longleftrightarrow> first_index (\<lambda>i. oi_menuItemId i = mid) old = Some k"
  by (simp add: first_line_with_def first_index_first)

lemma line_item_order_line: "line_item c = order_line_of c"
  by (simp add: line_item_def order_line_of_def)

lemma find_snoc:
  "List.find P (xs @ [x]) =
     (case List.find P xs of None \<Rightarrow> (if P x then Some x else None) | Some y \<Rightarrow> Some y)"
  by (induction xs) auto

lemma length_merge_line: "length rows \<le> length (merge_line snap rows c)"
  by (simp add: merge_line_def Let_def split: option.splits)

lemma nth_merge_line:
  assumes "k < length rows"
  shows "merge_line snap rows c ! k =
           (if first_index (\<lambda>i. oi_menuItemId i = cl_id c) snap = Some k
            then (rows ! k)\<lparr>oi_quantity := oi_quantity (snap ! k) + cl_qty c,
                            oi_total := jmul (Num (of_int (oi_quantity (snap ! k) + cl_qty c)))
                                          (oi_unitPrice (snap ! k))\<rparr>
            else rows ! k)"
  using assms by (auto simp: merge_line_def Let_def nth_append nth_list_update split: option.splits)

text \<open>
  Row \<open>k\<close> after the loop: the last cart line that found row \<open>k\<close> in the snapshot has
  written the quantity and the total, the other fields are as before.
\<close>

lemma nth_foldl_merge_line:
  assumes "k < length rows"
  shows "foldl (merge_line snap) rows cs ! k =
           (case List.find (\<lambda>c. first_index (\<lambda>i. oi_menuItemId i = cl_id c) snap = Some k) (rev cs) of
              None \<Rightarrow> rows ! k
            | Some c \<Rightarrow> (rows ! k)\<lparr>oi_quantity := oi_quantity (snap ! k) + cl_qty c,
                                     oi_total := jmul (Num (of_int (oi_quantity (snap ! k) + cl_qty c)))
                                                   (oi_unitPrice (snap ! k))\<rparr>)"
  using assms
proof (induction cs arbitrary: rows)
  case Nil
  then show ?case by simp
next
  case (Cons c cs)
  have k': "k < length (merge_line snap rows c)"
    using Cons.prems length_merge_line [of rows snap c] by simp
  show ?case
    using Cons.IH [OF k'] nth_merge_line [OF Cons.prems, of snap c]
    by (auto simp: find_snoc split: option.splits)
qed

lemma length_foldl_merge_line:
  "length (foldl (merge_line snap) rows cs)
     = length rows
       + length (filter (\<lambda>c. first_index (\<lambda>i. oi_menuItemId i = cl_id c) snap = None) cs)"
  by (induction cs arbitrary: rows) (auto simp: merge_line_def Let_def split: option.splits)

lemma drop_foldl_merge_line:
  assumes "length snap \<le> length rows"
  shows "drop (length rows) (foldl (merge_line snap) rows cs)
           = map line_item
               (filter (\<lambda>c. first_index (\<lambda>i. oi_menuItemId i = cl_id c) snap = None) cs)"
  using assms
proof (induction cs arbitrary: rows)
  case Nil
  then show ?case by simp
next
  case (Cons c cs)
  show ?case
  proof (cases "first_index (\<lambda>i. oi_menuItemId i = cl_id c) snap")
    case (Some k)
    with Cons.IH [of "merge_line snap rows c"] Cons.prems show ?thesis
      by (simp add: merge_line_def Let_def)
  next
    case None
    let ?rows' = "rows @ [line_item c]"
    let ?res = "foldl (merge_line snap) ?rows' cs"
    have len: "length rows < length ?res"
      by (simp add: length_foldl_merge_line)
    have no_hit: "List.find (\<lambda>c. first_index (\<lambda>i. oi_menuItemId i = cl_id c) snap
                    = Some (length rows)) (rev cs) = None"
      using Cons.prems by (auto simp: find_None_iff dest: first_index_Some)
    have "?res ! length rows = ?rows' ! length rows"
      using nth_foldl_merge_line [of "length rows" ?rows' snap cs] no_hit by simp
    then have at: "?res ! length rows = line_item c" by simp
    have "drop (length rows) ?res = ?res ! length rows # drop (Suc (length rows)) ?res"
      using len by (simp add: Cons_nth_drop_Suc)
    moreover have "drop (Suc (length rows)) ?res
        = map line_item
            (filter (\<lambda>c. first_index (\<lambda>i. oi_menuItemId i = cl_id c) snap = None) cs)"
      using Cons.IH [of ?rows'] Cons.prems by simp
    moreover have "merge_line snap rows c = ?rows'"
      using None by (simp add: merge_line_def)
    ultimately show ?thesis using None at by simp
  qed
qed

lemma find_unique_in_rev:
  assumes "c \<in> set cs" and "P c" and "\<forall>d \<in> set cs. P d \<longrightarrow> d = c"
  shows "List.find P (rev cs) = Some c"
proof (cases "List.find P (rev cs)")
  case None
  have "\<not> (\<exists>x. x \<in> set (rev cs) \<and> P x)"
    using None find_None_iff [of P "rev cs"] by blast
  with assms(1,2) show ?thesis by simp
next
  case (Some d)
  then obtain i where "i < length (rev cs)" "P (rev cs ! i)" "d = rev cs ! i"
    unfolding find_Some_iff by blast
  then have "d \<in> set cs" "P d"
    using nth_mem [of i "rev cs"] by simp_all
  with assms(3) have "d = c" by blast
  with Some show ?thesis by simp
qed

lemma merge_items_merged_lines:
  assumes "distinct (map cl_id cart)"
  shows "merged_lines old cart (merge_items old cart)"
proof -
  let ?hit = "\<lambda>c k. first_index (\<lambda>i. oi_menuItemId i = cl_id c) old = Some k"
  have new_iff: "(first_index (\<lambda>i. oi_menuItemId i = cl_id c) old = None)
      = (cl_id c \<notin> set (map oi_menuItemId old))" for c
    unfolding first_index_None set_map image_iff by metis
  have inj: "inj_on cl_id (set cart)"
    using assms by (simp add: distinct_map)
  have A: "merge_items old cart ! k = added_to (old ! k) c" if c: "c \<in> set cart" and hit: "?hit c k" for c k
  proof -
    have k: "k < length old" and idk: "oi_menuItemId (old ! k) = cl_id c"
      using first_index_Some [OF hit] by simp_all
    have uniq: "\<forall>d \<in> set cart. ?hit d k \<longrightarrow> d = c"
    proof (intro ballI impI)
      fix d assume d: "d \<in> set cart" and "?hit d k"
      then have "oi_menuItemId (old ! k) = cl_id d"
        using first_index_Some [of "\<lambda>i. oi_menuItemId i = cl_id d" old k] by simp
      with idk have "cl_id d = cl_id c" by simp
      with inj c d show "d = c" by (rule_tac inj_onD)
    qed
    have "List.find (\<lambda>d. ?hit d k) (rev cart) = Some c"
      using find_unique_in_rev [where P = "\<lambda>d. ?hit d k" and c = c and cs = cart] c hit uniq
      by blast
    then show ?thesis
      using nth_foldl_merge_line [OF k, of old cart]
      by (simp add: merge_items_def added_to_def)
  qed
  have B: "merge_items old cart ! k = old ! k"
    if k: "k < length old" and none: "\<forall>c \<in> set cart. \<not> ?hit c k" for k
  proof -
    have "List.find (\<lambda>d. ?hit d k) (rev cart) = None"
      unfolding find_None_iff using none by simp
    then show ?thesis
      using nth_foldl_merge_line [OF k, of old cart] by (simp add: merge_items_def)
  qed
  have C: "length (merge_items old cart)
      = length old + length (filter (\<lambda>c. cl_id c \<notin> set (map oi_menuItemId old)) cart)"
    using length_foldl_merge_line [of old old cart] unfolding merge_items_def new_iff by simp
  have D: "drop (length old) (merge_items old cart)
      = map order_line_of (filter (\<lambda>c. cl_id c \<notin> set (map oi_menuItemId old)) cart)"
  proof -
    have "drop (length old) (merge_items old cart)
        = map line_item (filter (\<lambda>c. cl_id c \<notin> set (map oi_menuItemId old)) cart)"
      using drop_foldl_merge_line [of old old cart] unfolding merge_items_def new_iff by simp
    also have "line_item = order_line_of"
      by (intro ext) (rule line_item_order_line)
    finally show ?thesis .
  qed
  have A': "\<forall>c \<in> set cart. \<forall>k < length old.
      first_line_with old (cl_id c) k \<longrightarrow> merge_items old cart ! k = added_to (old ! k) c"
    using A by (simp add: first_line_with_iff)
  have B': "\<forall>k < length old.
      (\<forall>c \<in> set cart. \<not> first_line_with old (cl_id c) k)
        \<longrightarrow> merge_items old cart ! k = old ! k"
    using B by (simp add: first_line_with_iff)
  show ?thesis
    unfolding merged_lines_def
    using A' B' C D by (intro conjI)
qed

section \<open>Placing and updating an order\<close>

lemma cart_step_other [simp]:
  "a_action a \<noteq> ADD_ITEM \<Longrightarrow> a_action a \<noteq> REMOVE_ITEM \<Longrightarrow> cart_step items cart a = cart"
  by (simp add: cart_step_def)

lemma process_action_place:
  assumes "a_action a = PLACE_ORDER \<or> a_action a = UPDATE_ORDER" and "updatedCart t \<noteq> []"
  shows "process_action c a (t, s) = place_order c a (t, s)"
  using assms by (auto simp: process_action_def Let_def)

lemma place_order_first:
  assumes "order_tx c (resolve_tableId c a s) (updatedCart t) (attempt_store (c_env c) 0 s)
             = Inr (ord, s')"
  shows "place_order c a (t, s) = (Inr (placed t ord), s')"
  using assms by (simp add: place_order_def placed_def order_attempts_first Let_def)

lemma place_order_second:
  assumes "order_tx c (resolve_tableId c a s) (updatedCart t) (attempt_store (c_env c) 0 s)
             = Inl P2002"
    and "order_tx c (resolve_tableId c a s) (updatedCart t) (attempt_store (c_env c) 1 s)
             = Inr (ord, s')"
  shows "place_order c a (t, s) = (Inr (placed t ord), s')"
  using assms
  by (simp add: place_order_def placed_def order_attempts_first order_attempts_second Let_def)

lemma place_order_third:
  assumes "order_tx c (resolve_tableId c a s) (updatedCart t) (attempt_store (c_env c) 0 s)
             = Inl P2002"
    and "order_tx c (resolve_tableId c a s) (updatedCart t) (attempt_store (c_env c) 1 s)
             = Inl P2002"
    and "order_tx c (resolve_tableId c a s) (updatedCart t) (attempt_store (c_env c) 2 s)
             = Inr (ord, s')"
  shows "place_order c a (t, s) = (Inr (placed t ord), s')"
  using assms
  by (simp add: place_order_def placed_def order_attempts_first order_attempts_second
        order_attempts_last Let_def numeral_2_eq_2)

lemma place_order_exhausted:
  assumes "order_tx c (resolve_tableId c a s) (updatedCart t) (attempt_store (c_env c) 0 s)
             = Inl P2002"
    and "order_tx c (resolve_tableId c a s) (updatedCart t) (attempt_store (c_env c) 1 s)
             = Inl P2002"
    and "order_tx c (resolve_tableId c a s) (updatedCart t) (attempt_store (c_env c) 2 s)
             = Inl P2002"
  shows "place_order c a (t, s) = (Inl P2002, attempt_store (c_env c) 2 s)"
  using assms
  by (simp add: place_order_def order_attempts_first order_attempts_second
        order_attempts_last Let_def numeral_2_eq_2)

lemma all_less_3: "(\<forall>k<3. P k) \<longleftrightarrow> P 0 \<and> P 1 \<and> P (2::nat)"
proof -
  have "k < 3 \<longleftrightarrow> k = 0 \<or> k = 1 \<or> k = 2" for k :: nat by arith
  then show ?thesis by auto
qed

lemma order_tx_result:
  "order_tx c tableId cart s \<noteq> Inl P2002 \<Longrightarrow> \<exists>ord s'. order_tx c tableId cart s = Inr (ord, s')"
  by (cases "order_tx c tableId cart s") (auto dest: order_tx_throws)

lemma order_tx_merge:
  assumes "open_order c tableId s = Some old" and "distinct (map cl_id cart)"
  shows "\<exists>ord s'. order_tx c tableId cart s = Inr (ord, s') \<and> merged_outcome cart old s s'"
proof -
  have "merged_lines (o_items old) cart (o_items (merge_into c cart old))"
    using merge_items_merged_lines [OF assms(2), of "o_items old"]
    by (simp add: merge_into_def Let_def)
  moreover have "o_id (merge_into c cart old) = o_id old"
    by (simp add: merge_into_def Let_def)
  ultimately have "merged_outcome cart old s
      (occupy tableId (update_order (o_id old) (\<lambda>_. merge_into c cart old) s))"
    by (simp add: merged_outcome_def)
  with assms(1) show ?thesis by (simp add: order_tx_def)
qed

lemma order_tx_create:
  assumes "open_order c tableId s = None"
    and "\<not> order_number_taken s (c_tenantId c) (nextOrderNumberForTenant (c_env c) s (c_tenantId c))"
  shows "\<exists>ord s'. order_tx c tableId cart s = Inr (ord, s') \<and> created_outcome c tableId cart s s'"
  using assms
  by (simp add: order_tx_def created_outcome_def new_order_def Let_def line_item_order_line [abs_def])

lemma requestedTableLabel_session [simp]:
  "requestedTableLabel (c\<lparr>c_sessionId := sid\<rparr>) a = requestedTableLabel c a"
  by (simp add: requestedTableLabel_def table_ref_def)

lemma session_not_read:
  "open_order (c\<lparr>c_sessionId := sid\<rparr>) tableId s = open_order c tableId s
   \<and> resolve_tableId (c\<lparr>c_sessionId := sid\<rparr>) a s' = resolve_tableId c a s'"
  by (simp add: open_order_def resolve_tableId_def cong: option.case_cong)

text \<open>
  The lookup of the transaction finds an order exactly when a non-terminal order exists for
  the table, and the order it finds is the most recent one.
\<close>

lemma open_for_iff:
  "open_for tid tableId x \<longleftrightarrow> o_tenantId x = tid \<and> o_tableId x = tableId \<and> non_terminal x"
  by (simp add: open_for_def non_terminal_def)

lemma find_last_None: "find_last P xs = None \<longleftrightarrow> (\<forall>x \<in> set xs. \<not> P x)"
  by (auto simp: find_last_def find_None_iff)

lemma open_order_None_iff:
  "open_order c tableId s = None \<longleftrightarrow> \<not> open_order_exists s (c_tenantId c) tableId"
proof (cases tableId)
  case None
  then show ?thesis by (simp add: open_order_def open_order_exists_def truthy_def)
next
  case (Some tb)
  then show ?thesis
    by (auto simp: open_order_def open_order_exists_def truthy_def find_last_None list_ex_iff
          open_for_iff)
qed

lemma open_order_most_recent:
  assumes "open_order c tableId s = Some old"
  shows "\<exists>i. most_recent_open s (c_tenantId c) tableId i \<and> st_orders s ! i = old"
proof -
  let ?P = "\<lambda>x. o_tenantId x = c_tenantId c \<and> o_tableId x = tableId \<and> non_terminal x"
  from assms have f: "find_last ?P (st_orders s) = Some old"
    by (simp add: open_order_def split: if_splits)
  from find_last_latest [OF f] obtain ys zs
    where xs: "st_orders s = ys @ old # zs" and zs: "\<forall>z \<in> set zs. \<not> ?P z" by blast
  from find_last_Some [OF f] have old: "?P old" by simp
  have "st_orders s ! length ys = old" "drop (Suc (length ys)) (st_orders s) = zs"
    "length ys < length (st_orders s)"
    by (simp_all add: xs)
  with old zs have "most_recent_open s (c_tenantId c) tableId (length ys)"
    by (simp add: most_recent_open_def open_for_iff list_all_iff)
  with \<open>st_orders s ! length ys = old\<close> show ?thesis by blast
qed

text \<open>What the transaction that ends the order loop does, seen from the action.\<close>

lemma committed_outcome:
  assumes tx: "order_tx c tableId cart sk \<noteq> Inl P2002"
    and cart: "distinct (map cl_id cart)"
    and run: "\<And>ord s'. order_tx c tableId cart sk = Inr (ord, s') \<Longrightarrow> r = (Inr (placed t ord), s')"
  shows "if open_order_exists sk (c_tenantId c) tableId
         then \<exists>i t' s'. most_recent_open sk (c_tenantId c) tableId i
                \<and> r = (Inr t', s') \<and> orderPlaced t'
                \<and> merged_outcome cart (st_orders sk ! i) sk s'
         else if order_number_taken sk (c_tenantId c)
                   (nextOrderNumberForTenant (c_env c) sk (c_tenantId c))
              then k = (2::nat) \<and> r = (Inl P2002, sk)
              else \<exists>t' s'. r = (Inr t', s') \<and> orderPlaced t'
                     \<and> created_outcome c tableId cart sk s'"
proof (cases "open_order c tableId sk")
  case (Some old)
  then have ex: "open_order_exists sk (c_tenantId c) tableId"
    using open_order_None_iff [of c tableId sk] by simp
  from open_order_most_recent [OF Some] obtain i
    where i: "most_recent_open sk (c_tenantId c) tableId i" "st_orders sk ! i = old" by blast
  from order_tx_merge [OF Some cart] obtain ord s'
    where "order_tx c tableId cart sk = Inr (ord, s')" "merged_outcome cart old sk s'" by blast
  with run [of ord s'] i have "\<exists>i t' s'. most_recent_open sk (c_tenantId c) tableId i
      \<and> r = (Inr t', s') \<and> orderPlaced t' \<and> merged_outcome cart (st_orders sk ! i) sk s'"
    by (auto simp: placed_def)
  with ex show ?thesis by simp
next
  case None
  then have ex: "\<not> open_order_exists sk (c_tenantId c) tableId"
    by (simp add: open_order_None_iff)
  from None tx have free: "\<not> order_number_taken sk (c_tenantId c)
      (nextOrderNumberForTenant (c_env c) sk (c_tenantId c))"
    by (simp add: order_tx_conflict_iff)
  from order_tx_create [OF None free] obtain ord s'
    where "order_tx c tableId cart sk = Inr (ord, s')" "created_outcome c tableId cart sk s'"
    by blast
  with run [of ord s'] have "\<exists>t' s'. r = (Inr t', s') \<and> orderPlaced t'
      \<and> created_outcome c tableId cart sk s'"
    by (auto simp: placed_def)
  with ex free show ?thesis by simp
qed

text \<open>
  C1, as the code has it. A \<open>PLACE_ORDER\<close> or \<open>UPDATE_ORDER\<close> action processed with a
  non-empty cart whose lines have distinct menu item ids (which the cart reducer maintains)
  ends with the transaction of some attempt \<open>k\<close> of three, every earlier attempt having found
  no open order for the table and an order number that was taken. If, in the store that
  transaction sees, a non-terminal order exists for the resolved table, the cart lines are
  merged into the most recent such order (same-item lines add quantities, the other cart
  lines become new order lines) and no order row is added. Otherwise an order is created for
  the table with the number the allocator returned, which no order of the tenant had; unless
  that number is taken, which then is the third conflict: the action throws and the store has
  no new order. The table is resolved without reading the session id, and so is the open
  order looked up.
\<close>

theorem place_or_update_merges_or_creates:
  assumes "a_action a = PLACE_ORDER \<or> a_action a = UPDATE_ORDER"
    and "updatedCart t \<noteq> []"
    and "distinct (map cl_id (updatedCart t))"
  shows "\<exists>k<3.
           (\<forall>j<k. \<not> open_order_exists (attempt_store (c_env c) j s) (c_tenantId c)
                        (resolve_tableId c a s)
                    \<and> order_number_taken (attempt_store (c_env c) j s) (c_tenantId c)
                        (nextOrderNumberForTenant (c_env c) (attempt_store (c_env c) j s)
                           (c_tenantId c)))
         \<and> (if open_order_exists (attempt_store (c_env c) k s) (c_tenantId c)
                  (resolve_tableId c a s)
            then \<exists>i t' s'.
                   most_recent_open (attempt_store (c_env c) k s) (c_tenantId c)
                     (resolve_tableId c a s) i
                   \<and> process_action c a (t, s) = (Inr t', s') \<and> orderPlaced t'
                   \<and> merged_outcome (updatedCart t) (st_orders (attempt_store (c_env c) k s) ! i)
                       (attempt_store (c_env c) k s) s'
            else if order_number_taken (attempt_store (c_env c) k s) (c_tenantId c)
                      (nextOrderNumberForTenant (c_env c) (attempt_store (c_env c) k s)
                         (c_tenantId c))
                 then k = 2
                      \<and> process_action c a (t, s) = (Inl P2002, attempt_store (c_env c) k s)
                 else \<exists>t' s'. process_action c a (t, s) = (Inr t', s') \<and> orderPlaced t'
                        \<and> created_outcome c (resolve_tableId c a s) (updatedCart t)
                            (attempt_store (c_env c) k s) s')
         \<and> (\<forall>sid. open_order (c\<lparr>c_sessionId := sid\<rparr>) (resolve_tableId c a s)
                      (attempt_store (c_env c) k s)
                    = open_order c (resolve_tableId c a s) (attempt_store (c_env c) k s)
                  \<and> resolve_tableId (c\<lparr>c_sessionId := sid\<rparr>) a s = resolve_tableId c a s)"
proof -
  let ?tid = "resolve_tableId c a s"
  let ?cart = "updatedCart t"
  let ?st = "\<lambda>k. attempt_store (c_env c) k s"
  let ?tx = "\<lambda>k. order_tx c ?tid ?cart (?st k)"
  let ?r = "process_action c a (t, s)"
  let ?taken = "\<lambda>k. order_number_taken (?st k) (c_tenantId c)
                       (nextOrderNumberForTenant (c_env c) (?st k) (c_tenantId c))"
  let ?conflict = "\<lambda>k. \<not> open_order_exists (?st k) (c_tenantId c) ?tid \<and> ?taken k"
  let ?out = "\<lambda>k. if open_order_exists (?st k) (c_tenantId c) ?tid
            then \<exists>i t' s'. most_recent_open (?st k) (c_tenantId c) ?tid i
                   \<and> ?r = (Inr t', s') \<and> orderPlaced t'
                   \<and> merged_outcome ?cart (st_orders (?st k) ! i) (?st k) s'
            else if ?taken k
                 then k = 2 \<and> ?r = (Inl P2002, ?st k)
                 else \<exists>t' s'. ?r = (Inr t', s') \<and> orderPlaced t'
                        \<and> created_outcome c ?tid ?cart (?st k) s'"
  have conflict: "?tx k = Inl P2002 \<longleftrightarrow> ?conflict k" for k
    by (simp add: order_tx_conflict_iff open_order_None_iff)
  have r: "?r = place_order c a (t, s)"
    using assms(1,2) by (rule process_action_place)
  have found: "\<exists>k<3. (\<forall>j<k. ?tx j = Inl P2002) \<and> ?out k"
  proof (cases "?tx 0 = Inl P2002")
    case False
    have "?out 0"
      using False assms(3)
    proof (rule committed_outcome)
      fix ord s' assume "?tx 0 = Inr (ord, s')"
      then show "?r = (Inr (placed t ord), s')" unfolding r by (rule place_order_first)
    qed
    then show ?thesis by (intro exI [of _ 0]) simp
  next
    case c0: True
    show ?thesis
    proof (cases "?tx 1 = Inl P2002")
      case False
      have "?out 1"
        using False assms(3)
      proof (rule committed_outcome)
        fix ord s' assume "?tx 1 = Inr (ord, s')"
        with c0 show "?r = (Inr (placed t ord), s')" unfolding r by (rule place_order_second)
      qed
      with c0 show ?thesis by (intro exI [of _ 1]) simp
    next
      case c1: True
      have before: "\<forall>j<2. ?tx j = Inl P2002"
      proof (intro allI impI)
        fix j :: nat assume "j < 2"
        then have "j = 0 \<or> j = 1" by arith
        with c0 c1 show "?tx j = Inl P2002" by auto
      qed
      show ?thesis
      proof (cases "?tx 2 = Inl P2002")
        case False
        have "?out 2"
          using False assms(3)
        proof (rule committed_outcome)
          fix ord s' assume "?tx 2 = Inr (ord, s')"
          with c0 c1 show "?r = (Inr (placed t ord), s')" unfolding r by (rule place_order_third)
        qed
        with before show ?thesis by (intro exI [of _ 2]) simp
      next
        case c2: True
        have "?r = (Inl P2002, ?st 2)"
          unfolding r using c0 c1 c2 by (rule place_order_exhausted)
        moreover have "?conflict 2" using c2 conflict [of 2] by blast
        ultimately have "?out 2" by simp
        with before show ?thesis by (intro exI [of _ 2]) simp
      qed
    qed
  qed
  then obtain k where "k < 3" "\<forall>j<k. ?tx j = Inl P2002" "?out k" by blast
  then have "k < 3" "\<forall>j<k. ?conflict j" "?out k" using conflict by blast+
  moreover have "\<forall>sid. open_order (c\<lparr>c_sessionId := sid\<rparr>) ?tid (?st k) = open_order c ?tid (?st k)
      \<and> resolve_tableId (c\<lparr>c_sessionId := sid\<rparr>) a s = ?tid"
    using session_not_read by blast
  ultimately show ?thesis by blast
qed

text \<open>
  C7. The order transaction is attempted at most three times. Each attempt runs the whole
  transaction on the store as it is then: it conflicts exactly when there is no open order
  for the table and the allocated order number is taken. The first attempt that does not
  conflict gives the result of the action. When all three attempts conflict, the action
  throws the conflict, and the turn, whatever actions were still to come, ends with the
  error response of status 500.
\<close>

theorem order_conflict_retried_then_thrown:
  assumes "a_action a = PLACE_ORDER \<or> a_action a = UPDATE_ORDER"
    and "updatedCart t \<noteq> []"
  shows "(\<forall>k<3. (order_tx c (resolve_tableId c a s) (updatedCart t) (attempt_store (c_env c) k s)
                   = Inl P2002)
               = (open_order c (resolve_tableId c a s) (attempt_store (c_env c) k s) = None
                  \<and> order_number_taken (attempt_store (c_env c) k s) (c_tenantId c)
                      (nextOrderNumberForTenant (c_env c) (attempt_store (c_env c) k s)
                         (c_tenantId c))))
       \<and> (\<forall>k<3. \<forall>ord s'.
             (\<forall>j<k. order_tx c (resolve_tableId c a s) (updatedCart t)
                       (attempt_store (c_env c) j s) = Inl P2002)
             \<and> order_tx c (resolve_tableId c a s) (updatedCart t) (attempt_store (c_env c) k s)
                 = Inr (ord, s')
             \<longrightarrow> process_action c a (t, s) = (Inr (placed t ord), s'))
       \<and> ((\<forall>k<3. order_tx c (resolve_tableId c a s) (updatedCart t)
                    (attempt_store (c_env c) k s) = Inl P2002)
            \<longrightarrow> process_action c a (t, s) = (Inl P2002, attempt_store (c_env c) 2 s)
              \<and> (\<forall>rest sid acts wizard.
                    fst (finish_turn sid acts wizard (process_actions c (a # rest) (t, s)))
                      = Inl Internal_server_error_500))"
proof -
  let ?tx = "\<lambda>k. order_tx c (resolve_tableId c a s) (updatedCart t) (attempt_store (c_env c) k s)"
  have r: "process_action c a (t, s) = place_order c a (t, s)"
    using assms by (rule process_action_place)
  have first: "\<forall>k<3. (?tx k = Inl P2002)
      = (open_order c (resolve_tableId c a s) (attempt_store (c_env c) k s) = None
         \<and> order_number_taken (attempt_store (c_env c) k s) (c_tenantId c)
             (nextOrderNumberForTenant (c_env c) (attempt_store (c_env c) k s) (c_tenantId c)))"
    by (simp only: order_tx_conflict_iff) simp
  have second: "process_action c a (t, s) = (Inr (placed t ord), s')"
    if k: "k < 3" and before: "\<forall>j<k. ?tx j = Inl P2002" and now: "?tx k = Inr (ord, s')"
    for k ord s'
  proof -
    from k have "k = 0 \<or> k = 1 \<or> k = 2" by arith
    then show ?thesis
    proof (elim disjE)
      assume "k = 0"
      with now show ?thesis unfolding r by (intro place_order_first) simp
    next
      assume k1: "k = 1"
      then have "0 < k" by simp
      then have "?tx 0 = Inl P2002" using before by blast
      moreover from k1 now have "?tx 1 = Inr (ord, s')" by simp
      ultimately show ?thesis unfolding r by (rule place_order_second)
    next
      assume k2: "k = 2"
      then have "0 < k" "1 < k" by simp_all
      then have "?tx 0 = Inl P2002" "?tx 1 = Inl P2002"
        using before by blast+
      moreover from k2 now have "?tx 2 = Inr (ord, s')" by simp
      ultimately show ?thesis unfolding r by (rule place_order_third)
    qed
  qed
  have third: "process_action c a (t, s) = (Inl P2002, attempt_store (c_env c) 2 s)
      \<and> (\<forall>rest sid acts wizard.
            fst (finish_turn sid acts wizard (process_actions c (a # rest) (t, s)))
              = Inl Internal_server_error_500)"
    if all: "\<forall>k<3. ?tx k = Inl P2002"
  proof -
    have "(0::nat) < 3" "(1::nat) < 3" "(2::nat) < 3" by simp_all
    then have "?tx 0 = Inl P2002" "?tx 1 = Inl P2002" "?tx 2 = Inl P2002"
      using all by blast+
    then have "process_action c a (t, s) = (Inl P2002, attempt_store (c_env c) 2 s)"
      unfolding r by (rule place_order_exhausted)
    then show ?thesis by (simp add: finish_turn_def)
  qed
  from first second third show ?thesis by blast
qed

section \<open>Cancelling and paying\<close>

lemma process_action_cancel:
  assumes "a_action a = CANCEL_ORDER \<or> a_action a = CONFIRM_PAYMENT" and "\<not> orderPlaced t"
  shows "process_action c a (t, s) = (Inr (fst (cancel_or_pay c a (t, s))), snd (cancel_or_pay c a (t, s)))"
  using assms by (auto simp: process_action_def Let_def)

lemma process_action_cancel_skipped:
  assumes "a_action a = CANCEL_ORDER \<or> a_action a = CONFIRM_PAYMENT" and "orderPlaced t"
  shows "process_action c a (t, s) = (Inr t, s)"
  using assms by (auto simp: process_action_def Let_def)

lemma close_order_id [simp]: "o_id (close_order act x) = o_id x"
  by (simp add: close_order_def)

lemma close_order_open [simp]: "\<not> non_terminal (close_order act x)"
  by (simp add: close_order_def non_terminal_def)

lemma filter_after_close:
  "filter (\<lambda>x. o_tableId x = Some tbl \<and> non_terminal x \<and> o_id x \<noteq> oid)
     (map (\<lambda>x. if o_id x = oid then close_order act x else x) xs)
   = filter (\<lambda>x. o_tableId x = Some tbl \<and> non_terminal x \<and> o_id x \<noteq> oid) xs"
  by (induction xs) auto

lemma otherActive_after_close:
  "otherActive (update_order oid (close_order act) s) tbl oid = 0 \<longleftrightarrow> \<not> other_open_order s tbl oid"
proof -
  have "otherActive (update_order oid (close_order act) s) tbl oid
      = length (filter (\<lambda>x. o_tableId x = Some tbl \<and> non_terminal x \<and> o_id x \<noteq> oid) (st_orders s))"
    by (simp add: otherActive_def filter_after_close)
  then show ?thesis
    by (auto simp: other_open_order_def list_ex_iff filter_empty_conv)
qed

lemma update_order_other [simp]:
  "st_tables (update_order oid f s) = st_tables s"
  "st_sessions (update_order oid f s) = st_sessions s"
  "st_tenants (update_order oid f s) = st_tenants s"
  "st_messages (update_order oid f s) = st_messages s"
  by (simp_all add: update_order_def)

lemma set_table_status_other [simp]:
  "st_sessions (set_table_status tbl v s) = st_sessions s"
  "st_tenants (set_table_status tbl v s) = st_tenants s"
  "st_messages (set_table_status tbl v s) = st_messages s"
  "st_tables (set_table_status tbl v s)
     = map (\<lambda>r. if tb_id r = tbl then r\<lparr>tb_status := v\<rparr> else r) (st_tables s)"
  by (simp_all add: set_table_status_def)

lemma cancel_or_pay_found:
  assumes "targetOrder c a s = Some tgt"
  shows "snd (cancel_or_pay c a (t, s)) = closed_store (a_action a) tgt (c_sessionId c) s
    \<and> updatedCart (fst (cancel_or_pay c a (t, s))) = []
    \<and> forceSessionCompleted (fst (cancel_or_pay c a (t, s)))
    \<and> \<not> orderPlaced (fst (cancel_or_pay c a (t, s)))"
proof -
  let ?s1 = "update_order (o_id tgt) (close_order (a_action a)) s"
  have tables: "st_tables (free_table tgt ?s1)
      = (if truthy (o_tableId tgt) \<and> \<not> other_open_order s (string_of (o_tableId tgt)) (o_id tgt)
         then map (\<lambda>r. if tb_id r = string_of (o_tableId tgt)
                       then r\<lparr>tb_status := AVAILABLE\<rparr> else r) (st_tables s)
         else st_tables s)"
    by (simp add: free_table_def otherActive_after_close)
  have orders: "st_orders (free_table tgt ?s1)
      = map (\<lambda>x. if o_id x = o_id tgt then close_order (a_action a) x else x) (st_orders s)"
    by (simp add: free_table_def)
  have rest: "st_sessions (free_table tgt ?s1) = st_sessions s"
      "st_tenants (free_table tgt ?s1) = st_tenants s"
      "st_messages (free_table tgt ?s1) = st_messages s"
    by (simp_all add: free_table_def)
  have "update_session (c_sessionId c) COMPLETED [] (free_table tgt ?s1)
      = closed_store (a_action a) tgt (c_sessionId c) s"
    using tables orders rest
    by (simp add: update_session_def closed_store_def close_order_def cong: if_cong)
  with assms show ?thesis by (simp add: cancel_or_pay_def Let_def)
qed

lemma targetOrder_latest:
  "targetOrder c a s = Some tgt
     \<longleftrightarrow> latest_open_order s (c_tenantId c) (requestedTableLabel c a) tgt"
proof -
  have "(\<lambda>x. o_tenantId x = c_tenantId c
            \<and> (case requestedTableLabel c a of
                  Some l \<Rightarrow> order_table_has_label s l x
                | None \<Rightarrow> True)
            \<and> non_terminal x)
      = (\<lambda>x. o_tenantId x = c_tenantId c \<and> non_terminal x
            \<and> (case requestedTableLabel c a of
                  Some l \<Rightarrow> order_table_has_label s l x
                | None \<Rightarrow> True))"
    by (intro ext) blast
  then show ?thesis
    by (auto simp: targetOrder_def latest_open_order_def split: option.splits)
qed

lemma targetOrder_session [simp]:
  "targetOrder (c\<lparr>c_sessionId := sid\<rparr>) a s = targetOrder c a s"
  by (simp add: targetOrder_def)

lemma close_action:
  assumes "a_action a = CANCEL_ORDER \<or> a_action a = CONFIRM_PAYMENT"
    and "\<not> orderPlaced t" and "targetOrder c a s = Some tgt"
  shows "\<exists>t'. process_action c a (t, s)
               = (Inr t', closed_store (a_action a) tgt (c_sessionId c) s)
           \<and> updatedCart t' = [] \<and> forceSessionCompleted t' \<and> final_state t' = COMPLETED"
  using process_action_cancel [OF assms(1,2), of c s] cancel_or_pay_found [OF assms(3), of t]
  by (simp add: final_state_def)

text \<open>
  C8, as the code has it. A \<open>CANCEL_ORDER\<close> or \<open>CONFIRM_PAYMENT\<close> action that is processed
  when no order was placed earlier in the same turn, and for which the tenant has an open
  order (for the resolved table, when a table label is resolved), closes the most recent such
  order: it becomes \<open>CANCELLED\<close> or \<open>PAID\<close>, its table becomes \<open>AVAILABLE\<close> when no other open
  order references the table, the issuing session becomes \<open>COMPLETED\<close> with an empty cart,
  and the cart of the turn is emptied. The order is found without reading the session id.
\<close>

theorem cancel_or_pay_closes_latest_open_order:
  assumes "a_action a = CANCEL_ORDER \<or> a_action a = CONFIRM_PAYMENT"
    and "\<not> orderPlaced t"
    and "latest_open_order s (c_tenantId c) (requestedTableLabel c a) tgt"
  shows "\<exists>t'. process_action c a (t, s)
               = (Inr t', closed_store (a_action a) tgt (c_sessionId c) s)
           \<and> updatedCart t' = [] \<and> forceSessionCompleted t' \<and> final_state t' = COMPLETED
           \<and> (\<forall>sid. \<exists>t''. process_action (c\<lparr>c_sessionId := sid\<rparr>) a (t, s)
                               = (Inr t'', closed_store (a_action a) tgt sid s))"
proof -
  from assms(3) have tgt: "targetOrder c a s = Some tgt"
    by (simp add: targetOrder_latest)
  have "\<exists>t''. process_action (c\<lparr>c_sessionId := sid\<rparr>) a (t, s)
                 = (Inr t'', closed_store (a_action a) tgt sid s)" for sid
    using close_action [OF assms(1,2), of "c\<lparr>c_sessionId := sid\<rparr>" s tgt] tgt by auto
  with close_action [OF assms(1,2) tgt] show ?thesis by blast
qed

text \<open>
  C10, as the code has it. A \<open>CANCEL_ORDER\<close> or \<open>CONFIRM_PAYMENT\<close> action without a table
  reference (none on the action, none on the request, and the label helper finds none in
  the empty text), processed when no order was placed earlier in the same turn, is not
  filtered by table: it closes the most recent open order of the tenant, whatever table that
  order is on, and completes the session. After an order placed in the same turn the action
  is skipped.
\<close>

theorem cancel_or_pay_without_table_is_tenant_wide:
  assumes "a_action a = CANCEL_ORDER \<or> a_action a = CONFIRM_PAYMENT"
    and "\<not> orderPlaced t"
    and "\<not> truthy (a_tableId a)" and "\<not> truthy (c_tableLabel c)"
    and "\<not> truthy (extractPrimaryTableLabel (c_env c) [])"
    and "find_last (\<lambda>x. o_tenantId x = c_tenantId c \<and> non_terminal x) (st_orders s) = Some tgt"
  shows "requestedTableLabel c a = None
       \<and> (\<exists>t'. process_action c a (t, s)
                  = (Inr t', closed_store (a_action a) tgt (c_sessionId c) s)
              \<and> forceSessionCompleted t')"
proof -
  have none: "requestedTableLabel c a = None"
    using assms(3-5) by (simp add: requestedTableLabel_def table_ref_def)
  with assms(6) have "targetOrder c a s = Some tgt"
    by (simp add: targetOrder_def)
  with close_action [OF assms(1,2)] none show ?thesis by blast
qed

section \<open>The guardrails\<close>

lemma get_or_create_session_keeps:
  "st_orders (snd (get_or_create_session e data tn s)) = st_orders s
   \<and> st_tables (snd (get_or_create_session e data tn s)) = st_tables s
   \<and> st_messages (snd (get_or_create_session e data tn s)) = st_messages s
   \<and> (st_sessions (snd (get_or_create_session e data tn s)) = st_sessions s
      \<or> st_sessions (snd (get_or_create_session e data tn s))
          = st_sessions s @ [fst (get_or_create_session e data tn s)]
        \<and> cs_cart (fst (get_or_create_session e data tn s)) = [])"
  by (simp add: get_or_create_session_def Let_def split: option.splits)

lemma guardrail_reply_store:
  "st_orders (snd (guardrail_reply sid msg canned kind s)) = st_orders s
   \<and> st_tables (snd (guardrail_reply sid msg canned kind s)) = st_tables s
   \<and> st_sessions (snd (guardrail_reply sid msg canned kind s)) = st_sessions s
   \<and> st_messages (snd (guardrail_reply sid msg canned kind s))
       = st_messages s
         @ [\<lparr>m_sessionId = sid, m_sender = USER, m_content = UserText msg,
             m_metadata = NoMetadata\<rparr>,
            \<lparr>m_sessionId = sid, m_sender = BOT, m_content = BotText canned,
             m_metadata = GuardrailTag kind\<rparr>]"
  by (simp add: guardrail_reply_def create_message_def)

lemma POST_guardrail:
  assumes "List.find (\<lambda>tn. tn_slug tn = tenantSlug data) (st_tenants s) = Some tn"
    and "isPromptInjection (message data) \<or> isAbusive (message data) \<or> isFaultyMessage (message data)"
  shows "POST e oracle (Some data) s
           = guardrail_reply (cs_id (fst (get_or_create_session e data tn s))) (message data)
               (canned_reply (message data)) (guardrail_of (message data))
               (snd (get_or_create_session e data tn s))"
  using assms
  by (auto simp: POST_def Let_def canned_reply_def guardrail_of_def localizedFallback_def)

text \<open>
  C4. For a tenant that exists, a message that one of the three guardrail checks matches is
  answered by the first check that matches, in the order injection, abuse, unparseable
  input; so a message that matches the abuse pattern and not the injection pattern gets the
  abuse reply, whether or not it also is a menu request. The user message and the canned
  reply, tagged with the guardrail, are saved; no order, table or existing session row
  changes (the only other write is the new session row, with an empty cart, of a request
  without a known session); the response has an empty cart, \<open>orderPlaced = false\<close> and
  \<open>openMenuWizard = false\<close>.
\<close>

theorem guardrail_precedence:
  assumes "List.find (\<lambda>tn. tn_slug tn = tenantSlug data) (st_tenants s) = Some tn"
    and "isPromptInjection (message data) \<or> isAbusive (message data) \<or> isFaultyMessage (message data)"
  shows "fst (POST e oracle (Some data) s)
           = Inr \<lparr>r_sessionId = cs_id (fst (get_or_create_session e data tn s)),
                  r_message = canned_reply (message data), r_cart = [],
                  r_orderPlaced = False, r_orderDetails = None, r_openMenuWizard = False\<rparr>
       \<and> (isAbusive (message data) \<and> \<not> isPromptInjection (message data)
            \<longrightarrow> canned_reply (message data) = LocalizedFallback (detectLocale (message data)) Abuse
              \<and> guardrail_of (message data) = ABUSE)
       \<and> st_messages (snd (POST e oracle (Some data) s))
           = st_messages s
             @ [\<lparr>m_sessionId = cs_id (fst (get_or_create_session e data tn s)), m_sender = USER,
                 m_content = UserText (message data), m_metadata = NoMetadata\<rparr>,
                \<lparr>m_sessionId = cs_id (fst (get_or_create_session e data tn s)), m_sender = BOT,
                 m_content = BotText (canned_reply (message data)),
                 m_metadata = GuardrailTag (guardrail_of (message data))\<rparr>]
       \<and> st_orders (snd (POST e oracle (Some data) s)) = st_orders s
       \<and> st_tables (snd (POST e oracle (Some data) s)) = st_tables s
       \<and> (st_sessions (snd (POST e oracle (Some data) s)) = st_sessions s
          \<or> st_sessions (snd (POST e oracle (Some data) s))
              = st_sessions s @ [fst (get_or_create_session e data tn s)]
            \<and> cs_cart (fst (get_or_create_session e data tn s)) = [])"
proof -
  let ?g = "get_or_create_session e data tn s"
  have post: "POST e oracle (Some data) s
      = guardrail_reply (cs_id (fst ?g)) (message data) (canned_reply (message data))
          (guardrail_of (message data)) (snd ?g)"
    using assms by (rule POST_guardrail)
  have resp: "fst (POST e oracle (Some data) s)
      = Inr \<lparr>r_sessionId = cs_id (fst ?g), r_message = canned_reply (message data), r_cart = [],
             r_orderPlaced = False, r_orderDetails = None, r_openMenuWizard = False\<rparr>"
    unfolding post by (simp add: guardrail_reply_def)
  have kind: "isAbusive (message data) \<and> \<not> isPromptInjection (message data)
      \<longrightarrow> canned_reply (message data) = LocalizedFallback (detectLocale (message data)) Abuse
        \<and> guardrail_of (message data) = ABUSE"
    by (simp add: canned_reply_def guardrail_of_def)
  show ?thesis
    using resp kind guardrail_reply_store [of "cs_id (fst ?g)" "message data"
        "canned_reply (message data)" "guardrail_of (message data)" "snd ?g"]
      get_or_create_session_keeps [of e data tn s]
    unfolding post by simp
qed

section \<open>A turn whose actions only add items\<close>

lemma process_action_add:
  "a_action a = ADD_ITEM \<Longrightarrow>
     process_action c a (t, s) = (Inr (t\<lparr>updatedCart := cart_step (c_items c) (updatedCart t) a\<rparr>), s)"
  by (simp add: process_action_def Let_def)

lemma process_actions_add:
  "\<forall>a \<in> set acts. a_action a = ADD_ITEM \<Longrightarrow>
     process_actions c acts (t, s)
       = (Inr (t\<lparr>updatedCart := cart_reducer (c_items c) (updatedCart t) acts\<rparr>), s)"
proof (induction acts arbitrary: t)
  case Nil
  then show ?case by (simp add: cart_reducer_def)
next
  case (Cons a acts)
  then show ?case by (simp add: process_action_add cart_reducer_def)
qed

lemma find_update_session:
  "List.find (\<lambda>x. cs_id x = sid) xs = Some session \<Longrightarrow>
     List.find (\<lambda>x. cs_id x = sid)
       (map (\<lambda>x. if cs_id x = sid then x\<lparr>cs_state := st, cs_cart := cart\<rparr> else x) xs)
     = Some (session\<lparr>cs_state := st, cs_cart := cart\<rparr>)"
  by (induction xs) (auto split: if_splits)

lemma get_session_found:
  assumes "truthy (sessionId data)"
    and "List.find (\<lambda>x. cs_id x = string_of (sessionId data)) (st_sessions s) = Some session"
  shows "get_or_create_session e data tn s = (session, s)"
    and "cs_id session = string_of (sessionId data)"
proof -
  show "get_or_create_session e data tn s = (session, s)"
    using assms by (simp add: get_or_create_session_def)
  show "cs_id session = string_of (sessionId data)"
    using assms(2) by (auto simp: find_Some_iff)
qed

text \<open>
  C2, as the code has it. The endpoint does not read the state of the session it finds. A
  further turn against a \<open>COMPLETED\<close> session, with a message that passes the guardrails and
  actions that are all \<open>ADD_ITEM\<close>, returns and stores the cart the reducer makes of the
  session's cart and the actions, and sets the state to \<open>ORDERING\<close> when that cart is not
  empty (to \<open>BROWSING\<close> when it is). What keeps a completed session from further turns is the
  chat widget, which sends nothing while the state it holds is \<open>COMPLETED\<close>.
\<close>

theorem completed_session_is_processed_like_any:
  assumes "List.find (\<lambda>tn. tn_slug tn = tenantSlug data) (st_tenants s) = Some tn"
    and "truthy (sessionId data)"
    and "List.find (\<lambda>x. cs_id x = string_of (sessionId data)) (st_sessions s) = Some session"
    and "cs_state session = COMPLETED"
    and "\<not> isPromptInjection (message data)" and "\<not> isAbusive (message data)"
    and "\<not> isFaultyMessage (message data)"
    and "\<forall>a \<in> set (fst (extract_actions oracle data tn session s)). a_action a = ADD_ITEM"
  shows "map_option r_cart (response_of (POST e oracle (Some data) s))
           = Some (cart_reducer (allItems tn) (cs_cart session)
                     (fst (extract_actions oracle data tn session s)))
       \<and> session_after (cs_id session) (POST e oracle (Some data) s)
           = Some (session
                \<lparr>cs_state :=
                   (if cart_reducer (allItems tn) (cs_cart session)
                         (fst (extract_actions oracle data tn session s)) = []
                    then BROWSING else ORDERING),
                 cs_cart := cart_reducer (allItems tn) (cs_cart session)
                              (fst (extract_actions oracle data tn session s))\<rparr>)
       \<and> \<not> handleSend_sends input isPending COMPLETED"
proof -
  let ?acts = "fst (extract_actions oracle data tn session s)"
  let ?cart = "cart_reducer (allItems tn) (cs_cart session) ?acts"
  have post: "POST e oracle (Some data) s = clean_turn e oracle data tn session s"
    using assms(1,5,6,7) get_session_found(1) [OF assms(2,3), of e tn]
    by (simp add: POST_def Let_def)
  have sid: "cs_id session = string_of (sessionId data)"
    using assms(2,3) by (rule get_session_found(2))
  have turn: "clean_turn e oracle data tn session s
      = finish_turn (cs_id session) ?acts (snd (snd (extract_actions oracle data tn session s)))
          (Inr \<lparr>updatedCart = ?cart, orderPlaced = False, orderDetails = None,
                forceSessionCompleted = False, forceBotResponse = None,
                botResponse = fst (snd (extract_actions oracle data tn session s))\<rparr>,
           create_message
             \<lparr>m_sessionId = cs_id session, m_sender = USER,
              m_content = UserText (message data), m_metadata = NoMetadata\<rparr> s)"
    using process_actions_add [OF assms(8)]
    by (simp add: clean_turn_def Let_def)
  have cart: "map_option r_cart (response_of (POST e oracle (Some data) s)) = Some ?cart"
    unfolding post turn by (simp add: finish_turn_def response_of_def)
  have row: "session_after (cs_id session) (POST e oracle (Some data) s)
      = Some (session\<lparr>cs_state := (if ?cart = [] then BROWSING else ORDERING), cs_cart := ?cart\<rparr>)"
    unfolding post turn
    using assms(3) find_update_session [of "cs_id session" "st_sessions s" session]
    by (simp add: finish_turn_def session_after_def create_message_def update_session_def
          final_state_def sid)
  have widget: "\<not> handleSend_sends input isPending COMPLETED"
    by (simp add: handleSend_sends_def)
  from cart row widget show ?thesis by blast
qed

section \<open>Worked cases\<close>

lemmas text_defs = str_def ignore_case_def lower_unit_def matches_any_def toLowerCase_ascii

lemma POST_clean:
  assumes "List.find (\<lambda>tn. tn_slug tn = tenantSlug data) (st_tenants s) = Some tn"
    and "truthy (sessionId data)"
    and "List.find (\<lambda>x. cs_id x = string_of (sessionId data)) (st_sessions s) = Some session"
    and "\<not> isPromptInjection (message data)" and "\<not> isAbusive (message data)"
    and "\<not> isFaultyMessage (message data)"
  shows "POST e oracle (Some data) s = clean_turn e oracle data tn session s"
  using assms(1,4,5,6) get_session_found(1) [OF assms(2,3), of e tn]
  by (simp add: POST_def Let_def)

lemma ex_allItems: "allItems ex_tenant = [ex_momo]"
  by (simp add: allItems_def menuCategories_def ex_tenant_def ex_momo_def)

lemma ex_find_tenant:
  "List.find (\<lambda>tn. tn_slug tn = tenantSlug (ex_request msg)) (st_tenants (ex_store orders session))
     = Some ex_tenant"
  by (simp add: ex_request_def ex_store_def ex_tenant_def)

lemma ex_find_session:
  "List.find (\<lambda>x. cs_id x = string_of (sessionId (ex_request msg)))
     (st_sessions (ex_store orders (ex_session st cart))) = Some (ex_session st cart)"
  by (simp add: ex_request_def ex_store_def ex_session_def string_of_def)

lemma ex_truthy_session: "truthy (sessionId (ex_request msg))"
  by (simp add: ex_request_def truthy_def str_def)

lemma ex_linkedOrder_none: "linkedOrder tn session (ex_store [] x) = None"
  by (simp add: linkedOrder_def find_last_def ex_store_def)

lemma momo_please_clean:
  "\<not> isPromptInjection (str ''2 momo please'')"
  "\<not> isAbusive (str ''2 momo please'')"
  "\<not> isFaultyMessage (str ''2 momo please'')"
  "\<not> isMenuIntent (str ''2 momo please'')"
  "detectLocale (str ''2 momo please'') = En"
      apply (simp add: isPromptInjection_def text_defs)
     apply (simp add: isAbusive_def text_defs is_word_unit_def)
    apply (simp add: isFaultyMessage_def text_defs trim_def is_space_def is_word_unit_def)
   apply (simp add: isMenuIntent_def text_defs)
  apply (simp add: detectLocale_def text_defs is_devanagari_def)
  done

lemma momo_please_actions:
  "extract_actions OracleFailed (ex_request ''2 momo please'') ex_tenant (ex_session st [])
     (ex_store [] x)
   = ([add_action (str ''Momo'') 1], TroubleThinking, False)"
proof -
  have m: "message (ex_request ''2 momo please'') = str ''2 momo please''"
    by (simp add: ex_request_def)
  have "fallback_parser (ex_request ''2 momo please'') ex_tenant [] None En TroubleThinking False
      = ([add_action (str ''Momo'') 1], TroubleThinking, False)"
    using momo_please_clean(4)
    by (simp add: fallback_parser_def Let_def m ex_allItems ex_momo_def add_action_def text_defs)
  then show ?thesis
    using momo_please_clean(4,5)
    by (simp add: extract_actions_def oracle_actions_def Let_def m ex_linkedOrder_none
          ex_session_def)
qed

lemma clean_turn_add:
  assumes "\<forall>a \<in> set (fst (extract_actions oracle data tn session s)). a_action a = ADD_ITEM"
  shows "clean_turn e oracle data tn session s
      = finish_turn (cs_id session) (fst (extract_actions oracle data tn session s))
          (snd (snd (extract_actions oracle data tn session s)))
          (Inr \<lparr>updatedCart = cart_reducer (allItems tn) (cs_cart session)
                                (fst (extract_actions oracle data tn session s)),
                orderPlaced = False, orderDetails = None,
                forceSessionCompleted = False, forceBotResponse = None,
                botResponse = fst (snd (extract_actions oracle data tn session s))\<rparr>,
           create_message
             \<lparr>m_sessionId = cs_id session, m_sender = USER,
              m_content = UserText (message data), m_metadata = NoMetadata\<rparr> s)"
  using process_actions_add [OF assms]
  by (simp add: clean_turn_def Let_def)

lemma ex_session_sel [simp]:
  "cs_id (ex_session st cart) = str ''s1''" "cs_cart (ex_session st cart) = cart"
  "cs_state (ex_session st cart) = st"
  by (simp_all add: ex_session_def)

lemma ex_add_momo: "cart_reducer [ex_momo] [] [add_action (str ''Momo'') 1] = [ex_line 1]"
  by (simp add: cart_reducer_def cart_step_def add_item_def add_action_def qty_or_1_def
        find_menu_item_def ex_momo_def ex_line_def)

lemma momo_please_post:
  "POST ex_env OracleFailed (Some (ex_request ''2 momo please'')) (ex_store [] (ex_session st []))
     = finish_turn (str ''s1'') [add_action (str ''Momo'') 1] False
         (Inr ((ex_turn [ex_line 1])),
          create_message
            \<lparr>m_sessionId = str ''s1'', m_sender = USER,
             m_content = UserText (str ''2 momo please''), m_metadata = NoMetadata\<rparr>
            (ex_store [] (ex_session st [])))"
proof -
  have m: "message (ex_request ''2 momo please'') = str ''2 momo please''"
    by (simp add: ex_request_def)
  have "POST ex_env OracleFailed (Some (ex_request ''2 momo please'')) (ex_store [] (ex_session st []))
      = clean_turn ex_env OracleFailed (ex_request ''2 momo please'') ex_tenant (ex_session st [])
          (ex_store [] (ex_session st []))"
    using ex_find_tenant ex_truthy_session ex_find_session momo_please_clean(1,2,3)
    by (intro POST_clean) (simp_all add: m)
  also have "\<dots> = finish_turn (str ''s1'') [add_action (str ''Momo'') 1] False
         (Inr ((ex_turn [ex_line 1])),
          create_message
            \<lparr>m_sessionId = str ''s1'', m_sender = USER,
             m_content = UserText (str ''2 momo please''), m_metadata = NoMetadata\<rparr>
            (ex_store [] (ex_session st [])))"
    by (subst clean_turn_add)
       (simp_all add: momo_please_actions ex_allItems ex_add_momo m ex_turn_def,
        simp add: add_action_def)
  finally show ?thesis .
qed

text \<open>
  C3, the scenario as the spec words it, fails: for the message "2 momo please" the fallback
  parser does not emit \<open>ADD_ITEM(Momo, 2)\<close> and the cart does not become one line of
  quantity 2 and total 300.
\<close>

theorem add_to_cart_scenario_counterexample:
  "fst (extract_actions OracleFailed (ex_request ''2 momo please'') ex_tenant
          (ex_session BROWSING []) (ex_store [] (ex_session BROWSING [])))
     \<noteq> [add_action (str ''Momo'') 2]
   \<and> map_option r_cart
        (response_of (POST ex_env OracleFailed (Some (ex_request ''2 momo please''))
                        (ex_store [] (ex_session BROWSING []))))
       \<noteq> Some [\<lparr>cl_id = str ''m1'', cl_name = str ''Momo'', cl_price = Num 150, cl_qty = 2,
                 cl_total = Num 300\<rparr>]"
  by (simp add: momo_please_actions momo_please_post finish_turn_def response_of_def
        add_action_def ex_turn_def ex_line_def)

text \<open>
  C3, as the code has it. With the oracle failing, a tenant whose menu has Momo at Rs.150, an
  empty cart and no table: for the message "2 momo please" the fallback parser, which gives
  every mentioned item the quantity 1, emits \<open>ADD_ITEM(Momo, 1)\<close>; the cart of the response is
  one line of Momo with quantity 1 and total 150, and \<open>orderPlaced\<close> is false.
\<close>

theorem add_to_cart_scenario:
  "fst (extract_actions OracleFailed (ex_request ''2 momo please'') ex_tenant
          (ex_session BROWSING []) (ex_store [] (ex_session BROWSING [])))
     = [add_action (str ''Momo'') 1]
   \<and> map_option r_cart
        (response_of (POST ex_env OracleFailed (Some (ex_request ''2 momo please''))
                        (ex_store [] (ex_session BROWSING []))))
       = Some [\<lparr>cl_id = str ''m1'', cl_name = str ''Momo'', cl_price = Num 150, cl_qty = 1,
                 cl_total = Num 150\<rparr>]
   \<and> map_option r_orderPlaced
        (response_of (POST ex_env OracleFailed (Some (ex_request ''2 momo please''))
                        (ex_store [] (ex_session BROWSING []))))
       = Some False"
  by (simp add: momo_please_actions momo_please_post finish_turn_def response_of_def
        ex_turn_def ex_line_def)

lemma momo_clean:
  "\<not> isPromptInjection (str ''momo'')"
  "\<not> isAbusive (str ''momo'')"
  "\<not> isFaultyMessage (str ''momo'')"
  "\<not> isMenuIntent (str ''momo'')"
  "detectLocale (str ''momo'') = En"
      apply (simp add: isPromptInjection_def text_defs)
     apply (simp add: isAbusive_def text_defs is_word_unit_def)
    apply (simp add: isFaultyMessage_def text_defs trim_def is_space_def is_word_unit_def)
   apply (simp add: isMenuIntent_def text_defs)
  apply (simp add: detectLocale_def text_defs is_devanagari_def)
  done

lemma momo_actions:
  "extract_actions OracleFailed (ex_request ''momo'') ex_tenant (ex_session st [])
     (ex_store [] x)
   = ([add_action (str ''Momo'') 1], TroubleThinking, False)"
proof -
  have m: "message (ex_request ''momo'') = str ''momo''"
    by (simp add: ex_request_def)
  have "fallback_parser (ex_request ''momo'') ex_tenant [] None En TroubleThinking False
      = ([add_action (str ''Momo'') 1], TroubleThinking, False)"
    using momo_clean(4)
    by (simp add: fallback_parser_def Let_def m ex_allItems ex_momo_def add_action_def text_defs)
  then show ?thesis
    using momo_clean(4,5)
    by (simp add: extract_actions_def oracle_actions_def Let_def m ex_linkedOrder_none)
qed

lemma momo_post:
  "POST ex_env OracleFailed (Some (ex_request ''momo'')) (ex_store [] (ex_session st []))
     = finish_turn (str ''s1'') [add_action (str ''Momo'') 1] False
         (Inr ((ex_turn [ex_line 1])),
          create_message
            \<lparr>m_sessionId = str ''s1'', m_sender = USER,
             m_content = UserText (str ''momo''), m_metadata = NoMetadata\<rparr>
            (ex_store [] (ex_session st [])))"
proof -
  have m: "message (ex_request ''momo'') = str ''momo''"
    by (simp add: ex_request_def)
  have "POST ex_env OracleFailed (Some (ex_request ''momo'')) (ex_store [] (ex_session st []))
      = clean_turn ex_env OracleFailed (ex_request ''momo'') ex_tenant (ex_session st [])
          (ex_store [] (ex_session st []))"
    using ex_find_tenant ex_truthy_session ex_find_session momo_clean(1,2,3)
    by (intro POST_clean) (simp_all add: m)
  also have "\<dots> = finish_turn (str ''s1'') [add_action (str ''Momo'') 1] False
         (Inr ((ex_turn [ex_line 1])),
          create_message
            \<lparr>m_sessionId = str ''s1'', m_sender = USER,
             m_content = UserText (str ''momo''), m_metadata = NoMetadata\<rparr>
            (ex_store [] (ex_session st [])))"
    by (subst clean_turn_add)
       (simp_all add: momo_actions ex_allItems ex_add_momo m ex_turn_def,
        simp add: add_action_def)
  finally show ?thesis .
qed

lemma ex_session_after:
  "session_after (str ''s1'')
     (finish_turn (str ''s1'') acts w
        (Inr t, create_message msg (ex_store orders (ex_session st cart))))
   = Some (ex_session (final_state t) (updatedCart t))"
  by (simp add: session_after_def finish_turn_def create_message_def update_session_def
        ex_store_def ex_session_def)

text \<open>
  C2, as the spec words it, fails: a turn with the message "momo" against a \<open>COMPLETED\<close>
  session with an empty cart has the one action \<open>ADD_ITEM\<close>, and leaves the session with a
  cart that is not empty and in state \<open>ORDERING\<close>.
\<close>

theorem completed_session_counterexample:
  "cs_state (ex_session COMPLETED []) = COMPLETED
   \<and> map a_action
        (fst (extract_actions OracleFailed (ex_request ''momo'') ex_tenant
                (ex_session COMPLETED []) (ex_store [] (ex_session COMPLETED []))))
       = [ADD_ITEM]
   \<and> map_option cs_cart
        (session_after (str ''s1'')
           (POST ex_env OracleFailed (Some (ex_request ''momo''))
              (ex_store [] (ex_session COMPLETED []))))
       \<noteq> Some []
   \<and> map_option cs_state
        (session_after (str ''s1'')
           (POST ex_env OracleFailed (Some (ex_request ''momo''))
              (ex_store [] (ex_session COMPLETED []))))
       = Some ORDERING"
  by (simp add: momo_actions momo_post ex_session_after final_state_def ex_turn_def
        add_action_def)

theorem completed_session_is_processed_like_any_witness:
  "map_option r_cart
     (response_of (POST ex_env OracleFailed (Some (ex_request ''momo''))
                     (ex_store [] (ex_session COMPLETED []))))
     = Some [ex_line 1]
   \<and> map_option cs_state
        (session_after (str ''s1'')
           (POST ex_env OracleFailed (Some (ex_request ''momo''))
              (ex_store [] (ex_session COMPLETED []))))
       = Some ORDERING"
proof -
  have m: "message (ex_request ''momo'') = str ''momo''"
    by (simp add: ex_request_def)
  have adds: "\<forall>a \<in> set (fst (extract_actions OracleFailed (ex_request ''momo'') ex_tenant
      (ex_session COMPLETED []) (ex_store [] (ex_session COMPLETED [])))). a_action a = ADD_ITEM"
    by (simp add: momo_actions add_action_def)
  have "cart_reducer (allItems ex_tenant) (cs_cart (ex_session COMPLETED []))
          (fst (extract_actions OracleFailed (ex_request ''momo'') ex_tenant
             (ex_session COMPLETED []) (ex_store [] (ex_session COMPLETED []))))
        = [ex_line 1]"
    by (simp add: momo_actions ex_allItems ex_add_momo)
  with completed_session_is_processed_like_any
         [of "ex_request ''momo''" "ex_store [] (ex_session COMPLETED [])" ex_tenant
             "ex_session COMPLETED []" OracleFailed ex_env,
          OF ex_find_tenant ex_truthy_session ex_find_session _ _ _ _ adds]
       momo_clean(1,2,3)
  show ?thesis by (simp add: m)
qed

lemma stupid_menu_facts:
  "\<not> isPromptInjection (str ''stupid menu'')"
  "isAbusive (str ''stupid menu'')"
  "isMenuIntent (str ''stupid menu'')"
  "detectLocale (str ''stupid menu'') = En"
     apply (simp add: isPromptInjection_def text_defs)
    apply (simp add: isAbusive_def text_defs is_word_unit_def)
   apply (simp add: isMenuIntent_def text_defs)
  apply (simp add: detectLocale_def text_defs is_devanagari_def)
  done

theorem guardrail_precedence_witness:
  "isAbusive (str ''stupid menu'') \<and> isMenuIntent (str ''stupid menu'')
   \<and> \<not> isPromptInjection (str ''stupid menu'')
   \<and> fst (POST ex_env OracleFailed (Some (ex_request ''stupid menu''))
             (ex_store [] (ex_session ORDERING [ex_line 1])))
       = Inr \<lparr>r_sessionId = str ''s1'', r_message = LocalizedFallback En Abuse, r_cart = [],
              r_orderPlaced = False, r_orderDetails = None, r_openMenuWizard = False\<rparr>
   \<and> st_orders (snd (POST ex_env OracleFailed (Some (ex_request ''stupid menu''))
                        (ex_store [] (ex_session ORDERING [ex_line 1])))) = []
   \<and> st_sessions (snd (POST ex_env OracleFailed (Some (ex_request ''stupid menu''))
                          (ex_store [] (ex_session ORDERING [ex_line 1]))))
       = [ex_session ORDERING [ex_line 1]]"
proof -
  have m: "message (ex_request ''stupid menu'') = str ''stupid menu''"
    by (simp add: ex_request_def)
  have g: "get_or_create_session ex_env (ex_request ''stupid menu'') ex_tenant
             (ex_store [] (ex_session ORDERING [ex_line 1]))
           = (ex_session ORDERING [ex_line 1], ex_store [] (ex_session ORDERING [ex_line 1]))"
    using ex_truthy_session ex_find_session by (rule get_session_found(1))
  have hit: "isPromptInjection (message (ex_request ''stupid menu''))
      \<or> isAbusive (message (ex_request ''stupid menu''))
      \<or> isFaultyMessage (message (ex_request ''stupid menu''))"
    using stupid_menu_facts(2) by (simp add: m)
  have sel: "st_orders (ex_store [] (ex_session ORDERING [ex_line 1])) = []"
    "st_sessions (ex_store [] (ex_session ORDERING [ex_line 1])) = [ex_session ORDERING [ex_line 1]]"
    by (simp_all add: ex_store_def)
  from guardrail_precedence
         [of "ex_request ''stupid menu''" "ex_store [] (ex_session ORDERING [ex_line 1])"
             ex_tenant ex_env OracleFailed, OF ex_find_tenant hit]
  show ?thesis
    using stupid_menu_facts
    by (auto simp: m g canned_reply_def sel)
qed


lemma place_cancel_clean:
  "\<not> isPromptInjection (str ''momo place order cancel'')"
  "\<not> isAbusive (str ''momo place order cancel'')"
  "\<not> isFaultyMessage (str ''momo place order cancel'')"
  "\<not> isMenuIntent (str ''momo place order cancel'')"
  "detectLocale (str ''momo place order cancel'') = En"
      apply (simp add: isPromptInjection_def text_defs)
     apply (simp add: isAbusive_def text_defs is_word_unit_def)
    apply (simp add: isFaultyMessage_def text_defs trim_def is_space_def is_word_unit_def)
   apply (simp add: isMenuIntent_def text_defs)
  apply (simp add: detectLocale_def text_defs is_devanagari_def)
  done

lemma place_cancel_actions:
  "extract_actions OracleFailed (ex_request_at_table ''momo place order cancel'') ex_tenant
     (ex_session st []) (ex_store [] x)
   = ([add_action (str ''Momo'') 1,
       ex_action PLACE_ORDER (Some (str ''T-01'')),
       ex_action CANCEL_ORDER (Some (str ''T-01''))], TroubleThinking, False)"
proof -
  have m: "message (ex_request_at_table ''momo place order cancel'') = str ''momo place order cancel''"
      "tableLabel (ex_request_at_table ''momo place order cancel'') = Some (str ''T-01'')"
    by (simp_all add: ex_request_def ex_request_at_table_def)
  have "fallback_parser (ex_request_at_table ''momo place order cancel'') ex_tenant [] None En
          TroubleThinking False
      = ([add_action (str ''Momo'') 1,
          ex_action PLACE_ORDER (Some (str ''T-01'')),
          ex_action CANCEL_ORDER (Some (str ''T-01''))], TroubleThinking, False)"
    using place_cancel_clean(4)
    by (simp add: fallback_parser_def Let_def m ex_allItems ex_momo_def add_action_def text_defs
          fallback_action_def ex_action_def truthy_def)
  then show ?thesis
    using place_cancel_clean(4,5)
    by (simp add: extract_actions_def oracle_actions_def Let_def m ex_linkedOrder_none)
qed

lemma ex_env_sel [simp]:
  "extractPrimaryTableLabel ex_env t = (if t = [] then None else Some t)"
  "extractPrimaryTableLabel ex_env_stuck t = (if t = [] then None else Some t)"
  "others ex_env k s = s" "others ex_env_stuck k s = s"
  "default_status ex_env = CONFIRMED"
  "nextOrderNumberForTenant ex_env s tid = (if st_orders s = [] then str ''QS-1'' else str ''QS-2'')"
  "nextOrderNumberForTenant ex_env_stuck s tid = str ''QS-1''"
  by (simp_all add: ex_env_def ex_env_stuck_def)

lemma ex_ctx_sel [simp]:
  "c_env (ex_ctx e) = e" "c_tenantId (ex_ctx e) = str ''t1''" "c_items (ex_ctx e) = [ex_momo]"
  "c_serviceChargePercent (ex_ctx e) = Num 10" "c_taxPercent (ex_ctx e) = Num 13"
  "c_sessionId (ex_ctx e) = str ''s1''" "c_tableLabel (ex_ctx e) = Some (str ''T-01'')"
  by (simp_all add: ex_ctx_def)

lemma ex_action_sel [simp]:
  "a_action (ex_action name tbl) = name" "a_tableId (ex_action name tbl) = tbl"
  by (simp_all add: ex_action_def)

lemma ex_turn_sel [simp]:
  "updatedCart (ex_turn cart) = cart" "\<not> orderPlaced (ex_turn cart)"
  by (simp_all add: ex_turn_def)

lemma attempt_store_alone:
  "(\<And>j s'. others e j s' = s') \<Longrightarrow> attempt_store e k s = s"
  by (induction k) simp_all

lemma ex_label:
  "requestedTableLabel (ex_ctx ex_env) (ex_action name tbl) = Some (str ''T-01'')"
  if "tbl = None \<or> tbl = Some (str ''T-01'')"
  using that by (auto simp: requestedTableLabel_def table_ref_def truthy_def string_of_def str_def)

lemma ex_label_stuck:
  "requestedTableLabel (ex_ctx ex_env_stuck) (ex_action name tbl) = Some (str ''T-01'')"
  if "tbl = None \<or> tbl = Some (str ''T-01'')"
  using that by (auto simp: requestedTableLabel_def table_ref_def truthy_def string_of_def str_def)

lemma ex_resolve:
  assumes "requestedTableLabel c a = Some (str ''T-01'')" and "c_tenantId c = str ''t1''"
    and "st_tables s = [ex_table v]"
  shows "resolve_tableId c a s = Some (str ''tb1'')"
  using assms by (simp add: resolve_tableId_def ex_table_def)

lemma ex_truthy_tb1: "truthy (Some (str ''tb1''))"
  by (simp add: truthy_def str_def)

lemma ex_create:
  assumes "st_orders s = []"
  shows "order_tx (ex_ctx ex_env) (Some (str ''tb1'')) cart s
      = Inr (new_order (ex_ctx ex_env) (Some (str ''tb1'')) cart s,
             occupy (Some (str ''tb1''))
               (s\<lparr>st_orders := [new_order (ex_ctx ex_env) (Some (str ''tb1'')) cart s]\<rparr>))"
  using assms
  by (simp add: order_tx_def open_order_def find_last_def order_number_taken_def)

lemma place_cancel_turn:
  assumes "st_orders s = []" and "st_tables s = [ex_table v]"
  shows "process_actions (ex_ctx ex_env)
           [add_action (str ''Momo'') 1, ex_action PLACE_ORDER (Some (str ''T-01'')),
            ex_action CANCEL_ORDER (Some (str ''T-01''))] (ex_turn [], s)
       = (Inr (placed (ex_turn [ex_line 1])
                 (new_order (ex_ctx ex_env) (Some (str ''tb1'')) [ex_line 1] s)),
          occupy (Some (str ''tb1''))
            (s\<lparr>st_orders := [new_order (ex_ctx ex_env) (Some (str ''tb1'')) [ex_line 1] s]\<rparr>))"
proof -
  let ?place = "ex_action PLACE_ORDER (Some (str ''T-01''))"
  let ?cancel = "ex_action CANCEL_ORDER (Some (str ''T-01''))"
  let ?ord = "new_order (ex_ctx ex_env) (Some (str ''tb1'')) [ex_line 1] s"
  let ?s' = "occupy (Some (str ''tb1'')) (s\<lparr>st_orders := [?ord]\<rparr>)"
  have add: "process_action (ex_ctx ex_env) (add_action (str ''Momo'') 1) (ex_turn [], s)
      = (Inr (ex_turn [ex_line 1]), s)"
    using ex_add_momo
    by (simp add: process_action_add add_action_def cart_reducer_def ex_turn_def)
  have tid: "resolve_tableId (ex_ctx ex_env) ?place s = Some (str ''tb1'')"
    using ex_label assms(2) by (intro ex_resolve) simp_all
  have "place_order (ex_ctx ex_env) ?place (ex_turn [ex_line 1], s)
      = (Inr (placed (ex_turn [ex_line 1]) ?ord), ?s')"
    by (rule place_order_first) (simp add: tid ex_create assms(1))
  then have place: "process_action (ex_ctx ex_env) ?place (ex_turn [ex_line 1], s)
      = (Inr (placed (ex_turn [ex_line 1]) ?ord), ?s')"
    by (simp add: process_action_place)
  have cancel: "process_action (ex_ctx ex_env) ?cancel (placed (ex_turn [ex_line 1]) ?ord, ?s')
      = (Inr (placed (ex_turn [ex_line 1]) ?ord), ?s')"
    by (rule process_action_cancel_skipped) (simp_all add: placed_def)
  show ?thesis by (simp add: add place cancel)
qed

lemma place_cancel_post:
  "POST ex_env OracleFailed (Some (ex_request_at_table ''momo place order cancel''))
     (ex_store [] (ex_session st []))
   = finish_turn (str ''s1'')
       [add_action (str ''Momo'') 1, ex_action PLACE_ORDER (Some (str ''T-01'')),
        ex_action CANCEL_ORDER (Some (str ''T-01''))] False
       (process_actions (ex_ctx ex_env)
          [add_action (str ''Momo'') 1, ex_action PLACE_ORDER (Some (str ''T-01'')),
           ex_action CANCEL_ORDER (Some (str ''T-01''))]
          (ex_turn [],
           create_message
             \<lparr>m_sessionId = str ''s1'', m_sender = USER,
              m_content = UserText (str ''momo place order cancel''), m_metadata = NoMetadata\<rparr>
             (ex_store [] (ex_session st []))))"
proof -
  let ?req = "ex_request_at_table ''momo place order cancel''"
  have m: "message ?req = str ''momo place order cancel''"
      "tableLabel ?req = Some (str ''T-01'')"
      "sessionId ?req = sessionId (ex_request ''momo place order cancel'')"
      "tenantSlug ?req = tenantSlug (ex_request ''momo place order cancel'')"
    by (simp_all add: ex_request_def ex_request_at_table_def)
  have "POST ex_env OracleFailed (Some ?req) (ex_store [] (ex_session st []))
      = clean_turn ex_env OracleFailed ?req ex_tenant (ex_session st [])
          (ex_store [] (ex_session st []))"
    using ex_find_tenant ex_truthy_session ex_find_session place_cancel_clean(1,2,3)
    by (intro POST_clean) (simp_all add: m)
  also have "\<dots> = finish_turn (str ''s1'')
       [add_action (str ''Momo'') 1, ex_action PLACE_ORDER (Some (str ''T-01'')),
        ex_action CANCEL_ORDER (Some (str ''T-01''))] False
       (process_actions (ex_ctx ex_env)
          [add_action (str ''Momo'') 1, ex_action PLACE_ORDER (Some (str ''T-01'')),
           ex_action CANCEL_ORDER (Some (str ''T-01''))]
          (ex_turn [],
           create_message
             \<lparr>m_sessionId = str ''s1'', m_sender = USER,
              m_content = UserText (str ''momo place order cancel''), m_metadata = NoMetadata\<rparr>
             (ex_store [] (ex_session st []))))"
  proof -
    have tn: "tn_id ex_tenant = str ''t1''" "tn_serviceChargePercent ex_tenant = Num 10"
        "tn_taxPercent ex_tenant = Num 13"
      by (simp_all add: ex_tenant_def)
    show ?thesis
      by (simp add: clean_turn_def Let_def place_cancel_actions m ex_allItems ex_ctx_def
            ex_turn_def tn)
  qed
  finally show ?thesis .
qed

text \<open>
  C8, as the spec words it ("for every \<open>CANCEL_ORDER\<close> action"), fails. The message
  "momo place order cancel" sent from table \<open>T-01\<close> has the actions \<open>ADD_ITEM\<close>,
  \<open>PLACE_ORDER\<close> and \<open>CANCEL_ORDER\<close>. The order is placed, and the \<open>CANCEL_ORDER\<close> action
  that follows is skipped because an order was placed in the turn: the table's open order
  stays \<open>CONFIRMED\<close>, the table stays \<open>OCCUPIED\<close> and the session becomes \<open>CONFIRMING\<close>, not
  \<open>COMPLETED\<close>.
\<close>

theorem cancel_after_place_counterexample:
  "map a_action
     (fst (extract_actions OracleFailed (ex_request_at_table ''momo place order cancel'')
             ex_tenant (ex_session BROWSING []) (ex_store [] (ex_session BROWSING []))))
     = [ADD_ITEM, PLACE_ORDER, CANCEL_ORDER]
   \<and> map o_status
        (st_orders (snd (POST ex_env OracleFailed
                           (Some (ex_request_at_table ''momo place order cancel''))
                           (ex_store [] (ex_session BROWSING [])))))
       = [CONFIRMED]
   \<and> map tb_status
        (st_tables (snd (POST ex_env OracleFailed
                           (Some (ex_request_at_table ''momo place order cancel''))
                           (ex_store [] (ex_session BROWSING [])))))
       = [OCCUPIED]
   \<and> map_option cs_state
        (session_after (str ''s1'')
           (POST ex_env OracleFailed (Some (ex_request_at_table ''momo place order cancel''))
              (ex_store [] (ex_session BROWSING []))))
       = Some CONFIRMING"
proof -
  let ?s1 = "create_message
             \<lparr>m_sessionId = str ''s1'', m_sender = USER,
              m_content = UserText (str ''momo place order cancel''), m_metadata = NoMetadata\<rparr>
             (ex_store [] (ex_session BROWSING []))"
  have s1: "st_orders ?s1 = []" "st_tables ?s1 = [ex_table AVAILABLE]"
    "st_sessions ?s1 = [ex_session BROWSING []]"
    by (simp_all add: create_message_def ex_store_def)
  have acts: "map a_action
     (fst (extract_actions OracleFailed (ex_request_at_table ''momo place order cancel'')
             ex_tenant (ex_session BROWSING []) (ex_store [] (ex_session BROWSING []))))
     = [ADD_ITEM, PLACE_ORDER, CANCEL_ORDER]"
    by (simp add: place_cancel_actions add_action_def)
  have post: "POST ex_env OracleFailed (Some (ex_request_at_table ''momo place order cancel''))
       (ex_store [] (ex_session BROWSING []))
     = finish_turn (str ''s1'')
       [add_action (str ''Momo'') 1, ex_action PLACE_ORDER (Some (str ''T-01'')),
        ex_action CANCEL_ORDER (Some (str ''T-01''))] False
         (Inr (placed (ex_turn [ex_line 1])
                 (new_order (ex_ctx ex_env) (Some (str ''tb1'')) [ex_line 1] ?s1)),
          occupy (Some (str ''tb1''))
            (?s1\<lparr>st_orders := [new_order (ex_ctx ex_env) (Some (str ''tb1'')) [ex_line 1] ?s1]\<rparr>))"
    unfolding place_cancel_post using place_cancel_turn [OF s1(1,2)] by simp
  have orders: "map o_status (st_orders (snd (POST ex_env OracleFailed
                           (Some (ex_request_at_table ''momo place order cancel''))
                           (ex_store [] (ex_session BROWSING []))))) = [CONFIRMED]"
    unfolding post
    by (simp add: finish_turn_def create_message_def update_session_def new_order_def Let_def)
  have tables: "map tb_status (st_tables (snd (POST ex_env OracleFailed
                           (Some (ex_request_at_table ''momo place order cancel''))
                           (ex_store [] (ex_session BROWSING []))))) = [OCCUPIED]"
    unfolding post
    by (simp add: finish_turn_def create_message_def update_session_def occupy_def ex_truthy_tb1
          string_of_def ex_store_def ex_table_def)
  have session: "map_option cs_state
        (session_after (str ''s1'')
           (POST ex_env OracleFailed (Some (ex_request_at_table ''momo place order cancel''))
              (ex_store [] (ex_session BROWSING [])))) = Some CONFIRMING"
    unfolding post
    by (simp add: finish_turn_def session_after_def create_message_def update_session_def
          occupy_def ex_truthy_tb1 placed_def final_state_def ex_store_def ex_turn_def)
  from acts orders tables session show ?thesis by (intro conjI)
qed

section \<open>The properties on the small restaurant\<close>

lemma ex_store_sel [simp]:
  "st_orders (ex_store orders session) = orders"
  "st_sessions (ex_store orders session) = [session]"
  "st_tables (ex_store orders session) = [ex_table (if orders = [] then AVAILABLE else OCCUPIED)]"
  "st_tenants (ex_store orders session) = [ex_tenant]"
  by (simp_all add: ex_store_def)

lemma ex_order_sel [simp]:
  "o_id (ex_order st) = str ''o1''" "o_tenantId (ex_order st) = str ''t1''"
  "o_tableId (ex_order st) = Some (str ''tb1'')" "o_status (ex_order st) = st"
  "o_orderNumber (ex_order st) = str ''QS-1''" "o_subtotal (ex_order st) = Num 150"
  by (simp_all add: ex_order_def)

lemma ex_latest:
  "latest_open_order (ex_store [ex_order CONFIRMED] session) (str ''t1'') label
     (ex_order CONFIRMED)"
  if "label = None \<or> label = Some (str ''T-01'')"
  using that
  by (auto simp: latest_open_order_def find_last_def non_terminal_def order_table_has_label_def
        ex_table_def)

lemma ex_closed:
  "map o_status (st_orders (closed_store act (ex_order CONFIRMED) (str ''s1'')
       (ex_store [ex_order CONFIRMED] (ex_session st cart))))
     = [if act = CANCEL_ORDER then CANCELLED else PAID]"
  "map tb_status (st_tables (closed_store act (ex_order CONFIRMED) (str ''s1'')
       (ex_store [ex_order CONFIRMED] (ex_session st cart)))) = [AVAILABLE]"
  "st_sessions (closed_store act (ex_order CONFIRMED) (str ''s1'')
       (ex_store [ex_order CONFIRMED] (ex_session st cart))) = [ex_session COMPLETED []]"
    apply (simp add: closed_store_def)
   apply (simp add: closed_store_def other_open_order_def ex_truthy_tb1 string_of_def
      ex_table_def)
  apply (simp add: closed_store_def ex_session_def)
  done

theorem cancel_or_pay_closes_latest_open_order_witness:
  "latest_open_order (ex_store [ex_order CONFIRMED] (ex_session ORDERING [ex_line 1]))
     (str ''t1'') (Some (str ''T-01'')) (ex_order CONFIRMED)
   \<and> (\<exists>t'. process_action (ex_ctx ex_env) (ex_action CANCEL_ORDER (Some (str ''T-01'')))
              (ex_turn [ex_line 1], ex_store [ex_order CONFIRMED] (ex_session ORDERING [ex_line 1]))
            = (Inr t', closed_store CANCEL_ORDER (ex_order CONFIRMED) (str ''s1'')
                         (ex_store [ex_order CONFIRMED] (ex_session ORDERING [ex_line 1])))
          \<and> updatedCart t' = [] \<and> final_state t' = COMPLETED)
   \<and> map o_status (st_orders (closed_store CANCEL_ORDER (ex_order CONFIRMED) (str ''s1'')
         (ex_store [ex_order CONFIRMED] (ex_session ORDERING [ex_line 1])))) = [CANCELLED]
   \<and> map tb_status (st_tables (closed_store CANCEL_ORDER (ex_order CONFIRMED) (str ''s1'')
         (ex_store [ex_order CONFIRMED] (ex_session ORDERING [ex_line 1])))) = [AVAILABLE]
   \<and> st_sessions (closed_store CANCEL_ORDER (ex_order CONFIRMED) (str ''s1'')
         (ex_store [ex_order CONFIRMED] (ex_session ORDERING [ex_line 1])))
       = [ex_session COMPLETED []]"
proof -
  let ?s = "ex_store [ex_order CONFIRMED] (ex_session ORDERING [ex_line 1])"
  let ?a = "ex_action CANCEL_ORDER (Some (str ''T-01''))"
  have lbl: "requestedTableLabel (ex_ctx ex_env) ?a = Some (str ''T-01'')"
    by (rule ex_label) simp
  have latest: "latest_open_order ?s (c_tenantId (ex_ctx ex_env))
      (requestedTableLabel (ex_ctx ex_env) ?a) (ex_order CONFIRMED)"
    unfolding lbl by (simp add: ex_latest)
  have kind: "a_action ?a = CANCEL_ORDER \<or> a_action ?a = CONFIRM_PAYMENT" by simp
  have fresh: "\<not> orderPlaced (ex_turn [ex_line 1])" by simp
  from cancel_or_pay_closes_latest_open_order [OF kind fresh latest]
  have "\<exists>t'. process_action (ex_ctx ex_env) ?a (ex_turn [ex_line 1], ?s)
            = (Inr t', closed_store CANCEL_ORDER (ex_order CONFIRMED) (str ''s1'') ?s)
          \<and> updatedCart t' = [] \<and> final_state t' = COMPLETED"
    by auto
  then show ?thesis by (simp add: ex_latest ex_closed)
qed

theorem cancel_or_pay_without_table_is_tenant_wide_witness:
  "requestedTableLabel ((ex_ctx ex_env)\<lparr>c_tableLabel := None\<rparr>) (ex_action CONFIRM_PAYMENT None)
     = None
   \<and> o_tableId (ex_order CONFIRMED) = Some (str ''tb1'')
   \<and> (\<exists>t'. process_action ((ex_ctx ex_env)\<lparr>c_tableLabel := None\<rparr>)
              (ex_action CONFIRM_PAYMENT None)
              (ex_turn [], ex_store [ex_order CONFIRMED] (ex_session BROWSING []))
            = (Inr t', closed_store CONFIRM_PAYMENT (ex_order CONFIRMED) (str ''s1'')
                         (ex_store [ex_order CONFIRMED] (ex_session BROWSING [])))
          \<and> forceSessionCompleted t')
   \<and> map o_status (st_orders (closed_store CONFIRM_PAYMENT (ex_order CONFIRMED) (str ''s1'')
         (ex_store [ex_order CONFIRMED] (ex_session BROWSING [])))) = [PAID]
   \<and> map tb_status (st_tables (closed_store CONFIRM_PAYMENT (ex_order CONFIRMED) (str ''s1'')
         (ex_store [ex_order CONFIRMED] (ex_session BROWSING [])))) = [AVAILABLE]"
proof -
  let ?c = "(ex_ctx ex_env)\<lparr>c_tableLabel := None\<rparr>"
  let ?s = "ex_store [ex_order CONFIRMED] (ex_session BROWSING [])"
  let ?a = "ex_action CONFIRM_PAYMENT None"
  have kind: "a_action ?a = CANCEL_ORDER \<or> a_action ?a = CONFIRM_PAYMENT" by simp
  have fresh: "\<not> orderPlaced (ex_turn [])" by simp
  have none: "\<not> truthy (a_tableId ?a)" "\<not> truthy (c_tableLabel ?c)"
      "\<not> truthy (extractPrimaryTableLabel (c_env ?c) [])"
    by (simp_all add: truthy_def)
  have found: "find_last (\<lambda>x. o_tenantId x = c_tenantId ?c \<and> non_terminal x) (st_orders ?s)
      = Some (ex_order CONFIRMED)"
    by (simp add: find_last_def non_terminal_def)
  from cancel_or_pay_without_table_is_tenant_wide [OF kind fresh none found]
  show ?thesis by (simp add: ex_closed)
qed

lemma ex_attempt_store [simp]:
  "attempt_store ex_env k s = s" "attempt_store ex_env_stuck k s = s"
  by (simp_all add: attempt_store_alone)

lemma ex_open_order:
  "open_order (ex_ctx e) (Some (str ''tb1'')) (ex_store [ex_order st] session)
     = (if st = PAID \<or> st = CANCELLED then None else Some (ex_order st))"
  by (simp add: open_order_def ex_truthy_tb1 find_last_def non_terminal_def)

lemma ex_resolve_stuck:
  "resolve_tableId (ex_ctx ex_env_stuck) (ex_action name None) (ex_store orders session)
     = Some (str ''tb1'')"
  using ex_label_stuck by (intro ex_resolve) simp_all

lemma ex_resolve_alone:
  "resolve_tableId (ex_ctx ex_env) (ex_action name None) (ex_store orders session)
     = Some (str ''tb1'')"
  using ex_label by (intro ex_resolve) simp_all

theorem order_conflict_retried_then_thrown_witness:
  "order_number_taken (ex_store [ex_order PAID] (ex_session ORDERING [ex_line 1])) (str ''t1'')
     (nextOrderNumberForTenant ex_env_stuck
        (ex_store [ex_order PAID] (ex_session ORDERING [ex_line 1])) (str ''t1''))
   \<and> process_action (ex_ctx ex_env_stuck) (ex_action PLACE_ORDER None)
        (ex_turn [ex_line 1], ex_store [ex_order PAID] (ex_session ORDERING [ex_line 1]))
      = (Inl P2002, ex_store [ex_order PAID] (ex_session ORDERING [ex_line 1]))
   \<and> fst (finish_turn (str ''s1'') [ex_action PLACE_ORDER None] False
             (process_actions (ex_ctx ex_env_stuck) [ex_action PLACE_ORDER None]
                (ex_turn [ex_line 1], ex_store [ex_order PAID] (ex_session ORDERING [ex_line 1]))))
      = Inl Internal_server_error_500"
proof -
  let ?c = "ex_ctx ex_env_stuck"
  let ?a = "ex_action PLACE_ORDER None"
  let ?s = "ex_store [ex_order PAID] (ex_session ORDERING [ex_line 1])"
  have kind: "a_action ?a = PLACE_ORDER \<or> a_action ?a = UPDATE_ORDER" by simp
  have cart: "updatedCart (ex_turn [ex_line 1]) \<noteq> []" by simp
  have taken: "order_number_taken ?s (str ''t1'') (nextOrderNumberForTenant ex_env_stuck ?s (str ''t1''))"
    by (simp add: order_number_taken_def)
  have conflict: "order_tx ?c (resolve_tableId ?c ?a ?s) (updatedCart (ex_turn [ex_line 1]))
      (attempt_store (c_env ?c) k ?s) = Inl P2002" for k
    using taken by (simp add: order_tx_conflict_iff ex_resolve_stuck ex_open_order)
  from order_conflict_retried_then_thrown [OF kind cart, of ?c ?s] conflict
  have "process_action ?c ?a (ex_turn [ex_line 1], ?s) = (Inl P2002, attempt_store (c_env ?c) 2 ?s)
      \<and> (\<forall>rest sid acts wizard.
            fst (finish_turn sid acts wizard (process_actions ?c (?a # rest) (ex_turn [ex_line 1], ?s)))
              = Inl Internal_server_error_500)"
    by blast
  with taken show ?thesis by (simp add: finish_turn_def)
qed





lemma percent_0: "jdiv (Num 0) (Num 100) = Num 0"
  by simp




lemma ex_ctx_29_sel [simp]:
  "c_env ex_ctx_29 = ex_env" "c_tenantId ex_ctx_29 = str ''t1''"
  "c_serviceChargePercent ex_ctx_29 = Num 0" "c_taxPercent ex_ctx_29 = Num 29"
  "c_sessionId ex_ctx_29 = str ''s1''"
  by (simp_all add: ex_ctx_29_def)


subsection \<open>Placing an order: a merge, a creation and a conflict\<close>

lemma ex_chai_line_sel [simp]:
  "cl_id ex_chai_line = str ''m2''" "cl_qty ex_chai_line = 1"
  by (simp_all add: ex_chai_line_def)

lemma ex_line_sel [simp]:
  "cl_id (ex_line q) = str ''m1''" "cl_qty (ex_line q) = q"
  by (simp_all add: ex_line_def)

lemma ex_ids_differ [simp]: "str ''m1'' \<noteq> str ''m2''" "str ''m2'' \<noteq> str ''m1''"
  by (simp_all add: str_def)

lemma ex_open_exists:
  "open_order_exists (ex_store [ex_order st] session) (str ''t1'') (Some (str ''tb1''))
     \<longleftrightarrow> st \<noteq> PAID \<and> st \<noteq> CANCELLED"
  by (simp add: open_order_exists_def open_for_def str_def)

lemma ex_no_open: "\<not> open_order_exists (ex_store [] session) tid tb"
  by (simp add: open_order_exists_def split: option.splits)

theorem place_or_update_merges_or_creates_witness:
  "open_order_exists (ex_store [ex_order CONFIRMED] (ex_session ORDERING [ex_line 2, ex_chai_line]))
     (str ''t1'') (Some (str ''tb1''))
   \<and> (\<exists>t' s'. process_action (ex_ctx ex_env) (ex_action UPDATE_ORDER None)
                 (ex_turn [ex_line 2, ex_chai_line],
                  ex_store [ex_order CONFIRMED] (ex_session ORDERING [ex_line 2, ex_chai_line]))
               = (Inr t', s')
             \<and> orderPlaced t'
             \<and> map o_id (st_orders s') = [str ''o1'']
             \<and> map o_items (st_orders s')
                 = [[\<lparr>oi_menuItemId = str ''m1'', oi_itemName = str ''Momo'', oi_unitPrice = Num 150,
                      oi_quantity = 3, oi_total = Num 450\<rparr>,
                     \<lparr>oi_menuItemId = str ''m2'', oi_itemName = str ''Chai'', oi_unitPrice = Num 50,
                      oi_quantity = 1, oi_total = Num 50\<rparr>]])
   \<and> \<not> open_order_exists (ex_store [] (ex_session ORDERING [ex_line 2, ex_chai_line]))
         (str ''t1'') (Some (str ''tb1''))
   \<and> (\<exists>t' s'. process_action (ex_ctx ex_env) (ex_action PLACE_ORDER None)
                 (ex_turn [ex_line 2, ex_chai_line],
                  ex_store [] (ex_session ORDERING [ex_line 2, ex_chai_line]))
               = (Inr t', s')
             \<and> orderPlaced t'
             \<and> map o_orderNumber (st_orders s') = [str ''QS-1'']
             \<and> map o_tableId (st_orders s') = [Some (str ''tb1'')]
             \<and> map o_items (st_orders s')
                 = [[\<lparr>oi_menuItemId = str ''m1'', oi_itemName = str ''Momo'', oi_unitPrice = Num 150,
                      oi_quantity = 2, oi_total = Num 300\<rparr>,
                     \<lparr>oi_menuItemId = str ''m2'', oi_itemName = str ''Chai'', oi_unitPrice = Num 50,
                      oi_quantity = 1, oi_total = Num 50\<rparr>]])"
proof -
  let ?c = "ex_ctx ex_env"
  let ?cart = "[ex_line 2, ex_chai_line]"
  let ?t = "ex_turn ?cart"
  have cart: "updatedCart ?t \<noteq> []" "distinct (map cl_id (updatedCart ?t))"
    by simp_all
  text \<open>The merge.\<close>
  let ?a = "ex_action UPDATE_ORDER None"
  let ?s = "ex_store [ex_order CONFIRMED] (ex_session ORDERING ?cart)"
  have kind: "a_action ?a = PLACE_ORDER \<or> a_action ?a = UPDATE_ORDER" by simp
  have ex: "open_order_exists ?s (str ''t1'') (Some (str ''tb1''))"
    by (simp add: ex_open_exists)
  from place_or_update_merges_or_creates [OF kind cart, of ?c ?s] ex
  obtain i t' s' where run: "most_recent_open ?s (str ''t1'') (Some (str ''tb1'')) i"
      "process_action ?c ?a (?t, ?s) = (Inr t', s')" "orderPlaced t'"
      "merged_outcome ?cart (st_orders ?s ! i) ?s s'"
    by (auto simp: ex_resolve_alone)
  from run(1) have i: "i = 0" by (simp add: most_recent_open_def)
  from run(4) have len: "length (st_orders s') = 1"
    and row: "o_id (st_orders s' ! 0) = str ''o1''"
      "merged_lines (o_items (ex_order CONFIRMED)) ?cart (o_items (st_orders s' ! 0))"
    by (simp_all add: merged_outcome_def i)
  let ?old = "o_items (ex_order CONFIRMED)"
  have old: "?old = [\<lparr>oi_menuItemId = str ''m1'', oi_itemName = str ''Momo'', oi_unitPrice = Num 150,
                      oi_quantity = 1, oi_total = Num 150\<rparr>]"
    by (simp add: ex_order_def)
  have first: "first_line_with ?old (cl_id (ex_line 2)) 0"
    by (simp add: first_line_with_def old)
  from row(2) first have l0: "o_items (st_orders s' ! 0) ! 0 = added_to (?old ! 0) (ex_line 2)"
    unfolding merged_lines_def by (simp add: old)
  from row(2) have l1: "length (o_items (st_orders s' ! 0)) = 2"
    "drop 1 (o_items (st_orders s' ! 0)) = [order_line_of ex_chai_line]"
    unfolding merged_lines_def by (simp_all add: old)
  from len obtain x where x: "st_orders s' = [x]"
    by (cases "st_orders s'") simp_all
  from l1 x obtain u v where uv: "o_items x = [u, v]"
    by (cases "o_items x"; cases "tl (o_items x)") auto
  from l0 x uv have u: "u = \<lparr>oi_menuItemId = str ''m1'', oi_itemName = str ''Momo'',
      oi_unitPrice = Num 150, oi_quantity = 3, oi_total = Num 450\<rparr>"
    by (simp add: old added_to_def)
  from l1(2) x uv have v: "v = \<lparr>oi_menuItemId = str ''m2'', oi_itemName = str ''Chai'',
      oi_unitPrice = Num 50, oi_quantity = 1, oi_total = Num 50\<rparr>"
    by (simp add: order_line_of_def ex_chai_line_def)
  have merge: "\<exists>t' s'. process_action ?c ?a (?t, ?s) = (Inr t', s') \<and> orderPlaced t'
      \<and> map o_id (st_orders s') = [str ''o1'']
      \<and> map o_items (st_orders s')
          = [[\<lparr>oi_menuItemId = str ''m1'', oi_itemName = str ''Momo'', oi_unitPrice = Num 150,
               oi_quantity = 3, oi_total = Num 450\<rparr>,
              \<lparr>oi_menuItemId = str ''m2'', oi_itemName = str ''Chai'', oi_unitPrice = Num 50,
               oi_quantity = 1, oi_total = Num 50\<rparr>]]"
    using run(2,3) row(1) x uv u v by auto
  text \<open>The creation.\<close>
  let ?b = "ex_action PLACE_ORDER None"
  let ?s0 = "ex_store [] (ex_session ORDERING ?cart)"
  have kind0: "a_action ?b = PLACE_ORDER \<or> a_action ?b = UPDATE_ORDER" by simp
  have free: "\<not> order_number_taken ?s0 (str ''t1'') (nextOrderNumberForTenant ex_env ?s0 (str ''t1''))"
    by (simp add: order_number_taken_def)
  from place_or_update_merges_or_creates [OF kind0 cart, of ?c ?s0] free
  obtain t0 s0' where run0: "process_action ?c ?b (?t, ?s0) = (Inr t0, s0')" "orderPlaced t0"
      "created_outcome ?c (Some (str ''tb1'')) ?cart ?s0 s0'"
    by (auto simp: ex_resolve_alone ex_no_open)
  from run0(3) have "st_orders s0' \<noteq> []" "butlast (st_orders s0') = []"
    and last: "o_orderNumber (last (st_orders s0')) = str ''QS-1''"
      "o_tableId (last (st_orders s0')) = Some (str ''tb1'')"
      "o_items (last (st_orders s0')) = map order_line_of ?cart"
    by (simp_all add: created_outcome_def Let_def ex_truthy_tb1)
  then obtain y where y: "st_orders s0' = [y]"
    by (cases "st_orders s0'" rule: rev_cases) simp_all
  have create: "\<exists>t' s'. process_action ?c ?b (?t, ?s0) = (Inr t', s') \<and> orderPlaced t'
      \<and> map o_orderNumber (st_orders s') = [str ''QS-1'']
      \<and> map o_tableId (st_orders s') = [Some (str ''tb1'')]
      \<and> map o_items (st_orders s')
          = [[\<lparr>oi_menuItemId = str ''m1'', oi_itemName = str ''Momo'', oi_unitPrice = Num 150,
               oi_quantity = 2, oi_total = Num 300\<rparr>,
              \<lparr>oi_menuItemId = str ''m2'', oi_itemName = str ''Chai'', oi_unitPrice = Num 50,
               oi_quantity = 1, oi_total = Num 50\<rparr>]]"
    using run0(1,2) last y by (auto simp: order_line_of_def ex_line_def ex_chai_line_def)
  from ex merge create show ?thesis
    using ex_no_open [of "ex_session ORDERING ?cart" "str ''t1''" "Some (str ''tb1'')"]
    by (intro conjI)
qed

text \<open>
  C1, as the spec words it ("otherwise a new order is created"), fails when the allocated
  order number is taken in each of the three attempts. The resolved table \<open>T-01\<close> has no
  non-terminal order (its one order is paid) and the allocator returns the number of that
  order: the \<open>PLACE_ORDER\<close> action with a cart of one Momo throws, and the store is as it was,
  without a new order.
\<close>

theorem order_not_created_counterexample:
  "resolve_tableId (ex_ctx ex_env_stuck) (ex_action PLACE_ORDER None)
     (ex_store [ex_order PAID] (ex_session ORDERING [ex_line 1])) = Some (str ''tb1'')
   \<and> \<not> open_order_exists (ex_store [ex_order PAID] (ex_session ORDERING [ex_line 1]))
         (str ''t1'') (Some (str ''tb1''))
   \<and> process_action (ex_ctx ex_env_stuck) (ex_action PLACE_ORDER None)
        (ex_turn [ex_line 1], ex_store [ex_order PAID] (ex_session ORDERING [ex_line 1]))
      = (Inl P2002, ex_store [ex_order PAID] (ex_session ORDERING [ex_line 1]))
   \<and> st_orders (ex_store [ex_order PAID] (ex_session ORDERING [ex_line 1])) = [ex_order PAID]"
proof -
  let ?c = "ex_ctx ex_env_stuck"
  let ?a = "ex_action PLACE_ORDER None"
  let ?s = "ex_store [ex_order PAID] (ex_session ORDERING [ex_line 1])"
  have taken: "order_number_taken ?s (str ''t1'') (nextOrderNumberForTenant ex_env_stuck ?s (str ''t1''))"
    by (simp add: order_number_taken_def ex_env_stuck_def ex_order_def)
  have conflict: "order_tx ?c (resolve_tableId ?c ?a ?s) (updatedCart (ex_turn [ex_line 1]))
      (attempt_store (c_env ?c) k ?s) = Inl P2002" for k
    using taken by (simp add: order_tx_conflict_iff ex_resolve_stuck ex_open_order)
  have "place_order ?c ?a (ex_turn [ex_line 1], ?s) = (Inl P2002, attempt_store (c_env ?c) 2 ?s)"
    by (rule place_order_exhausted) (rule conflict)+
  then have "process_action ?c ?a (ex_turn [ex_line 1], ?s) = (Inl P2002, ?s)"
    by (simp add: process_action_place)
  then show ?thesis by (simp add: ex_resolve_stuck ex_open_exists)
qed

subsection \<open>Paying after placing, without a table\<close>

lemma place_paid_clean:
  "\<not> isPromptInjection (str ''momo place order paid'')"
  "\<not> isAbusive (str ''momo place order paid'')"
  "\<not> isFaultyMessage (str ''momo place order paid'')"
  "\<not> isMenuIntent (str ''momo place order paid'')"
  "detectLocale (str ''momo place order paid'') = En"
      apply (simp add: isPromptInjection_def text_defs)
     apply (simp add: isAbusive_def text_defs is_word_unit_def)
    apply (simp add: isFaultyMessage_def text_defs trim_def is_space_def is_word_unit_def)
   apply (simp add: isMenuIntent_def text_defs)
  apply (simp add: detectLocale_def text_defs is_devanagari_def)
  done

lemma place_paid_actions:
  "extract_actions OracleFailed (ex_request ''momo place order paid'') ex_tenant
     (ex_session st []) s
   = ([add_action (str ''Momo'') 1, ex_action PLACE_ORDER None,
       ex_action CONFIRM_PAYMENT None], TroubleThinking, False)"
proof -
  have m: "message (ex_request ''momo place order paid'') = str ''momo place order paid''"
      "tableLabel (ex_request ''momo place order paid'') = None"
    by (simp_all add: ex_request_def)
  have "fallback_parser (ex_request ''momo place order paid'') ex_tenant [] linked En
          TroubleThinking False
      = ([add_action (str ''Momo'') 1, ex_action PLACE_ORDER None,
          ex_action CONFIRM_PAYMENT None], TroubleThinking, False)" for linked
    using place_paid_clean(4)
    by (simp add: fallback_parser_def Let_def m ex_allItems ex_momo_def add_action_def text_defs
          fallback_action_def ex_action_def truthy_def)
  then show ?thesis
    using place_paid_clean(4,5)
    by (simp add: extract_actions_def oracle_actions_def Let_def m)
qed

lemma ex_ctx_no_table_sel [simp]:
  "c_env ex_ctx_no_table = ex_env" "c_tenantId ex_ctx_no_table = str ''t1''"
  "c_items ex_ctx_no_table = [ex_momo]" "c_tableLabel ex_ctx_no_table = None"
  "c_sessionId ex_ctx_no_table = str ''s1''"
  by (simp_all add: ex_ctx_no_table_def)

lemma ex_no_label: "requestedTableLabel ex_ctx_no_table (ex_action name None) = None"
  by (simp add: requestedTableLabel_def table_ref_def truthy_def)

lemma place_paid_turn:
  assumes "st_orders s = [ex_order CONFIRMED]"
  shows "process_actions ex_ctx_no_table
           [add_action (str ''Momo'') 1, ex_action PLACE_ORDER None,
            ex_action CONFIRM_PAYMENT None] (ex_turn [], s)
       = (Inr (placed (ex_turn [ex_line 1]) (new_order ex_ctx_no_table None [ex_line 1] s)),
          s\<lparr>st_orders := [ex_order CONFIRMED, new_order ex_ctx_no_table None [ex_line 1] s]\<rparr>)"
proof -
  let ?c = ex_ctx_no_table
  let ?place = "ex_action PLACE_ORDER None"
  let ?pay = "ex_action CONFIRM_PAYMENT None"
  let ?ord = "new_order ?c None [ex_line 1] s"
  let ?s' = "s\<lparr>st_orders := [ex_order CONFIRMED, ?ord]\<rparr>"
  have add: "process_action ?c (add_action (str ''Momo'') 1) (ex_turn [], s)
      = (Inr (ex_turn [ex_line 1]), s)"
    using ex_add_momo
    by (simp add: process_action_add add_action_def cart_reducer_def ex_turn_def)
  have tid: "resolve_tableId ?c ?place s = None"
    by (simp add: resolve_tableId_def ex_no_label)
  have tx: "order_tx ?c None [ex_line 1] s = Inr (?ord, ?s')"
    using assms
    by (simp add: order_tx_def open_order_def truthy_def order_number_taken_def occupy_def
          ex_order_def str_def)
  have "place_order ?c ?place (ex_turn [ex_line 1], s) = (Inr (placed (ex_turn [ex_line 1]) ?ord), ?s')"
    by (rule place_order_first) (simp add: tid tx)
  then have place: "process_action ?c ?place (ex_turn [ex_line 1], s)
      = (Inr (placed (ex_turn [ex_line 1]) ?ord), ?s')"
    by (simp add: process_action_place)
  have pay: "process_action ?c ?pay (placed (ex_turn [ex_line 1]) ?ord, ?s')
      = (Inr (placed (ex_turn [ex_line 1]) ?ord), ?s')"
    by (rule process_action_cancel_skipped) (simp_all add: placed_def)
  show ?thesis by (simp add: add place pay)
qed

lemma place_paid_post:
  "POST ex_env OracleFailed (Some (ex_request ''momo place order paid''))
     (ex_store [ex_order CONFIRMED] (ex_session st []))
   = finish_turn (str ''s1'')
       [add_action (str ''Momo'') 1, ex_action PLACE_ORDER None, ex_action CONFIRM_PAYMENT None]
       False
       (process_actions ex_ctx_no_table
          [add_action (str ''Momo'') 1, ex_action PLACE_ORDER None, ex_action CONFIRM_PAYMENT None]
          (ex_turn [],
           create_message
             \<lparr>m_sessionId = str ''s1'', m_sender = USER,
              m_content = UserText (str ''momo place order paid''), m_metadata = NoMetadata\<rparr>
             (ex_store [ex_order CONFIRMED] (ex_session st []))))"
proof -
  let ?req = "ex_request ''momo place order paid''"
  let ?s = "ex_store [ex_order CONFIRMED] (ex_session st [])"
  have m: "message ?req = str ''momo place order paid''" "tableLabel ?req = None"
    by (simp_all add: ex_request_def)
  have "POST ex_env OracleFailed (Some ?req) ?s
      = clean_turn ex_env OracleFailed ?req ex_tenant (ex_session st []) ?s"
    using ex_find_tenant ex_truthy_session ex_find_session place_paid_clean(1,2,3)
    by (intro POST_clean) (simp_all add: m)
  also have "\<dots> = finish_turn (str ''s1'')
       [add_action (str ''Momo'') 1, ex_action PLACE_ORDER None, ex_action CONFIRM_PAYMENT None]
       False
       (process_actions ex_ctx_no_table
          [add_action (str ''Momo'') 1, ex_action PLACE_ORDER None, ex_action CONFIRM_PAYMENT None]
          (ex_turn [],
           create_message
             \<lparr>m_sessionId = str ''s1'', m_sender = USER,
              m_content = UserText (str ''momo place order paid''), m_metadata = NoMetadata\<rparr> ?s))"
  proof -
    have tn: "tn_id ex_tenant = str ''t1''" "tn_serviceChargePercent ex_tenant = Num 10"
        "tn_taxPercent ex_tenant = Num 13"
      by (simp_all add: ex_tenant_def)
    show ?thesis
      by (simp add: clean_turn_def Let_def place_paid_actions m ex_allItems ex_ctx_def
            ex_ctx_no_table_def ex_turn_def tn)
  qed
  finally show ?thesis .
qed

text \<open>
  C10 without the condition on the earlier actions of the turn ("when a \<open>CANCEL_ORDER\<close> or
  \<open>CONFIRM_PAYMENT\<close> action carries no resolvable table label") fails. The message
  "momo place order paid" sent without a table label, while the tenant has the open order
  \<open>QS-1\<close> on table \<open>T-01\<close>, has the actions \<open>ADD_ITEM\<close>, \<open>PLACE_ORDER\<close> and
  \<open>CONFIRM_PAYMENT\<close>, none with a table. A take-away order \<open>QS-2\<close> is placed, and the
  \<open>CONFIRM_PAYMENT\<close> action that follows is skipped because an order was placed in the
  turn: no order of the tenant is transitioned, both stay \<open>CONFIRMED\<close>, and the session
  becomes \<open>CONFIRMING\<close>, not \<open>COMPLETED\<close>.
\<close>

theorem pay_after_place_without_table_counterexample:
  "map (\<lambda>a. (a_action a, a_tableId a))
     (fst (extract_actions OracleFailed (ex_request ''momo place order paid'')
             ex_tenant (ex_session BROWSING [])
             (ex_store [ex_order CONFIRMED] (ex_session BROWSING []))))
     = [(ADD_ITEM, None), (PLACE_ORDER, None), (CONFIRM_PAYMENT, None)]
   \<and> tableLabel (ex_request ''momo place order paid'') = None
   \<and> map (\<lambda>x. (o_orderNumber x, o_tableId x, o_status x))
        (st_orders (ex_store [ex_order CONFIRMED] (ex_session BROWSING [])))
       = [(str ''QS-1'', Some (str ''tb1''), CONFIRMED)]
   \<and> map (\<lambda>x. (o_orderNumber x, o_tableId x, o_status x))
        (st_orders (snd (POST ex_env OracleFailed (Some (ex_request ''momo place order paid''))
                           (ex_store [ex_order CONFIRMED] (ex_session BROWSING [])))))
       = [(str ''QS-1'', Some (str ''tb1''), CONFIRMED), (str ''QS-2'', None, CONFIRMED)]
   \<and> map_option cs_state
        (session_after (str ''s1'')
           (POST ex_env OracleFailed (Some (ex_request ''momo place order paid''))
              (ex_store [ex_order CONFIRMED] (ex_session BROWSING []))))
       = Some CONFIRMING"
proof -
  let ?s = "ex_store [ex_order CONFIRMED] (ex_session BROWSING [])"
  let ?s1 = "create_message
             \<lparr>m_sessionId = str ''s1'', m_sender = USER,
              m_content = UserText (str ''momo place order paid''), m_metadata = NoMetadata\<rparr> ?s"
  have s1: "st_orders ?s1 = [ex_order CONFIRMED]"
    by (simp add: create_message_def ex_store_def)
  have acts: "map (\<lambda>a. (a_action a, a_tableId a))
     (fst (extract_actions OracleFailed (ex_request ''momo place order paid'')
             ex_tenant (ex_session BROWSING []) ?s))
     = [(ADD_ITEM, None), (PLACE_ORDER, None), (CONFIRM_PAYMENT, None)]"
    by (simp add: place_paid_actions add_action_def)
  have req: "tableLabel (ex_request ''momo place order paid'') = None"
    by (simp add: ex_request_def)
  have before: "map (\<lambda>x. (o_orderNumber x, o_tableId x, o_status x)) (st_orders ?s)
       = [(str ''QS-1'', Some (str ''tb1''), CONFIRMED)]"
    by (simp add: ex_store_def ex_order_def)
  have post: "POST ex_env OracleFailed (Some (ex_request ''momo place order paid'')) ?s
     = finish_turn (str ''s1'')
       [add_action (str ''Momo'') 1, ex_action PLACE_ORDER None, ex_action CONFIRM_PAYMENT None]
       False
       (Inr (placed (ex_turn [ex_line 1]) (new_order ex_ctx_no_table None [ex_line 1] ?s1)),
        ?s1\<lparr>st_orders := [ex_order CONFIRMED, new_order ex_ctx_no_table None [ex_line 1] ?s1]\<rparr>)"
    unfolding place_paid_post using place_paid_turn [OF s1] by simp
  have orders: "map (\<lambda>x. (o_orderNumber x, o_tableId x, o_status x))
        (st_orders (snd (POST ex_env OracleFailed (Some (ex_request ''momo place order paid'')) ?s)))
       = [(str ''QS-1'', Some (str ''tb1''), CONFIRMED), (str ''QS-2'', None, CONFIRMED)]"
    unfolding post
    by (simp add: finish_turn_def create_message_def update_session_def new_order_def Let_def
          truthy_def ex_order_def ex_store_def)
  have session: "map_option cs_state
        (session_after (str ''s1'')
           (POST ex_env OracleFailed (Some (ex_request ''momo place order paid'')) ?s))
       = Some CONFIRMING"
    unfolding post
    by (simp add: finish_turn_def session_after_def create_message_def update_session_def
          placed_def final_state_def ex_store_def ex_turn_def)
  from acts req before orders session show ?thesis by (intro conjI)
qed


section \<open>Letter case outside ASCII\<close>

text \<open>
  Three conversions outside ASCII: capital E with acute becomes small; dotless i becomes the
  ASCII capital I, so that an action name written with it is accepted; capital sigma at the
  end of a word becomes final sigma.
\<close>

lemma toLowerCase_example_latin: "toLowerCase [201] = [233]"
  by (simp add: toLowerCase_def lower_rows_def code_units_def)

lemma toUpperCase_example_dotless_i: "toUpperCase ([97, 100, 100, 95, 305, 116, 101, 109]) = str ''ADD_ITEM''"
  by (simp add: toUpperCase_def upper_point_def upper_special_def upper_rows_def code_units_def str_def)

lemma toLowerCase_example_final_sigma: "toLowerCase [927, 916, 927, 931] = [959, 948, 959, 962]"
  by (simp add: toLowerCase_def lower_rows_def code_units_def final_sigma_def case_ignorable_def cased_def
       in_ranges_def case_ignorable_ranges_def cased_ranges_def)

text \<open>
  So an action whose name the oracle wrote with a dotless i is an \<open>ADD_ITEM\<close>, and the menu
  item \<open>CAF\<close>+E with acute is found under its name in small letters.
\<close>

lemma normalizeAction_example_dotless_i:
  "normalizeAction \<lparr>ra_action = [97, 100, 100, 95, 305, 116, 101, 109], ra_name = Some (str ''Momo''),
                    ra_tableId = None, ra_qty = None\<rparr>
   = Some \<lparr>a_action = ADD_ITEM, a_name = Some (str ''Momo''), a_tableId = None, a_qty = Some 1\<rparr>"
proof -
  have "trim [97, 100, 100, 95, 305, 116, 101, 109] = [97, 100, 100, 95, 305, 116, 101, 109]"
    by (simp add: trim_def is_space_def)
  moreover have "trim (str ''Momo'') = str ''Momo''"
    by (simp add: trim_def is_space_def str_def)
  moreover have "map_of ALLOWED_ACTIONS (str ''ADD_ITEM'') = Some ADD_ITEM"
    by (simp add: ALLOWED_ACTIONS_def str_def)
  ultimately show ?thesis
    by (simp add: normalizeAction_def toUpperCase_example_dotless_i)
qed

lemma find_menu_item_example_latin:
  "find_menu_item [\<lparr>mi_id = str ''m3'', mi_name = [67, 65, 70, 201], mi_price = Num 80,
                     mi_isAvailable = True\<rparr>] (Some [99, 97, 102, 233])
   = Some \<lparr>mi_id = str ''m3'', mi_name = [67, 65, 70, 201], mi_price = Num 80,
            mi_isAvailable = True\<rparr>"
proof -
  have "toLowerCase [67, 65, 70, 201] = [99, 97, 102, 233]"
    by (simp add: toLowerCase_def lower_rows_def code_units_def)
  moreover have "toLowerCase [99, 97, 102, 233] = [99, 97, 102, 233]"
    by (simp add: toLowerCase_def lower_rows_def code_units_def)
  ultimately show ?thesis by (simp add: find_menu_item_def)
qed


end
